(* ===== verification/Prelude.thy ===== *)
theory Prelude
  imports Complex_Main "HOL-Library.Sublist"
begin

text \<open>
  Shared vocabulary of the greenhouse controller model (\<^verbatim>\<open>src/sensor.py\<close>):
  the Python exceptions the program raises or catches, the string operations of
  the Python 2 runtime it relies on (\<^verbatim>\<open>str.replace\<close>, \<^verbatim>\<open>str.join\<close>,
  \<^verbatim>\<open>repr\<close> of strings and integers), and the generic list lemmas the
  component theories share.
\<close>

named_theorems op_defs "unfolding rules of the modelled operations"
named_theorems frame_simps "fields an operation leaves unchanged"

section \<open>Python exceptions\<close>

text \<open>
  The program distinguishes three kinds of exception: \<^verbatim>\<open>botocore.exceptions.ClientError\<close>
  (caught around the S3 upload, with its error code), \<^verbatim>\<open>KeyboardInterrupt\<close> (a
  \<^verbatim>\<open>BaseException\<close> but not an \<^verbatim>\<open>Exception\<close>: \<^verbatim>\<open>except Exception\<close> does not
  catch it, a bare \<^verbatim>\<open>except:\<close> does), and every other \<^verbatim>\<open>Exception\<close>
  (camera, sensor, DynamoDB, file and upload failures), named by its message.
\<close>

datatype exn = ClientError string | KeyboardInterrupt | Error string

definition is_Exception :: "exn \<Rightarrow> bool" where
  "is_Exception e \<longleftrightarrow> e \<noteq> KeyboardInterrupt"

definition is_ClientError :: "exn \<Rightarrow> bool" where
  "is_ClientError e \<longleftrightarrow> (case e of ClientError _ \<Rightarrow> True | _ \<Rightarrow> False)"

section \<open>Python strings\<close>

text \<open>
  \<^verbatim>\<open>s.replace(old, new)\<close>: every non-overlapping occurrence of \<open>old\<close>, from the
  left, is replaced by \<open>new\<close>; an empty \<open>old\<close> inserts \<open>new\<close> around every
  character. The arguments are in the order of the call \<open>s.replace(old, new)\<close>.
\<close>

function py_replace :: "string \<Rightarrow> string \<Rightarrow> string \<Rightarrow> string" where
  "py_replace s old new =
     (if old = [] then new @ concat (map (\<lambda>c. c # new) s)
      else case s of
        [] \<Rightarrow> []
      | c # cs \<Rightarrow>
          (if take (length old) s = old
           then new @ py_replace (drop (length old) s) old new
           else c # py_replace cs old new))"
  by pat_completeness auto
termination
  by (relation "measure (\<lambda>(s, old, new). length s)") auto

declare py_replace.simps [simp del]

text \<open>\<^verbatim>\<open>sep.join(xs)\<close>.\<close>

fun py_join :: "string \<Rightarrow> string list \<Rightarrow> string" where
  "py_join sep [] = []"
| "py_join sep [x] = x"
| "py_join sep (x # y # zs) = x @ sep @ py_join sep (y # zs)"

text \<open>
  \<^verbatim>\<open>s.split(sep)\<close> for a non-empty separator: the pieces between the
  occurrences of \<open>sep\<close> found from the left, empty pieces included. (Python raises
  \<^verbatim>\<open>ValueError\<close> for an empty separator; the model then returns the whole
  string.)
\<close>

function py_split :: "string \<Rightarrow> string \<Rightarrow> string list" where
  "py_split [] sep = [[]]"
| "py_split (c # cs) sep =
     (if sep \<noteq> [] \<and> take (length sep) (c # cs) = sep
      then [] # py_split (drop (length sep) (c # cs)) sep
      else (case py_split cs sep of [] \<Rightarrow> [[c]] | x # xs \<Rightarrow> (c # x) # xs))"
  by pat_completeness auto
termination
  by (relation "measure (\<lambda>(s, sep). length s)") auto

text \<open>Decimal digits of a natural number, as \<^verbatim>\<open>str\<close> prints an \<^verbatim>\<open>int\<close>.\<close>

fun py_digits :: "nat \<Rightarrow> string" where
  "py_digits n = (if n < 10 then [char_of (48 + n)] else py_digits (n div 10) @ [char_of (48 + n mod 10)])"

declare py_digits.simps [simp del]

definition py_str_int :: "int \<Rightarrow> string" where
  "py_str_int i = (if i < 0 then CHR ''-'' # py_digits (nat (- i)) else py_digits (nat i))"

text \<open>Decimal digits and the number a string of them denotes.\<close>

definition is_digit :: "char \<Rightarrow> bool" where
  "is_digit c \<longleftrightarrow> (48::nat) \<le> of_char c \<and> of_char c \<le> (57::nat)"

definition digits_val :: "string \<Rightarrow> nat" where
  "digits_val ds = foldl (\<lambda>n c. 10 * n + (of_char c - 48)) 0 ds"

text \<open>
  \<^verbatim>\<open>repr\<close> of a Python 2 byte string: single quotes, unless the string holds a
  single quote and no double quote; the quote in use and the backslash are escaped,
  tab, newline and carriage return are written \<^verbatim>\<open>\t \n \r\<close>, other
  non-printable bytes \<^verbatim>\<open>\xNN\<close>.
\<close>

definition hex_digit :: "nat \<Rightarrow> char" where
  "hex_digit n = (if n < 10 then char_of (48 + n) else char_of (87 + n))"

definition py_repr_char :: "char \<Rightarrow> char \<Rightarrow> string" where
  "py_repr_char q c =
     (if c = q \<or> c = CHR 0x5C then [CHR 0x5C, c]
      else if c = CHR 0x09 then [CHR 0x5C, CHR ''t'']
      else if c = CHR ''\<newline>'' then [CHR 0x5C, CHR ''n'']
      else if c = CHR 0x0D then [CHR 0x5C, CHR ''r'']
      else if of_char c < (32::nat) \<or> (127::nat) \<le> of_char c
      then [CHR 0x5C, CHR ''x'', hex_digit (of_char c div 16), hex_digit (of_char c mod 16)]
      else [c])"

definition py_repr_str :: "string \<Rightarrow> string" where
  "py_repr_str s =
     (let q = (if CHR 0x27 \<in> set s \<and> CHR 0x22 \<notin> set s then CHR 0x22 else CHR 0x27)
      in q # concat (map (py_repr_char q) s) @ [q])"

text \<open>A printable string with no quote or backslash is printed between single quotes.\<close>

definition plain_str :: "string \<Rightarrow> bool" where
  "plain_str s \<longleftrightarrow>
     (\<forall>c \<in> set s. (32::nat) \<le> of_char c \<and> of_char c < (127::nat) \<and> c \<noteq> CHR 0x27 \<and> c \<noteq> CHR 0x22 \<and> c \<noteq> CHR 0x5C)"

section \<open>Facts about the shared definitions\<close>

lemma is_Exception_simps [simp]:
  "is_Exception (ClientError c)" "\<not> is_Exception KeyboardInterrupt" "is_Exception (Error m)"
  by (simp_all add: is_Exception_def)

lemma is_ClientError_simps [simp]:
  "is_ClientError (ClientError c)" "\<not> is_ClientError KeyboardInterrupt" "\<not> is_ClientError (Error m)"
  by (simp_all add: is_ClientError_def)

lemma py_replace_Nil [simp]: "old \<noteq> [] \<Longrightarrow> py_replace [] old new = []"
  by (simp add: py_replace.simps)

lemma py_replace_char_Cons [simp]:
  "py_replace (c # cs) [d] new = (if c = d then new @ py_replace cs [d] new else c # py_replace cs [d] new)"
  by (simp add: py_replace.simps [of "c # cs"])

lemma py_replace_prefix:
  "old \<noteq> [] \<Longrightarrow> py_replace (old @ s) old new = new @ py_replace s old new"
  by (cases old) (simp_all add: py_replace.simps [of "_ # _ @ s"])

text \<open>A prefix without the first character of \<open>old\<close> is kept as it is.\<close>

lemma py_replace_skip:
  assumes "old \<noteq> []" and "hd old \<notin> set s"
  shows "py_replace (s @ t) old new = s @ py_replace t old new"
  using assms(2)
proof (induction s)
  case Nil
  then show ?case by simp
next
  case (Cons c cs)
  from assms(1) Cons.prems have "take (length old) (c # cs @ t) \<noteq> old"
    by (cases old) auto
  with assms(1) Cons show ?case by (simp add: py_replace.simps [of "c # cs @ t"])
qed

text \<open>Deleting a single character, as the log line does with quotes and braces, is a filter.\<close>

lemma py_replace_delete_char: "py_replace s [d] [] = filter (\<lambda>c. c \<noteq> d) s"
  by (induction s) simp_all

lemma set_py_join: "set (py_join sep xs) \<subseteq> set sep \<union> (\<Union>x \<in> set xs. set x)"
  by (induction sep xs rule: py_join.induct) auto

lemma py_split_not_Nil [simp]: "py_split s sep \<noteq> []"
  by (induction s sep rule: py_split.induct) (auto split: list.splits)

lemma py_join_Cons_Cons: "py_join sep ((c # x) # xs) = c # py_join sep (x # xs)"
  by (cases xs) simp_all

lemma py_join_Nil_Cons: "ys \<noteq> [] \<Longrightarrow> py_join sep ([] # ys) = sep @ py_join sep ys"
  by (cases ys) simp_all

text \<open>Joining the pieces gives the string back.\<close>

lemma py_join_py_split: "py_join sep (py_split s sep) = s"
proof (induction s sep rule: py_split.induct)
  case (1 sep)
  then show ?case by simp
next
  case (2 c cs sep)
  show ?case
  proof (cases "sep \<noteq> [] \<and> take (length sep) (c # cs) = sep")
    case True
    with "2.IH"(1) have "py_join sep (py_split (drop (length sep) (c # cs)) sep) = drop (length sep) (c # cs)"
      by blast
    moreover from True have "py_split (c # cs) sep = [] # py_split (drop (length sep) (c # cs)) sep"
      by simp
    moreover from True have "sep @ drop (length sep) (c # cs) = c # cs"
      by (metis append_take_drop_id)
    ultimately show ?thesis by (simp add: py_join_Nil_Cons)
  next
    case False
    with "2.IH"(2) show ?thesis
      by (auto simp: py_join_Cons_Cons split: list.splits)
  qed
qed

text \<open>A piece that does not hold the separator's first character is found whole.\<close>

lemma py_split_no_sep:
  "sep \<noteq> [] \<Longrightarrow> hd sep \<notin> set x \<Longrightarrow> py_split x sep = [x]"
proof (induction x)
  case Nil
  then show ?case by simp
next
  case (Cons c cs)
  then have "take (length sep) (c # cs) \<noteq> sep" by (cases sep) auto
  with Cons show ?case by simp
qed

lemma py_split_append_sep:
  "sep \<noteq> [] \<Longrightarrow> hd sep \<notin> set x \<Longrightarrow> py_split (x @ sep @ rest) sep = x # py_split rest sep"
proof (induction x)
  case Nil
  then show ?case by (cases sep) simp_all
next
  case (Cons c cs)
  then have "take (length sep) (c # cs @ sep @ rest) \<noteq> sep" by (cases sep) auto
  with Cons show ?case by simp
qed

lemma py_split_py_join:
  "sep \<noteq> [] \<Longrightarrow> xs \<noteq> [] \<Longrightarrow> \<forall>x \<in> set xs. hd sep \<notin> set x \<Longrightarrow> py_split (py_join sep xs) sep = xs"
proof (induction sep xs rule: py_join.induct)
  case (1 sep)
  then show ?case by simp
next
  case (2 sep x)
  then show ?case by (simp add: py_split_no_sep)
next
  case (3 sep x y zs)
  then show ?case by (simp add: py_split_append_sep)
qed

lemma filter_py_join: "filter P (py_join sep xs) = py_join (filter P sep) (map (filter P) xs)"
  by (induction sep xs rule: py_join.induct) simp_all

lemma py_digits_one: "n < 10 \<Longrightarrow> py_digits n = [char_of (48 + n)]"
  by (simp add: py_digits.simps)

lemma py_digits_more: "\<not> n < 10 \<Longrightarrow> py_digits n = py_digits (n div 10) @ [char_of (48 + n mod 10)]"
  by (simp add: py_digits.simps [of n])

lemma digits_val_append:
  "digits_val (xs @ ys) = digits_val xs * 10 ^ length ys + digits_val ys"
proof (induction ys rule: rev_induct)
  case Nil
  then show ?case by (simp add: digits_val_def)
next
  case (snoc y ys)
  then show ?case by (simp add: digits_val_def algebra_simps)
qed

lemma digit_char_of [simp]: "(k::nat) < 10 \<Longrightarrow> of_char (char_of (48 + k) :: char) = (48 + k :: nat)"
  by (simp add: of_char_of)

lemma is_digit_char_of: "(k::nat) < 10 \<Longrightarrow> is_digit (char_of (48 + k))"
  by (simp add: is_digit_def)

lemma py_digits_is_digit: "list_all is_digit (py_digits n)"
proof (induction n rule: py_digits.induct)
  case (1 n)
  then show ?case
    by (cases "n < 10") (simp_all add: py_digits_one py_digits_more is_digit_char_of)
qed

lemma digits_val_py_digits [simp]: "digits_val (py_digits n) = n"
proof (induction n rule: py_digits.induct)
  case (1 n)
  then show ?case
    by (cases "n < 10") (simp_all add: py_digits_one py_digits_more digits_val_def)
qed

lemma py_digits_ne [simp]: "py_digits n \<noteq> []"
  by (cases "n < 10") (simp_all add: py_digits_one py_digits_more)

lemma py_repr_char_plain:
  "(32::nat) \<le> of_char c \<Longrightarrow> of_char c < (127::nat) \<Longrightarrow> c \<noteq> CHR 0x27 \<Longrightarrow> c \<noteq> CHR 0x5C \<Longrightarrow>
   py_repr_char (CHR 0x27) c = [c]"
  by (auto simp: py_repr_char_def)

lemma py_repr_str_plain: "plain_str s \<Longrightarrow> py_repr_str s = CHR 0x27 # s @ [CHR 0x27]"
proof -
  assume p: "plain_str s"
  then have "concat (map (py_repr_char (CHR 0x27)) s) = s"
    by (induction s) (auto simp: plain_str_def py_repr_char_plain)
  moreover from p have "CHR 0x27 \<notin> set s" by (auto simp: plain_str_def)
  ultimately show ?thesis by (simp add: py_repr_str_def Let_def)
qed

text \<open>A character is not a newline when its code is not 10.\<close>

lemma not_newline_by_code: "of_char c \<noteq> (10::nat) \<Longrightarrow> c \<noteq> CHR ''\<newline>''"
  by auto

lemma length_list_update_same [simp]: "length (xs[i := v]) = length xs"
  by simp

lemma prefix_append_self [intro]: "prefix xs (xs @ ys)"
  by (rule prefixI) simp

end
