(* ===== verification/Devices.thy ===== *)
theory Devices
  imports Prelude
begin

text \<open>
  The devices \<^verbatim>\<open>src/sensor.py\<close> drives, modelled at the boundary the program
  uses: the Sense HAT's 8x8 LED matrix (\<^verbatim>\<open>set_pixel\<close>, \<^verbatim>\<open>set_pixels\<close>,
  \<^verbatim>\<open>clear\<close>), its joystick event actions, and the repository's helper modules
  \<^verbatim>\<open>temp_utils\<close> and \<^verbatim>\<open>fan_animation\<close>, which are not part of \<^verbatim>\<open>src/\<close>
  and are modelled from the specification. The colour constants and the success
  pattern are the program's own (lines 27--41).
\<close>

section \<open>The LED matrix\<close>

text \<open>
  A pixel is an RGB triple; the matrix is the list of its 64 pixels in the order
  \<^verbatim>\<open>set_pixels\<close> takes them, row by row, so that pixel \<open>(x, y)\<close> is entry
  \<open>8 * y + x\<close> (the Sense HAT library maps both calls through the same table).
\<close>

type_synonym pixel = "nat \<times> nat \<times> nat"
type_synonym matrix = "pixel list"

definition R :: pixel where "R = (255, 0, 0)"
definition G :: pixel where "G = (0, 255, 0)"
definition B :: pixel where "B = (0, 0, 255)"
definition O_pix :: pixel where "O_pix = (0, 0, 0)"

text \<open>The green smiley face, \<^verbatim>\<open>success_pix\<close> (lines 32--41).\<close>

definition success_pix :: matrix where
  "success_pix = [
    O_pix, O_pix, G, G, G, G, O_pix, O_pix,
    O_pix, G, O_pix, O_pix, O_pix, O_pix, G, O_pix,
    G, O_pix, G, O_pix, O_pix, G, O_pix, G,
    G, O_pix, O_pix, O_pix, O_pix, O_pix, O_pix, G,
    G, O_pix, G, O_pix, O_pix, G, O_pix, G,
    G, O_pix, O_pix, G, G, O_pix, O_pix, G,
    O_pix, G, O_pix, O_pix, O_pix, O_pix, G, O_pix,
    O_pix, O_pix, G, G, G, G, O_pix, O_pix]"

text \<open>
  \<^verbatim>\<open>sense.clear()\<close> sets every pixel to black; \<^verbatim>\<open>sense.set_pixel(x, y, r, g, b)\<close>
  sets one. The library raises \<^verbatim>\<open>ValueError\<close> for coordinates outside 0..7 and
  colours outside 0..255; the program only calls it with constant arguments inside
  these ranges (pixels (0,0) and (0,2), channels at most 255), so the model updates
  the list and leaves out the error branch.
\<close>

definition blank :: matrix where
  "blank = replicate 64 O_pix"

definition set_pixel :: "nat \<Rightarrow> nat \<Rightarrow> pixel \<Rightarrow> matrix \<Rightarrow> matrix" where
  "set_pixel x y c m = m[8 * y + x := c]"

definition pixel_at :: "matrix \<Rightarrow> nat \<Rightarrow> nat \<Rightarrow> pixel" where
  "pixel_at m x y = m ! (8 * y + x)"

text \<open>A well-formed display: 64 pixels, each channel a byte.\<close>

definition wf_matrix :: "matrix \<Rightarrow> bool" where
  "wf_matrix m \<longleftrightarrow> length m = 64 \<and> (\<forall>(r, g, b) \<in> set m. r \<le> 255 \<and> g \<le> 255 \<and> b \<le> 255)"

section \<open>Joystick events\<close>

text \<open>The \<^verbatim>\<open>action\<close> field of a Sense HAT \<^verbatim>\<open>InputEvent\<close>.\<close>

datatype action = ACTION_PRESSED | ACTION_RELEASED | ACTION_HELD

section \<open>Helper modules of the repository\<close>

text \<open>
  \<^verbatim>\<open>temp_utils.f_to_c\<close> and \<^verbatim>\<open>temp_utils.c_to_f\<close>: the Fahrenheit/Celsius
  conversions the specification names (the fan threshold is 97 F "converted to the
  sensor's native unit", Celsius). Temperatures are reals: the program compares
  floats, and the comparisons are exact on the values it reads.
\<close>

definition f_to_c :: "real \<Rightarrow> real" where
  "f_to_c f = (f - 32) * 5 / 9"

definition c_to_f :: "real \<Rightarrow> real" where
  "c_to_f c = c * 9 / 5 + 32"

section \<open>Facts about the display and the conversions\<close>

lemma length_success_pix [simp]: "length success_pix = 64"
  by (simp add: success_pix_def)

lemma length_blank [simp]: "length blank = 64"
  by (simp add: blank_def)

lemma wf_blank [simp]: "wf_matrix blank"
  by (simp add: wf_matrix_def blank_def O_pix_def)

lemma wf_success_pix [simp]: "wf_matrix success_pix"
  by (simp add: wf_matrix_def success_pix_def O_pix_def G_def)

lemma wf_set_pixel [intro]:
  assumes "wf_matrix m" and "c = (r, g, b)" and "r \<le> 255" and "g \<le> 255" and "b \<le> 255"
  shows "wf_matrix (set_pixel x y c m)"
  using assms by (auto simp: wf_matrix_def set_pixel_def dest!: set_update_subset_insert [THEN subsetD])

lemma pixel_at_set_pixel_same [simp]:
  "x < 8 \<Longrightarrow> y < 8 \<Longrightarrow> length m = 64 \<Longrightarrow> pixel_at (set_pixel x y c m) x y = c"
  by (simp add: pixel_at_def set_pixel_def)

lemma pix_index_inj:
  assumes "x < 8" and "x' < 8" and "8 * y + x = 8 * y' + (x'::nat)"
  shows "x = x' \<and> y = y'"
proof -
  have "(8 * y + x) mod 8 = (8 * y' + x') mod 8" and "(8 * y + x) div 8 = (8 * y' + x') div 8"
    using assms(3) by simp_all
  with assms(1,2) show ?thesis by simp
qed

lemma pixel_at_set_pixel_other [simp]:
  "x < 8 \<Longrightarrow> x' < 8 \<Longrightarrow> (x, y) \<noteq> (x', y') \<Longrightarrow>
   pixel_at (set_pixel x y c m) x' y' = pixel_at m x' y'"
proof -
  assume "x < 8" "x' < 8" "(x, y) \<noteq> (x', y')"
  then have "8 * y + x \<noteq> 8 * y' + x'" by (auto dest: pix_index_inj)
  then show ?thesis by (simp add: pixel_at_def set_pixel_def)
qed

lemma pixel_at_blank [simp]: "x < 8 \<Longrightarrow> y < 8 \<Longrightarrow> pixel_at blank x y = O_pix"
  by (simp add: pixel_at_def blank_def)

lemma c_to_f_f_to_c [simp]: "c_to_f (f_to_c f) = f"
  by (simp add: c_to_f_def f_to_c_def field_simps)

lemma f_to_c_mono_iff: "f_to_c a < f_to_c b \<longleftrightarrow> a < b"
  by (simp add: f_to_c_def divide_less_cancel)

end
