(* ===== verification/State.thy ===== *)
theory State
  imports Devices
begin

text \<open>
  The state of the controller process of \<^verbatim>\<open>src/sensor.py\<close>: its module-level
  globals, the outputs it drives, and the external stores it writes, as one record that
  every operation takes and returns. The configuration constants (lines 19--26, 52) are
  a second record, fixed at start-up.
\<close>

section \<open>Records written to DynamoDB\<close>

text \<open>
  The \<^verbatim>\<open>Item\<close> dictionary of \<^verbatim>\<open>log_sensor\<close> holds strings and one integer
  (\<^verbatim>\<open>'date': int(time.time())\<close>); it is an association list in the order of the
  dictionary literal.
\<close>

datatype pyval = PyStr string | PyInt int

type_synonym item = "(string \<times> pyval) list"

section \<open>Configuration\<close>

record config =
  s3_bucket :: string
  photo_folder :: string
  turn_on_fan_at_temp :: real

text \<open>The values of lines 20, 22 and 52.\<close>

definition cfg :: config where
  "cfg = \<lparr>s3_bucket = ''blackholegreenhouse'', photo_folder = ''photos'',
          turn_on_fan_at_temp = f_to_c 97\<rparr>"

section \<open>The process state\<close>

text \<open>
  \<^item> \<open>is_log_save_success\<close>, \<open>is_fan_on\<close>, \<open>is_relay2_on\<close>: the module globals of
    lines 51, 149 and 184 (\<open>is_relay2_on\<close> is the integer 0 or 1 of the source);
  \<^item> \<open>fan_active\<close>, \<open>relay2_active\<close>: whether the active-low \<^verbatim>\<open>OutputDevice\<close>s on
    GPIO 17 and 27 are switched on;
  \<^item> \<open>animating\<close>: whether \<^verbatim>\<open>fan_animation\<close> is playing;
  \<^item> \<open>leds\<close>: the LED matrix;
  \<^item> \<open>photos\<close>: the files \<^verbatim>\<open>camera.capture\<close> wrote, in order;
  \<^item> \<open>s3\<close>: the objects uploaded, as (bucket, key), in order;
  \<^item> \<open>table\<close>: the items \<^verbatim>\<open>table.put_item\<close> stored in table \<^verbatim>\<open>Greenhouse\<close>, in order;
  \<^item> \<open>log_txt\<close>: the contents of \<^verbatim>\<open>./log.txt\<close>.
\<close>

record world =
  is_log_save_success :: bool
  is_fan_on :: bool
  is_relay2_on :: int
  fan_active :: bool
  relay2_active :: bool
  animating :: bool
  leds :: matrix
  photos :: "string list"
  s3 :: "(string \<times> string) list"
  table :: "item list"
  log_txt :: string

text \<open>
  The state after the module has been imported (lines 43--53, 149, 184): the relays are
  created switched off, the matrix is cleared, the flags are false and 0. The log file
  keeps whatever an earlier run left in it (it is opened in append mode only).
\<close>

definition init_world :: "string \<Rightarrow> world" where
  "init_world old_log =
     \<lparr>is_log_save_success = False, is_fan_on = False, is_relay2_on = 0,
      fan_active = False, relay2_active = False, animating = False,
      leds = blank, photos = [], s3 = [], table = [], log_txt = old_log\<rparr>"

section \<open>Invariants of the state\<close>

text \<open>
  The fan flag agrees with the relay and with the animation; the second relay's flag is
  0 or 1 and agrees with its relay; the matrix is well formed.
\<close>

definition fan_consistent :: "world \<Rightarrow> bool" where
  "fan_consistent w \<longleftrightarrow> fan_active w = is_fan_on w \<and> animating w = is_fan_on w"

definition relay_consistent :: "world \<Rightarrow> bool" where
  "relay_consistent w \<longleftrightarrow>
     (is_relay2_on w = 0 \<or> is_relay2_on w = 1) \<and> relay2_active w = (is_relay2_on w = 1)"

definition wf_world :: "world \<Rightarrow> bool" where
  "wf_world w \<longleftrightarrow> fan_consistent w \<and> relay_consistent w \<and> wf_matrix (leds w)"

lemma wf_init_world [simp]: "wf_world (init_world l)"
  by (simp add: wf_world_def fan_consistent_def relay_consistent_def init_world_def)

text \<open>Updates of the stores and of the success flag do not touch the invariant.\<close>

lemma wf_world_store_upd [simp]:
  "wf_world (w\<lparr>table := t\<rparr>) = wf_world w"
  "wf_world (w\<lparr>log_txt := l\<rparr>) = wf_world w"
  "wf_world (w\<lparr>photos := p\<rparr>) = wf_world w"
  "wf_world (w\<lparr>s3 := o3\<rparr>) = wf_world w"
  "wf_world (w\<lparr>is_log_save_success := b\<rparr>) = wf_world w"
  "wf_world (w\<lparr>leds := m\<rparr>) = (fan_consistent w \<and> relay_consistent w \<and> wf_matrix m)"
  by (simp_all add: wf_world_def fan_consistent_def relay_consistent_def)

lemma consistent_leds_upd [simp]:
  "fan_consistent (w\<lparr>leds := m\<rparr>) = fan_consistent w"
  "relay_consistent (w\<lparr>leds := m\<rparr>) = relay_consistent w"
  by (simp_all add: fan_consistent_def relay_consistent_def)

lemma cfg_threshold: "turn_on_fan_at_temp cfg = 325 / 9"
  by (simp add: cfg_def f_to_c_def)

end
