(* ===== verification/Status.thy ===== *)
theory Status
  imports State
begin

text \<open>
  The status indicator of \<^verbatim>\<open>src/sensor.py\<close> (lines 87--94): a red pixel at
  (0, 0) for an error, a green one at the same place for a successful save. The error
  routine assigns \<^verbatim>\<open>is_log_save_success = False\<close> without a \<^verbatim>\<open>global\<close>
  declaration, so Python binds a local variable and the module flag is left as it is:
  the model leaves it unchanged.
\<close>

definition display_error_led :: "world \<Rightarrow> world" where
  "display_error_led w = w\<lparr>leds := set_pixel 0 0 (255, 0, 0) (leds w)\<rparr>"

definition display_success_led :: "world \<Rightarrow> world" where
  "display_success_led w =
     (if is_log_save_success w then w\<lparr>leds := set_pixel 0 0 (0, 240, 0) (leds w)\<rparr> else w)"

declare display_error_led_def [op_defs] display_success_led_def [op_defs]

text \<open>The status pixel after each routine.\<close>

definition status_pixel :: "world \<Rightarrow> pixel" where
  "status_pixel w = pixel_at (leds w) 0 0"

lemma status_pixel_error [simp]:
  "length (leds w) = 64 \<Longrightarrow> status_pixel (display_error_led w) = (255, 0, 0)"
  by (simp add: status_pixel_def display_error_led_def)

lemma status_pixel_success:
  "length (leds w) = 64 \<Longrightarrow>
   status_pixel (display_success_led w) = (if is_log_save_success w then (0, 240, 0) else status_pixel w)"
  by (simp add: status_pixel_def display_success_led_def)

text \<open>Both routines only touch the matrix, and only pixel (0, 0).\<close>

lemma display_error_led_frame [frame_simps]:
  "is_log_save_success (display_error_led w) = is_log_save_success w"
  "is_fan_on (display_error_led w) = is_fan_on w"
  "is_relay2_on (display_error_led w) = is_relay2_on w"
  "fan_active (display_error_led w) = fan_active w"
  "relay2_active (display_error_led w) = relay2_active w"
  "animating (display_error_led w) = animating w"
  "photos (display_error_led w) = photos w"
  "s3 (display_error_led w) = s3 w"
  "table (display_error_led w) = table w"
  "log_txt (display_error_led w) = log_txt w"
  "length (leds (display_error_led w)) = length (leds w)"
  by (simp_all add: display_error_led_def set_pixel_def)

lemma display_success_led_frame [frame_simps]:
  "is_log_save_success (display_success_led w) = is_log_save_success w"
  "is_fan_on (display_success_led w) = is_fan_on w"
  "is_relay2_on (display_success_led w) = is_relay2_on w"
  "fan_active (display_success_led w) = fan_active w"
  "relay2_active (display_success_led w) = relay2_active w"
  "animating (display_success_led w) = animating w"
  "photos (display_success_led w) = photos w"
  "s3 (display_success_led w) = s3 w"
  "table (display_success_led w) = table w"
  "log_txt (display_success_led w) = log_txt w"
  "length (leds (display_success_led w)) = length (leds w)"
  by (simp_all add: display_success_led_def set_pixel_def)

lemma wf_matrix_display_led [intro]:
  "wf_matrix (leds w) \<Longrightarrow> wf_matrix (leds (display_error_led w))"
  "wf_matrix (leds w) \<Longrightarrow> wf_matrix (leds (display_success_led w))"
  by (auto simp: display_error_led_def display_success_led_def)

lemma wf_display_error_led [intro]: "wf_world w \<Longrightarrow> wf_world (display_error_led w)"
  by (auto simp: wf_world_def fan_consistent_def relay_consistent_def display_error_led_def)

lemma wf_display_success_led [intro]: "wf_world w \<Longrightarrow> wf_world (display_success_led w)"
  by (auto simp: wf_world_def fan_consistent_def relay_consistent_def display_success_led_def)

lemma relay_pixel_display_error_led [simp]:
  "pixel_at (leds (display_error_led w)) 0 2 = pixel_at (leds w) 0 2"
  by (simp add: display_error_led_def)

lemma relay_pixel_display_success_led [simp]:
  "pixel_at (leds (display_success_led w)) 0 2 = pixel_at (leds w) 0 2"
  by (simp add: display_success_led_def)

end
