(* ===== verification/Clock.thy ===== *)
theory Clock
  imports Prelude "HOL-Library.Char_ord" "HOL-Library.List_Lexorder" "HOL-Library.Product_Lexorder"
begin

text \<open>
  The timestamp of a cycle, \<^verbatim>\<open>str(datetime.datetime.utcnow())\<close> (line 97 of
  \<^verbatim>\<open>src/sensor.py\<close>). It names the photo, the S3 object and the DynamoDB item
  (\<^verbatim>\<open>'log'\<close>). A naive \<^verbatim>\<open>datetime\<close> prints as
  \<^verbatim>\<open>"%04d-%02d-%02d %02d:%02d:%02d"\<close>, followed by \<^verbatim>\<open>".%06d"\<close> of the
  microseconds only when they are not zero. Strings are compared as Python compares them:
  lexicographically by character code (\<open>List_Lexorder\<close> over \<open>Char_ord\<close>); instants
  chronologically, field by field (\<open>Product_Lexorder\<close>).
\<close>

record datetime =
  dt_year :: nat
  dt_month :: nat
  dt_day :: nat
  dt_hour :: nat
  dt_minute :: nat
  dt_second :: nat
  dt_microsecond :: nat

text \<open>
  The ranges the \<^verbatim>\<open>datetime\<close> constructor enforces (\<^verbatim>\<open>MINYEAR\<close> 1 to
  \<^verbatim>\<open>MAXYEAR\<close> 9999); the day is only bounded by 31, a superset of the calendar's
  days, so what is proved for these holds for every real instant.
\<close>

definition valid_datetime :: "datetime \<Rightarrow> bool" where
  "valid_datetime dt \<longleftrightarrow>
     1 \<le> dt_year dt \<and> dt_year dt \<le> 9999 \<and> 1 \<le> dt_month dt \<and> dt_month dt \<le> 12 \<and>
     1 \<le> dt_day dt \<and> dt_day dt \<le> 31 \<and> dt_hour dt < 24 \<and> dt_minute dt < 60 \<and>
     dt_second dt < 60 \<and> dt_microsecond dt < 1000000"

text \<open>\<^verbatim>\<open>"%0kd" % n\<close> for a natural number.\<close>

definition zpad :: "nat \<Rightarrow> nat \<Rightarrow> string" where
  "zpad k n = replicate (k - length (py_digits n)) (CHR ''0'') @ py_digits n"

definition usec_part :: "nat \<Rightarrow> string" where
  "usec_part us = (if us = 0 then [] else CHR ''.'' # zpad 6 us)"

definition py_str_datetime :: "datetime \<Rightarrow> string" where
  "py_str_datetime dt =
     zpad 4 (dt_year dt) @ CHR ''-'' # zpad 2 (dt_month dt) @ CHR ''-'' # zpad 2 (dt_day dt) @
     CHR '' '' # zpad 2 (dt_hour dt) @ CHR '':'' # zpad 2 (dt_minute dt) @ CHR '':'' #
     zpad 2 (dt_second dt) @ usec_part (dt_microsecond dt)"

text \<open>Chronological order: the fields compared from the year down.\<close>

definition dt_key :: "datetime \<Rightarrow> nat \<times> nat \<times> nat \<times> nat \<times> nat \<times> nat \<times> nat" where
  "dt_key dt = (dt_year dt, dt_month dt, dt_day dt, dt_hour dt, dt_minute dt, dt_second dt,
                dt_microsecond dt)"

section \<open>Facts about the printed timestamp\<close>

lemma length_py_digits: "n < 10 ^ k \<Longrightarrow> 0 < k \<Longrightarrow> length (py_digits n) \<le> k"
proof (induction n arbitrary: k rule: py_digits.induct)
  case (1 n)
  show ?case
  proof (cases "n < 10")
    case True
    with "1.prems" show ?thesis by (simp add: py_digits_one)
  next
    case False
    then obtain k' where k: "k = Suc k'" using "1.prems" by (cases k) auto
    with False "1.prems" have "n div 10 < 10 ^ k'" by (simp add: div_less_iff_less_mult mult.commute)
    moreover have "0 < k'" using False "1.prems" k by (cases k') auto
    ultimately have "length (py_digits (n div 10)) \<le> k'" using False by (intro "1.IH")
    with False k show ?thesis by (simp add: py_digits_more)
  qed
qed

lemma digits_val_zeros [simp]: "digits_val (replicate m (CHR ''0'')) = 0"
  by (induction m) (simp_all add: digits_val_def)

lemma is_digit_zero [simp]: "is_digit CHR ''0''"
  by (simp add: is_digit_def)

lemma digits_val_bound: "list_all is_digit xs \<Longrightarrow> digits_val xs < 10 ^ length xs"
proof (induction xs rule: rev_induct)
  case Nil
  then show ?case by (simp add: digits_val_def)
next
  case (snoc x xs)
  then have "of_char x \<le> (57::nat)" by (simp add: is_digit_def)
  then have "of_char x - 48 < (10::nat)" by linarith
  with snoc show ?case by (simp add: digits_val_def)
qed

lemma zpad_facts:
  assumes "n < 10 ^ k" and "0 < k"
  shows "length (zpad k n) = k" "list_all is_digit (zpad k n)" "digits_val (zpad k n) = n"
  using length_py_digits [OF assms] py_digits_is_digit [of n]
  by (auto simp: zpad_def digits_val_append list_all_iff)

lemma place_value_less_mono:
  fixes a a' b v v' :: nat
  assumes "v < b" and "a < a'"
  shows "a * b + v < a' * b + v'"
proof -
  have "Suc a * b \<le> a' * b" using assms(2) by (intro mult_le_mono1) simp
  then show ?thesis using assms(1) by simp
qed

lemma place_value_less:
  fixes a a' b v v' :: nat
  assumes "v < b" and "v' < b"
  shows "a * b + v < a' * b + v' \<longleftrightarrow> a < a' \<or> a = a' \<and> v < v'"
  using place_value_less_mono [OF assms(1), of a a' v'] place_value_less_mono [OF assms(2), of a' a v]
  by (cases a a' rule: linorder_cases) auto

lemma digits_less_iff:
  "length xs = length ys \<Longrightarrow> list_all is_digit xs \<Longrightarrow> list_all is_digit ys \<Longrightarrow>
   xs < ys \<longleftrightarrow> digits_val xs < digits_val ys"
proof (induction xs ys rule: list_induct2)
  case Nil
  then show ?case by simp
next
  case (Cons x xs y ys)
  have dv: "digits_val (c # cs) = (of_char c - 48) * 10 ^ length cs + digits_val cs" for c cs
    using digits_val_append [of "[c]" cs] by (simp add: digits_val_def)
  from Cons.prems have x: "48 \<le> (of_char x :: nat)" and y: "48 \<le> (of_char y :: nat)"
    by (simp_all add: is_digit_def)
  have "x = y \<longleftrightarrow> (of_char x :: nat) = of_char y" by simp
  then have eq: "x = y \<longleftrightarrow> (of_char x - 48 :: nat) = of_char y - 48"
    using x y by linarith
  have lt: "x < y \<longleftrightarrow> (of_char x - 48 :: nat) < of_char y - 48"
    using x y by (simp add: less_char_def less_diff_iff)
  from Cons show ?case
    using digits_val_bound [of xs] digits_val_bound [of ys]
    by (simp add: dv place_value_less eq lt)
qed

lemma append_less_iff:
  fixes a a' b b' :: "'a::linorder list"
  shows "length a = length a' \<Longrightarrow> a @ b < a' @ b' \<longleftrightarrow> a < a' \<or> a = a' \<and> b < b'"
  by (induction a a' rule: list_induct2) auto

lemma length_zpad [simp]: "n < 10 ^ k \<Longrightarrow> 0 < k \<Longrightarrow> length (zpad k n) = k"
  by (rule zpad_facts(1))

lemma zpad_less_iff:
  "n < 10 ^ k \<Longrightarrow> m < 10 ^ k \<Longrightarrow> 0 < k \<Longrightarrow> zpad k n < zpad k m \<longleftrightarrow> n < m"
  by (simp add: digits_less_iff zpad_facts)

lemma zpad_eq_iff:
  assumes "n < 10 ^ k" and "m < 10 ^ k" and "0 < k"
  shows "zpad k n = zpad k m \<longleftrightarrow> n = m"
  using zpad_facts(3) [OF assms(1,3)] zpad_facts(3) [OF assms(2,3)] by metis

lemma usec_part_less_iff:
  "us < 1000000 \<Longrightarrow> us' < 1000000 \<Longrightarrow> usec_part us < usec_part us' \<longleftrightarrow> us < us'"
  by (simp add: usec_part_def zpad_less_iff)

lemma usec_part_eq_iff:
  "us < 1000000 \<Longrightarrow> us' < 1000000 \<Longrightarrow> usec_part us = usec_part us' \<longleftrightarrow> us = us'"
  by (auto simp: usec_part_def zpad_eq_iff)

lemmas timestamp_field_simps = zpad_less_iff zpad_eq_iff usec_part_less_iff usec_part_eq_iff append_less_iff

lemma py_str_datetime_less_iff:
  assumes "valid_datetime dt" and "valid_datetime dt'"
  shows "py_str_datetime dt < py_str_datetime dt' \<longleftrightarrow> dt_key dt < dt_key dt'"
  using assms unfolding valid_datetime_def py_str_datetime_def dt_key_def
  by (simp add: timestamp_field_simps less_prod_def' del: less_prod_simp)

lemma py_str_datetime_eq_iff:
  assumes "valid_datetime dt" and "valid_datetime dt'"
  shows "py_str_datetime dt = py_str_datetime dt' \<longleftrightarrow> dt = dt'"
  using assms unfolding valid_datetime_def py_str_datetime_def
  by (auto simp: timestamp_field_simps intro: datetime.equality)

section \<open>Properties of the timestamp\<close>

text \<open>
  C30: the timestamps the program prints sort as the instants they stand for: for two
  valid instants, one printed string is lexicographically smaller than the other exactly
  when its instant is earlier. The zero padding gives the fields fixed widths, and an
  instant whose microseconds are 0, printed without them, is a prefix of the strings of
  the later instants of the same second.
\<close>

theorem timestamps_sort_chronologically:
  assumes "valid_datetime dt" and "valid_datetime dt'"
  shows "py_str_datetime dt < py_str_datetime dt' \<longleftrightarrow> dt_key dt < dt_key dt'"
  using assms by (rule py_str_datetime_less_iff)

theorem timestamps_sort_chronologically_witness:
  "py_str_datetime \<lparr>dt_year = 2020, dt_month = 5, dt_day = 1, dt_hour = 10, dt_minute = 0, dt_second = 0,
     dt_microsecond = 0\<rparr> <
   py_str_datetime \<lparr>dt_year = 2020, dt_month = 5, dt_day = 1, dt_hour = 10, dt_minute = 0, dt_second = 0,
     dt_microsecond = 5\<rparr>"
  by (subst timestamps_sort_chronologically) (simp_all add: valid_datetime_def dt_key_def)

end
