(* ===== verification/Logger.thy ===== *)
theory Logger
  imports Status Clock
begin

text \<open>
  The capture and persistence pipeline of \<^verbatim>\<open>src/sensor.py\<close>: \<^verbatim>\<open>save_photo\<close>
  (lines 96--112) and \<^verbatim>\<open>log_sensor\<close> (lines 114--147). Every call to an external
  service has an outcome that the model takes from an environment record, one per
  cycle of the main loop: the instant \<^verbatim>\<open>utcnow()\<close> returns,
  whether the camera, the upload, the sensor reads, the DynamoDB write and the log-file write raise (and what), the
  thermostat's temperature read, and whether the sleep at the end of the cycle is
  interrupted.
\<close>

section \<open>What the outside world does during one cycle\<close>

text \<open>
  The readings of one record, already as the strings \<^verbatim>\<open>str(...)\<close> makes of them
  (the formatting of floats is the Python runtime's, not the program's), and the epoch
  seconds of \<^verbatim>\<open>int(time.time())\<close>. The reads have no effect on the modelled state,
  so a read that raises is the exception of the first failing read.
\<close>

record sample =
  date :: int
  humidity :: string
  pressure :: string
  compass :: string
  temperature :: string
  cpu_temp :: string
  gpu_temp :: string
  temperature_from_humidity :: string
  temperature_from_pressure :: string

record cycle_env =
  utc_dt :: datetime
  capture_res :: "exn option"
  upload_res :: "exn option"
  sample_res :: "exn + sample"
  put_res :: "exn option"
  write_res :: "exn option"
  temp_res :: "exn + real"
  sleep_interrupted :: bool

text \<open>
  The timestamp of the cycle as the program prints it (line 97:
  \<^verbatim>\<open>str(datetime.datetime.utcnow())\<close>).
\<close>

abbreviation utcnow :: "cycle_env \<Rightarrow> string" where
  "utcnow env \<equiv> py_str_datetime (utc_dt env)"

section \<open>save\_photo\<close>

text \<open>
  The photo is named after the timestamp; the camera writes it under the photo folder;
  the upload sends it to the bucket under its file name. Only a \<^verbatim>\<open>ClientError\<close>
  of the upload is caught (red pixel, then the function returns normally); any other
  exception of the capture or the upload propagates. The upload outcome also covers
  \<^verbatim>\<open>ProgressPercentage(photo_path)\<close>, evaluated as an argument of the call.
\<close>

definition save_photo :: "config \<Rightarrow> cycle_env \<Rightarrow> world \<Rightarrow> world \<times> (exn + string \<times> string \<times> string)" where
  "save_photo c env w =
     (let now = py_str_datetime (utc_dt env);
          photo_file = now @ ''.jpg'';
          photo_path = photo_folder c @ ''/'' @ photo_file
      in case capture_res env of
           Some e \<Rightarrow> (w, Inl e)
         | None \<Rightarrow>
             (let w1 = w\<lparr>photos := photos w @ [photo_path]\<rparr>
              in case upload_res env of
                   None \<Rightarrow> (w1\<lparr>s3 := s3 w1 @ [(s3_bucket c, photo_file)]\<rparr>, Inr (now, photo_file, photo_path))
                 | Some e \<Rightarrow>
                     (if is_ClientError e then (display_error_led w1, Inr (now, photo_file, photo_path))
                      else (w1, Inl e))))"

section \<open>The record and its log line\<close>

text \<open>The \<^verbatim>\<open>Item\<close> literal of lines 123--135, in its order.\<close>

definition mk_item :: "string \<Rightarrow> sample \<Rightarrow> string \<Rightarrow> item" where
  "mk_item now s photo_file =
     [(''log'', PyStr now), (''date'', PyInt (date s)),
      (''humidity'', PyStr (humidity s)), (''pressure'', PyStr (pressure s)),
      (''compass'', PyStr (compass s)), (''temperature'', PyStr (temperature s)),
      (''cpu_temp'', PyStr (cpu_temp s)), (''gpu_temp'', PyStr (gpu_temp s)),
      (''temperature_from_humidity'', PyStr (temperature_from_humidity s)),
      (''temperature_from_pressure'', PyStr (temperature_from_pressure s)),
      (''photo'', PyStr photo_file)]"

text \<open>
  \<^verbatim>\<open>str(Item)\<close> prints the entries in the dictionary's iteration order. The program
  runs under Python 2 (line 207 is a \<^verbatim>\<open>print\<close> statement), whose dictionaries
  iterate in hash-table order: for these eleven keys, with CPython 2.7's string hash
  and table growth, on 32- and 64-bit builds alike, the order below.
\<close>

definition item_iter_order :: "string list" where
  "item_iter_order =
     [''temperature_from_pressure'', ''photo'', ''pressure'', ''compass'', ''date'',
      ''temperature_from_humidity'', ''humidity'', ''temperature'', ''log'', ''cpu_temp'', ''gpu_temp'']"

definition dict_items :: "item \<Rightarrow> (string \<times> pyval) list" where
  "dict_items d = List.map_filter (\<lambda>k. map_option (Pair k) (map_of d k)) item_iter_order"

fun py_repr_val :: "pyval \<Rightarrow> string" where
  "py_repr_val (PyStr s) = py_repr_str s"
| "py_repr_val (PyInt i) = py_str_int i"

definition py_str_dict :: "(string \<times> pyval) list \<Rightarrow> string" where
  "py_str_dict es =
     ''{'' @ py_join '', '' (map (\<lambda>(k, v). py_repr_str k @ '': '' @ py_repr_val v) es) @ ''}''"

text \<open>Line 137: \<^verbatim>\<open>str(Item).replace("'", "").replace('{', '').replace('}', '')\<close>.\<close>

definition log_line :: "item \<Rightarrow> string" where
  "log_line d = py_replace (py_replace (py_replace (py_str_dict (dict_items d)) [CHR 0x27] []) ''{'' []) ''}'' []"

section \<open>log\_sensor\<close>

text \<open>
  A bare \<^verbatim>\<open>except:\<close> around \<^verbatim>\<open>save_photo\<close> catches every exception, the
  \<^verbatim>\<open>KeyboardInterrupt\<close> included: red pixel, and the function returns. After a
  capture, a failing sensor read, DynamoDB write or log write propagates its exception
  with the state reached so far. On success the smiley is shown for two seconds, the
  matrix cleared, the success flag set, and the green status pixel drawn.
\<close>

definition log_sensor :: "config \<Rightarrow> cycle_env \<Rightarrow> world \<Rightarrow> world \<times> exn option" where
  "log_sensor c env w =
     (case save_photo c env w of
        (w1, Inl e) \<Rightarrow> (display_error_led w1, None)
      | (w1, Inr (now, photo_file, photo_path)) \<Rightarrow>
          (case sample_res env of
             Inl e \<Rightarrow> (w1, Some e)
           | Inr s \<Rightarrow>
               (let item = mk_item now s photo_file
                in case put_res env of
                     Some e \<Rightarrow> (w1, Some e)
                   | None \<Rightarrow>
                       (let w2 = w1\<lparr>table := table w1 @ [item]\<rparr>;
                            logitem = log_line item
                        in case write_res env of
                             Some e \<Rightarrow> (w2, Some e)
                           | None \<Rightarrow>
                               (let w3 = w2\<lparr>log_txt := log_txt w2 @ logitem @ ''\<newline>''\<rparr>;
                                    w4 = w3\<lparr>leds := success_pix\<rparr>;
                                    w5 = w4\<lparr>leds := blank\<rparr>;
                                    w6 = w5\<lparr>is_log_save_success := True\<rparr>
                                in (display_success_led w6, None))))))"

section \<open>Reading a log line back\<close>

text \<open>
  A reader of \<^verbatim>\<open>log.txt\<close> (not part of the program): split a line at
  \<^verbatim>\<open>", "\<close> into entries and each entry at its first \<^verbatim>\<open>": "\<close> into key and
  value. A value is read back as the text the line shows for it.
\<close>

fun val_text :: "pyval \<Rightarrow> string" where
  "val_text (PyStr s) = s"
| "val_text (PyInt i) = py_str_int i"

definition parse_entry :: "string \<Rightarrow> string \<times> string" where
  "parse_entry e = (case py_split e '': '' of [] \<Rightarrow> ([], []) | k # vs \<Rightarrow> (k, py_join '': '' vs))"

definition parse_log_line :: "string \<Rightarrow> (string \<times> string) list" where
  "parse_log_line l = map parse_entry (py_split l '', '')"

text \<open>
  The strings a line can carry without losing its structure: printable, without quotes,
  backslash, comma or braces (the sensor readings and timestamps are of this kind).
\<close>

definition log_safe :: "string \<Rightarrow> bool" where
  "log_safe s \<longleftrightarrow> plain_str s \<and> CHR '','' \<notin> set s \<and> CHR ''{'' \<notin> set s \<and> CHR ''}'' \<notin> set s"

definition val_ok :: "pyval \<Rightarrow> bool" where
  "val_ok v = (case v of PyStr s \<Rightarrow> log_safe s | PyInt i \<Rightarrow> True)"

text \<open>The characters the three \<^verbatim>\<open>replace\<close> calls of line 137 remove.\<close>

definition strip_log :: "string \<Rightarrow> string" where
  "strip_log s = filter (\<lambda>c. c \<noteq> CHR 0x27 \<and> c \<noteq> CHR ''{'' \<and> c \<noteq> CHR ''}'') s"

text \<open>
  Whether \<^verbatim>\<open>save_photo\<close> returns normally in a cycle: the capture succeeds and
  the upload either succeeds or fails with a \<^verbatim>\<open>ClientError\<close>.
\<close>

definition photo_saved :: "cycle_env \<Rightarrow> bool" where
  "photo_saved env \<longleftrightarrow>
     capture_res env = None \<and> (case upload_res env of None \<Rightarrow> True | Some e \<Rightarrow> is_ClientError e)"

section \<open>A concrete cycle\<close>

text \<open>A cycle in which every call succeeds, used by the witnesses below.\<close>

definition example_sample :: sample where
  "example_sample =
     \<lparr>date = 1588327200, humidity = ''45.5'', pressure = ''1013.2'', compass = ''90.0'',
      temperature = ''30.1'', cpu_temp = ''48.3'', gpu_temp = ''47.8'',
      temperature_from_humidity = ''30.1'', temperature_from_pressure = ''29.9''\<rparr>"

definition example_dt :: datetime where
  "example_dt = \<lparr>dt_year = 2020, dt_month = 5, dt_day = 1, dt_hour = 10, dt_minute = 0, dt_second = 0,
     dt_microsecond = 123456\<rparr>"

definition example_env :: cycle_env where
  "example_env =
     \<lparr>utc_dt = example_dt, capture_res = None, upload_res = None,
      sample_res = Inr example_sample, put_res = None, write_res = None,
      temp_res = Inr (73 / 2), sleep_interrupted = False\<rparr>"

declare save_photo_def [op_defs] log_sensor_def [op_defs]

section \<open>Facts about the pipeline\<close>

lemma example_now: "py_str_datetime example_dt = ''2020-05-01 10:00:00.123456''"
  by (simp add: py_str_datetime_def example_dt_def zpad_def usec_part_def py_digits_one py_digits_more
      char_of_def bit_0)

text \<open>The four ways \<^verbatim>\<open>save_photo\<close> ends.\<close>

lemma save_photo_cases:
  assumes "save_photo c env w = (w1, r)"
  obtains (capture_failed) e where "capture_res env = Some e" "w1 = w" "r = Inl e"
  | (uploaded) "capture_res env = None" "upload_res env = None"
      "w1 = w\<lparr>photos := photos w @ [photo_folder c @ ''/'' @ utcnow env @ ''.jpg''],
              s3 := s3 w @ [(s3_bucket c, utcnow env @ ''.jpg'')]\<rparr>"
      "r = Inr (utcnow env, utcnow env @ ''.jpg'', photo_folder c @ ''/'' @ utcnow env @ ''.jpg'')"
  | (client_error) e where "capture_res env = None" "upload_res env = Some e" "is_ClientError e"
      "w1 = display_error_led (w\<lparr>photos := photos w @ [photo_folder c @ ''/'' @ utcnow env @ ''.jpg'']\<rparr>)"
      "r = Inr (utcnow env, utcnow env @ ''.jpg'', photo_folder c @ ''/'' @ utcnow env @ ''.jpg'')"
  | (upload_failed) e where "capture_res env = None" "upload_res env = Some e" "\<not> is_ClientError e"
      "w1 = w\<lparr>photos := photos w @ [photo_folder c @ ''/'' @ utcnow env @ ''.jpg'']\<rparr>" "r = Inl e"
proof (cases "capture_res env")
  case (Some e)
  with assms show ?thesis by (intro capture_failed [of e]) (auto simp: save_photo_def)
next
  case None
  show ?thesis
  proof (cases "upload_res env")
    case None
    with \<open>capture_res env = None\<close> assms show ?thesis
      by (intro uploaded) (auto simp: save_photo_def Let_def)
  next
    case (Some e)
    show ?thesis
    proof (cases "is_ClientError e")
      case True
      with Some \<open>capture_res env = None\<close> assms show ?thesis
        by (intro client_error [of e]) (auto simp: save_photo_def Let_def)
    next
      case False
      with Some \<open>capture_res env = None\<close> assms show ?thesis
        by (intro upload_failed [of e]) (auto simp: save_photo_def Let_def)
    qed
  qed
qed

lemma save_photo_returns:
  assumes "save_photo c env w = (w1, r)"
  shows "(\<exists>x. r = Inr x) \<longleftrightarrow> photo_saved env"
  using assms by (cases rule: save_photo_cases) (auto simp: photo_saved_def)

text \<open>Which fields \<^verbatim>\<open>save_photo\<close> and \<^verbatim>\<open>log_sensor\<close> leave alone: the fan, the second relay.\<close>

lemma save_photo_frame:
  assumes "save_photo c env w = (w1, r)"
  shows "is_fan_on w1 = is_fan_on w" "fan_active w1 = fan_active w" "animating w1 = animating w"
    "is_relay2_on w1 = is_relay2_on w" "relay2_active w1 = relay2_active w"
    "is_log_save_success w1 = is_log_save_success w" "table w1 = table w" "log_txt w1 = log_txt w"
    "length (leds w1) = length (leds w)"
  using assms by (cases rule: save_photo_cases; simp add: frame_simps)+

lemma wf_save_photo:
  "save_photo c env w = (w1, r) \<Longrightarrow> wf_world w \<Longrightarrow> wf_world w1"
  by (erule save_photo_cases)
     (auto simp: wf_world_def fan_consistent_def relay_consistent_def display_error_led_def)

text \<open>The shape of \<^verbatim>\<open>log_sensor\<close> once \<^verbatim>\<open>save_photo\<close> has returned.\<close>

lemma log_sensor_saved:
  assumes "save_photo c env w = (w1, Inr (now, photo_file, photo_path))"
  shows "log_sensor c env w =
     (case sample_res env of
        Inl e \<Rightarrow> (w1, Some e)
      | Inr s \<Rightarrow>
          (case put_res env of
             Some e \<Rightarrow> (w1, Some e)
           | None \<Rightarrow>
               (case write_res env of
                  Some e \<Rightarrow> (w1\<lparr>table := table w1 @ [mk_item now s photo_file]\<rparr>, Some e)
                | None \<Rightarrow>
                    (display_success_led
                      (w1\<lparr>table := table w1 @ [mk_item now s photo_file],
                          log_txt := log_txt w1 @ log_line (mk_item now s photo_file) @ ''\<newline>'',
                          leds := blank, is_log_save_success := True\<rparr>), None))))"
  using assms by (simp add: log_sensor_def Let_def split: sum.splits option.splits)

lemma log_sensor_not_saved:
  "save_photo c env w = (w1, Inl e) \<Longrightarrow> log_sensor c env w = (display_error_led w1, None)"
  by (simp add: log_sensor_def)

text \<open>The four ways \<^verbatim>\<open>log_sensor\<close> ends, shared by the properties below.\<close>

lemma log_sensor_shape:
  assumes "log_sensor c env w = (w', r)"
  obtains (not_saved) w1 e where "save_photo c env w = (w1, Inl e)" "w' = display_error_led w1" "r = None"
  | (failed_early) w1 now pf pp e where "save_photo c env w = (w1, Inr (now, pf, pp))" "w' = w1" "r = Some e"
      "sample_res env = Inl e \<or> (\<exists>s. sample_res env = Inr s \<and> put_res env = Some e)"
  | (failed_write) w1 now pf pp s e where "save_photo c env w = (w1, Inr (now, pf, pp))"
      "sample_res env = Inr s" "put_res env = None" "write_res env = Some e"
      "w' = w1\<lparr>table := table w1 @ [mk_item now s pf]\<rparr>" "r = Some e"
  | (saved) w1 now pf pp s where "save_photo c env w = (w1, Inr (now, pf, pp))"
      "sample_res env = Inr s" "put_res env = None" "write_res env = None"
      "w' = display_success_led
              (w1\<lparr>table := table w1 @ [mk_item now s pf],
                  log_txt := log_txt w1 @ log_line (mk_item now s pf) @ ''\<newline>'',
                  leds := blank, is_log_save_success := True\<rparr>)" "r = None"
proof -
  obtain w1 r1 where sp: "save_photo c env w = (w1, r1)" by fastforce
  show ?thesis
  proof (cases r1)
    case (Inl e)
    with sp assms show ?thesis by (intro not_saved [of w1 e]) (simp_all add: log_sensor_not_saved)
  next
    case (Inr x)
    obtain now pf pp where x: "x = (now, pf, pp)" by (cases x) blast
    note eq = log_sensor_saved [OF sp [unfolded Inr x]]
    show ?thesis
    proof (cases "sample_res env")
      case (Inl e)
      with sp Inr x assms eq show ?thesis by (intro failed_early [of w1 now pf pp e]) simp_all
    next
      case (Inr s)
      show ?thesis
      proof (cases "put_res env")
        case (Some e)
        with sp \<open>r1 = Inr x\<close> x Inr assms eq show ?thesis
          by (intro failed_early [of w1 now pf pp e]) simp_all
      next
        case None
        show ?thesis
        proof (cases "write_res env")
          case (Some e)
          with sp \<open>r1 = Inr x\<close> x Inr None assms eq show ?thesis
            by (intro failed_write [of w1 now pf pp s e]) simp_all
        next
          case None
          with sp \<open>r1 = Inr x\<close> x Inr \<open>put_res env = None\<close> assms eq show ?thesis
            by (intro saved [of w1 now pf pp s]) simp_all
        qed
      qed
    qed
  qed
qed

lemma log_sensor_frame:
  assumes "log_sensor c env w = (w', r)"
  shows "is_fan_on w' = is_fan_on w" "fan_active w' = fan_active w" "animating w' = animating w"
    "is_relay2_on w' = is_relay2_on w" "relay2_active w' = relay2_active w"
  using assms
  by (cases rule: log_sensor_shape; simp add: frame_simps save_photo_frame)+

text \<open>The matrix alone stays well-formed, whatever the fan cell holds.\<close>

lemma wf_matrix_save_photo:
  "save_photo c env w = (w1, r) \<Longrightarrow> wf_matrix (leds w) \<Longrightarrow> wf_matrix (leds w1)"
  by (erule save_photo_cases) auto

lemma wf_matrix_log_sensor:
  assumes "log_sensor c env w = (w', r)" and "wf_matrix (leds w)"
  shows "wf_matrix (leds w')"
  using assms(1)
  by (cases rule: log_sensor_shape) (use assms(2) in \<open>auto dest: wf_matrix_save_photo\<close>)

lemma wf_log_sensor:
  assumes "log_sensor c env w = (w', r)" and "wf_world w"
  shows "wf_world w'"
  using assms(1)
proof (cases rule: log_sensor_shape)
  case (not_saved w1 e)
  with assms(2) show ?thesis by (auto dest: wf_save_photo)
next
  case (failed_early w1 now pf pp e)
  with assms(2) show ?thesis by (auto dest: wf_save_photo)
next
  case (failed_write w1 now pf pp s e)
  with assms(2) have "wf_world w1" by (auto dest: wf_save_photo)
  with failed_write show ?thesis by simp
next
  case (saved w1 now pf pp s)
  with assms(2) have "wf_world w1" by (auto dest: wf_save_photo)
  show ?thesis
    unfolding saved(5)
  proof (rule wf_display_success_led)
    from \<open>wf_world w1\<close> show "wf_world (w1\<lparr>table := table w1 @ [mk_item now s pf],
        log_txt := log_txt w1 @ log_line (mk_item now s pf) @ ''\<newline>'',
        leds := blank, is_log_save_success := True\<rparr>)"
      by (simp add: wf_world_def fan_consistent_def relay_consistent_def)
  qed
qed

text \<open>The file only grows: whatever happens, the old contents are a prefix of the new.\<close>

lemma log_sensor_log_prefix:
  assumes "log_sensor c env w = (w', r)"
  shows "prefix (log_txt w) (log_txt w')"
  using assms
  by (cases rule: log_sensor_shape; simp add: frame_simps save_photo_frame)+

subsection \<open>The log line\<close>

lemma log_line_filters:
  "log_line d = filter (\<lambda>c. c \<noteq> CHR ''}'') (filter (\<lambda>c. c \<noteq> CHR ''{'') (filter (\<lambda>c. c \<noteq> CHR 0x27)
     (py_str_dict (dict_items d))))"
  by (simp add: log_line_def py_replace_delete_char)

lemma py_digits_chars: "c \<in> set (py_digits n) \<Longrightarrow> \<exists>k::nat < 10. c = char_of (48 + k)"
proof (induction n rule: py_digits.induct)
  case (1 n)
  show ?case
  proof (cases "n < 10")
    case True
    with "1.prems" show ?thesis by (auto simp: py_digits.simps [of n])
  next
    case False
    with "1.prems" have "c \<in> set (py_digits (n div 10)) \<or> c = char_of (48 + n mod 10)"
      by (auto simp: py_digits.simps [of n])
    moreover have "n mod 10 < 10" by simp
    ultimately show ?thesis using "1.IH" False by blast
  qed
qed

lemma newline_notin_py_digits: "CHR ''\<newline>'' \<notin> set (py_digits n)"
proof
  assume "CHR ''\<newline>'' \<in> set (py_digits n)"
  then obtain k :: nat where "k < 10" "CHR ''\<newline>'' = char_of (48 + k)" by (blast dest: py_digits_chars)
  moreover have "char_of (48 + k) \<noteq> CHR ''\<newline>''" if "k < 10" for k :: nat
    using that by (intro not_newline_by_code) (simp add: of_char_of)
  ultimately show False by metis
qed

lemma hex_digit_not_newline: "k < 16 \<Longrightarrow> hex_digit k \<noteq> CHR ''\<newline>''"
  by (intro not_newline_by_code) (simp add: hex_digit_def of_char_of)

lemma py_repr_char_no_newline:
  assumes "q \<noteq> CHR ''\<newline>''"
  shows "CHR ''\<newline>'' \<notin> set (py_repr_char q c)"
proof -
  have "of_char c div 16 < (16::nat)" "of_char c mod 16 < (16::nat)"
    using nat_of_char_less_256 [of c] by (simp_all add: less_mult_imp_div_less)
  then have "hex_digit (of_char c div 16) \<noteq> CHR ''\<newline>''" "hex_digit (of_char c mod 16) \<noteq> CHR ''\<newline>''"
    by (simp_all add: hex_digit_not_newline)
  with assms show ?thesis unfolding py_repr_char_def by (simp split: if_split)
qed

lemma newline_notin_py_repr_val: "CHR ''\<newline>'' \<notin> set (py_repr_val v)"
proof (cases v)
  case (PyStr s)
  then show ?thesis by (simp add: py_repr_str_def Let_def py_repr_char_no_newline)
next
  case (PyInt i)
  then show ?thesis by (simp add: py_str_int_def newline_notin_py_digits)
qed

lemma newline_notin_py_str_dict: "CHR ''\<newline>'' \<notin> set (py_str_dict es)"
proof -
  have "CHR ''\<newline>'' \<notin> set (py_repr_str k @ '': '' @ py_repr_val v)" for k v
    using newline_notin_py_repr_val [of "PyStr k"] newline_notin_py_repr_val [of v] by auto
  then have "CHR ''\<newline>'' \<notin> set (py_join '', '' (map (\<lambda>(k, v). py_repr_str k @ '': '' @ py_repr_val v) es))"
    using set_py_join [of "'', ''" "map (\<lambda>(k, v). py_repr_str k @ '': '' @ py_repr_val v) es"] by auto
  then show ?thesis by (simp add: py_str_dict_def)
qed

subsection \<open>The log line read back\<close>

lemma log_line_strip: "log_line d = strip_log (py_str_dict (dict_items d))"
  by (simp add: log_line_filters strip_log_def conj_commute conj_left_commute)

lemma strip_log_id: "CHR 0x27 \<notin> set s \<Longrightarrow> CHR ''{'' \<notin> set s \<Longrightarrow> CHR ''}'' \<notin> set s \<Longrightarrow> strip_log s = s"
  by (induction s) (auto simp: strip_log_def)

lemma py_str_int_chars: "c \<in> set (py_str_int i) \<Longrightarrow> c = CHR ''-'' \<or> (\<exists>k::nat < 10. c = char_of (48 + k))"
  by (auto simp: py_str_int_def dest: py_digits_chars split: if_splits)

lemma digit_char_facts:
  assumes "k < (10::nat)"
  shows "char_of (48 + k) \<noteq> CHR 0x27" "char_of (48 + k) \<noteq> CHR ''{''" "char_of (48 + k) \<noteq> CHR ''}''"
    "char_of (48 + k) \<noteq> CHR '',''" "char_of (48 + k) \<noteq> CHR '':''"
proof -
  have c: "of_char (char_of (48 + k)) = 48 + k" using assms by (simp add: of_char_of)
  show "char_of (48 + k) \<noteq> CHR 0x27" "char_of (48 + k) \<noteq> CHR ''{''" "char_of (48 + k) \<noteq> CHR ''}''"
    "char_of (48 + k) \<noteq> CHR '',''" "char_of (48 + k) \<noteq> CHR '':''"
    using assms by (auto dest!: arg_cong [where f = "of_char :: char \<Rightarrow> nat"] simp: c)
qed

lemma py_str_int_safe:
  "CHR 0x27 \<notin> set (py_str_int i) \<and> CHR ''{'' \<notin> set (py_str_int i) \<and> CHR ''}'' \<notin> set (py_str_int i) \<and>
   CHR '','' \<notin> set (py_str_int i)"
  using py_str_int_chars [of _ i] digit_char_facts by fastforce


lemma strip_entry:
  assumes "log_safe k" and "val_ok v"
  shows "strip_log (py_repr_str k @ '': '' @ py_repr_val v) = k @ '': '' @ val_text v"
proof -
  have q: "strip_log (CHR 0x27 # x @ [CHR 0x27]) = x" if "log_safe x" for x
  proof -
    from that have "CHR 0x27 \<notin> set x" "CHR ''{'' \<notin> set x" "CHR ''}'' \<notin> set x"
      by (auto simp: log_safe_def plain_str_def)
    then have "strip_log x = x" by (rule strip_log_id)
    then show ?thesis by (simp add: strip_log_def)
  qed
  have k: "strip_log (py_repr_str k) = k"
    using assms(1) q by (simp add: log_safe_def py_repr_str_plain)
  have v: "strip_log (py_repr_val v) = val_text v"
  proof (cases v)
    case (PyStr x)
    with assms(2) q show ?thesis by (simp add: val_ok_def log_safe_def py_repr_str_plain)
  next
    case (PyInt i)
    then show ?thesis using py_str_int_safe [of i] by (simp add: strip_log_id)
  qed
  have "strip_log '': '' = '': ''" by (simp add: strip_log_def)
  with k v show ?thesis by (simp add: strip_log_def)
qed

lemma strip_py_str_dict:
  assumes "\<forall>(k, v) \<in> set es. log_safe k \<and> val_ok v"
  shows "strip_log (py_str_dict es) = py_join '', '' (map (\<lambda>(k, v). k @ '': '' @ val_text v) es)"
proof -
  have "strip_log (py_str_dict es) =
        py_join '', '' (map (strip_log \<circ> (\<lambda>(k, v). py_repr_str k @ '': '' @ py_repr_val v)) es)"
    by (simp add: py_str_dict_def strip_log_def [abs_def] filter_py_join)
  also have "map (strip_log \<circ> (\<lambda>(k, v). py_repr_str k @ '': '' @ py_repr_val v)) es =
        map (\<lambda>(k, v). k @ '': '' @ val_text v) es"
    using assms by (auto simp: strip_entry [simplified])
  finally show ?thesis .
qed


lemma parse_entry_split:
  "CHR '':'' \<notin> set k \<Longrightarrow> parse_entry (k @ '': '' @ v) = (k, v)"
  using py_split_append_sep [of "'': ''" k v] py_join_py_split [of "'': ''" v]
  by (simp add: parse_entry_def)

lemma parse_log_line_join:
  assumes "es \<noteq> []" and "\<forall>(k, v) \<in> set es. CHR '','' \<notin> set k \<and> CHR '':'' \<notin> set k \<and> CHR '','' \<notin> set v"
  shows "parse_log_line (py_join '', '' (map (\<lambda>(k, v). k @ '': '' @ v) es)) = es"
proof -
  have "py_split (py_join '', '' (map (\<lambda>(k, v). k @ '': '' @ v) es)) '', '' = map (\<lambda>(k, v). k @ '': '' @ v) es"
    using assms by (intro py_split_py_join) auto
  moreover have "map parse_entry (map (\<lambda>(k, v). k @ '': '' @ v) es) = es"
    using assms(2) by (induction es) (auto simp: parse_entry_split [simplified])
  ultimately show ?thesis by (simp add: parse_log_line_def)
qed

lemma item_keys_safe: "k \<in> set item_iter_order \<Longrightarrow> log_safe k \<and> CHR '':'' \<notin> set k"
  by (auto simp: item_iter_order_def log_safe_def plain_str_def)

lemma dict_items_member:
  "(k, v) \<in> set (dict_items d) \<Longrightarrow> k \<in> set item_iter_order \<and> map_of d k = Some v"
  by (auto simp: dict_items_def map_filter_def split: option.splits)

section \<open>Properties of the pipeline\<close>

text \<open>
  C2: a failed capture aborts the cycle's logging and nothing else: \<^verbatim>\<open>log_sensor\<close>
  returns normally (no exception reaches the loop), with only the red status pixel
  drawn: no photo, no upload, no record, no log line.
\<close>

theorem capture_failure_persists_nothing:
  assumes "capture_res env = Some e"
  shows "log_sensor c env w = (display_error_led w, None)"
proof -
  from assms have "save_photo c env w = (w, Inl e)" by (simp add: save_photo_def)
  then show ?thesis by (rule log_sensor_not_saved)
qed

theorem capture_failure_persists_nothing_witness:
  "log_sensor cfg (example_env\<lparr>capture_res := Some (Error ''camera timeout'')\<rparr>) (init_world [])
   = (display_error_led (init_world []), None)"
  by (rule capture_failure_persists_nothing) simp

text \<open>
  C3: an upload rejected with a \<^verbatim>\<open>ClientError\<close> does not stop the record: once the
  sensors are read and DynamoDB accepts the write, exactly one item is stored, its
  \<^verbatim>\<open>photo\<close> field is the local file name, and nothing reaches the bucket.
\<close>

theorem upload_client_error_still_persisted:
  assumes "capture_res env = None" and "upload_res env = Some (ClientError code)"
    and "sample_res env = Inr s" and "put_res env = None" and "log_sensor c env w = (w', r)"
  shows "table w' = table w @ [mk_item (utcnow env) s (utcnow env @ ''.jpg'')] \<and>
    map_of (last (table w')) ''photo'' = Some (PyStr (utcnow env @ ''.jpg'')) \<and> s3 w' = s3 w"
proof -
  let ?w1 = "display_error_led (w\<lparr>photos := photos w @ [photo_folder c @ ''/'' @ utcnow env @ ''.jpg'']\<rparr>)"
  have sp: "save_photo c env w = (?w1, Inr (utcnow env, utcnow env @ ''.jpg'', photo_folder c @ ''/'' @ utcnow env @ ''.jpg''))"
    using assms(1,2) by (simp add: save_photo_def Let_def)
  have item: "map_of (mk_item n s pf) ''photo'' = Some (PyStr pf)" for n pf
    by (simp add: mk_item_def)
  show ?thesis
    using assms(5) sp assms(3,4)
    by (cases "write_res env") (auto simp: log_sensor_saved item frame_simps)
qed

theorem upload_client_error_still_persisted_witness:
  "table (fst (log_sensor cfg (example_env\<lparr>upload_res := Some (ClientError ''AccessDenied'')\<rparr>) (init_world [])))
     = [mk_item ''2020-05-01 10:00:00.123456'' example_sample ''2020-05-01 10:00:00.123456.jpg'']"
proof -
  let ?env = "example_env\<lparr>upload_res := Some (ClientError ''AccessDenied'')\<rparr>"
  from upload_client_error_still_persisted [of ?env "''AccessDenied''" example_sample cfg "init_world []",
      OF _ _ _ _ prod.collapse [symmetric]]
  show ?thesis by (simp add: example_env_def init_world_def example_now)
qed

text \<open>
  C4: an upload failure that is not a \<^verbatim>\<open>ClientError\<close> (boto3's \<^verbatim>\<open>upload_file\<close>
  wraps a rejected upload in \<^verbatim>\<open>S3UploadFailedError\<close>; a missing file makes
  \<^verbatim>\<open>ProgressPercentage\<close> raise \<^verbatim>\<open>OSError\<close>) escapes \<^verbatim>\<open>save_photo\<close>, is
  swallowed by the bare \<^verbatim>\<open>except\<close> of \<^verbatim>\<open>log_sensor\<close>, and the cycle stores no
  record and no log line, although the photo was taken.
\<close>

theorem upload_failure_loses_record:
  assumes "capture_res env = None" and "upload_res env = Some e" and "\<not> is_ClientError e"
    and "log_sensor c env w = (w', r)"
  shows "r = None \<and> table w' = table w \<and> log_txt w' = log_txt w \<and> s3 w' = s3 w \<and>
    photos w' = photos w @ [photo_folder c @ ''/'' @ utcnow env @ ''.jpg'']"
proof -
  let ?w1 = "w\<lparr>photos := photos w @ [photo_folder c @ ''/'' @ utcnow env @ ''.jpg'']\<rparr>"
  have "save_photo c env w = (?w1, Inl e)"
    using assms(1-3) by (simp add: save_photo_def Let_def)
  then have "log_sensor c env w = (display_error_led ?w1, None)" by (rule log_sensor_not_saved)
  with assms(4) show ?thesis by (auto simp: frame_simps)
qed

theorem upload_failure_loses_record_witness:
  "table (fst (log_sensor cfg (example_env\<lparr>upload_res := Some (Error ''S3UploadFailedError'')\<rparr>) (init_world []))) = []"
proof -
  let ?env = "example_env\<lparr>upload_res := Some (Error ''S3UploadFailedError'')\<rparr>"
  from upload_failure_loses_record [of ?env "Error ''S3UploadFailedError''" cfg "init_world []",
      OF _ _ _ prod.collapse [symmetric]]
  show ?thesis by (simp add: example_env_def init_world_def)
qed

text \<open>
  C5: a cycle in which every call succeeds stores exactly one record, appends exactly its
  log line and a newline to the log file, uploads the photo under its file name, sets the
  success flag and leaves the status pixel green.
\<close>

theorem log_sensor_success:
  assumes "capture_res env = None" and "upload_res env = None" and "sample_res env = Inr s"
    and "put_res env = None" and "write_res env = None"
    and "log_sensor c env w = (w', r)"
  shows "r = None \<and>
    table w' = table w @ [mk_item (utcnow env) s (utcnow env @ ''.jpg'')] \<and>
    log_txt w' = log_txt w @ log_line (mk_item (utcnow env) s (utcnow env @ ''.jpg'')) @ ''\<newline>'' \<and>
    s3 w' = s3 w @ [(s3_bucket c, utcnow env @ ''.jpg'')] \<and>
    is_log_save_success w' \<and> status_pixel w' = (0, 240, 0)"
proof -
  let ?w1 = "w\<lparr>photos := photos w @ [photo_folder c @ ''/'' @ utcnow env @ ''.jpg''],
              s3 := s3 w @ [(s3_bucket c, utcnow env @ ''.jpg'')]\<rparr>"
  have "save_photo c env w = (?w1, Inr (utcnow env, utcnow env @ ''.jpg'', photo_folder c @ ''/'' @ utcnow env @ ''.jpg''))"
    using assms(1,2) by (simp add: save_photo_def Let_def)
  from log_sensor_saved [OF this] assms(3-6) show ?thesis
    by (auto simp: frame_simps status_pixel_success status_pixel_def pixel_at_def display_success_led_def set_pixel_def)
qed

theorem log_sensor_success_witness:
  "snd (log_sensor cfg example_env (init_world [])) = None \<and>
   length (table (fst (log_sensor cfg example_env (init_world [])))) = 1 \<and>
   status_pixel (fst (log_sensor cfg example_env (init_world []))) = (0, 240, 0)"
  using log_sensor_success [of example_env example_sample cfg "init_world []", OF _ _ _ _ _ prod.collapse [symmetric]]
  by (simp add: example_env_def init_world_def)

text \<open>
  C6: whatever the record holds, its log line is one clean line: \<^verbatim>\<open>repr\<close> escapes
  control characters, so it holds no newline, and the three \<^verbatim>\<open>replace\<close> calls remove
  every quote and brace.
\<close>

theorem log_line_clean:
  "set (log_line d) \<inter> {CHR ''\<newline>'', CHR 0x27, CHR ''{'', CHR ''}''} = {}"
  using newline_notin_py_str_dict [of "dict_items d"] by (auto simp: log_line_filters)

section \<open>Counting what one returning call of log\_sensor stores\<close>

lemma log_sensor_returns_table:
  assumes "log_sensor c env w = (w', None)"
  shows "table w' = (if photo_saved env
                     then table w @ [mk_item (utcnow env) (projr (sample_res env)) (utcnow env @ ''.jpg'')]
                     else table w)"
  using assms
proof (cases rule: log_sensor_shape)
  case (not_saved w1 e)
  then show ?thesis using save_photo_returns [OF not_saved(1)] save_photo_frame [OF not_saved(1)]
    by (simp add: frame_simps)
next
  case (saved w1 now pf pp s)
  from saved(1) have "photo_saved env" using save_photo_returns by blast
  moreover from saved(1) have "now = utcnow env" "pf = utcnow env @ ''.jpg''"
    by (cases rule: save_photo_cases; simp)+
  ultimately show ?thesis using saved save_photo_frame [OF saved(1)] by (simp add: frame_simps)
qed simp_all

text \<open>
  C25: the log line can be read back. For a record whose string values are printable and
  free of quotes, backslashes, commas and braces (as the sensor readings and timestamps
  are), splitting its line at \<^verbatim>\<open>", "\<close> and each entry at the first
  \<^verbatim>\<open>": "\<close> gives back every key with the text of its value, in the order
  \<^verbatim>\<open>str(Item)\<close> printed them.
\<close>

theorem log_line_roundtrip:
  assumes "dict_items d \<noteq> []" and "\<forall>(k, v) \<in> set d. val_ok v"
  shows "parse_log_line (log_line d) = map (\<lambda>(k, v). (k, val_text v)) (dict_items d)"
proof -
  have safe: "log_safe k \<and> CHR '':'' \<notin> set k \<and> val_ok v" if "(k, v) \<in> set (dict_items d)" for k v
    using dict_items_member [OF that] item_keys_safe assms(2) by (blast dest: map_of_SomeD)
  have vals: "CHR '','' \<notin> set (val_text v)" if "val_ok v" for v
    using that py_str_int_safe by (cases v) (auto simp: val_ok_def log_safe_def)
  have "\<forall>(k, v) \<in> set (dict_items d). log_safe k \<and> val_ok v" using safe by auto
  then have "log_line d = py_join '', '' (map (\<lambda>(k, v). k @ '': '' @ val_text v) (dict_items d))"
    using log_line_strip [of d] by (simp only: strip_py_str_dict)
  also have "\<dots> = py_join '', '' (map (\<lambda>(k, v). k @ '': '' @ v) (map (\<lambda>(k, v). (k, val_text v)) (dict_items d)))"
    by (simp add: split_def comp_def)
  finally show ?thesis
    using assms(1) safe vals
    by (simp only:) (rule parse_log_line_join, auto simp: log_safe_def)
qed

theorem log_line_roundtrip_witness:
  "parse_log_line (log_line (mk_item ''2020-05-01 10:00:00.123456'' example_sample ''2020-05-01 10:00:00.123456.jpg'')) =
   [(''temperature_from_pressure'', ''29.9''), (''photo'', ''2020-05-01 10:00:00.123456.jpg''),
    (''pressure'', ''1013.2''), (''compass'', ''90.0''), (''date'', ''1588327200''),
    (''temperature_from_humidity'', ''30.1''), (''humidity'', ''45.5''), (''temperature'', ''30.1''),
    (''log'', ''2020-05-01 10:00:00.123456''), (''cpu_temp'', ''48.3''), (''gpu_temp'', ''47.8'')]"
proof -
  let ?d = "mk_item ''2020-05-01 10:00:00.123456'' example_sample ''2020-05-01 10:00:00.123456.jpg''"
  have items: "dict_items ?d =
    [(''temperature_from_pressure'', PyStr ''29.9''), (''photo'', PyStr ''2020-05-01 10:00:00.123456.jpg''),
     (''pressure'', PyStr ''1013.2''), (''compass'', PyStr ''90.0''), (''date'', PyInt 1588327200),
     (''temperature_from_humidity'', PyStr ''30.1''), (''humidity'', PyStr ''45.5''), (''temperature'', PyStr ''30.1''),
     (''log'', PyStr ''2020-05-01 10:00:00.123456''), (''cpu_temp'', PyStr ''48.3''), (''gpu_temp'', PyStr ''47.8'')]"
    by (simp add: dict_items_def item_iter_order_def mk_item_def example_sample_def map_filter_def)
  have ok: "\<forall>(k, v) \<in> set ?d. val_ok v"
    by (simp add: mk_item_def example_sample_def val_ok_def log_safe_def plain_str_def)
  have "py_str_int 1588327200 = ''1588327200''"
    by (simp add: py_str_int_def py_digits_one py_digits_more char_of_def bit_0)
  moreover have "dict_items ?d \<noteq> []" unfolding items by simp
  ultimately show ?thesis using log_line_roundtrip [OF _ ok] items by simp
qed


lemma save_photo_names:
  "save_photo c env w = (w1, Inr x) \<Longrightarrow> x = (utcnow env, utcnow env @ ''.jpg'', photo_folder c @ ''/'' @ utcnow env @ ''.jpg'')"
  by (erule save_photo_cases) simp_all

text \<open>
  C31: photos taken at different instants never share a name: their timestamps, file
  names (the S3 keys) and local paths all differ, so no upload overwrites an earlier
  object and no item reuses an earlier \<^verbatim>\<open>'log'\<close> key.
\<close>

theorem distinct_instants_distinct_names:
  assumes "valid_datetime (utc_dt env1)" and "valid_datetime (utc_dt env2)" and "utc_dt env1 \<noteq> utc_dt env2"
    and "save_photo c env1 w1 = (w1', Inr (n1, f1, p1))" and "save_photo c env2 w2 = (w2', Inr (n2, f2, p2))"
  shows "n1 \<noteq> n2 \<and> f1 \<noteq> f2 \<and> p1 \<noteq> p2"
proof -
  have "utcnow env1 \<noteq> utcnow env2" using assms(1-3) by (simp add: py_str_datetime_eq_iff)
  with save_photo_names [OF assms(4)] save_photo_names [OF assms(5)] show ?thesis by simp
qed

theorem distinct_instants_distinct_names_witness:
  "utcnow example_env @ ''.jpg'' \<noteq> utcnow (example_env\<lparr>utc_dt := example_dt\<lparr>dt_second := 1\<rparr>\<rparr>) @ ''.jpg''"
proof -
  let ?env2 = "example_env\<lparr>utc_dt := example_dt\<lparr>dt_second := 1\<rparr>\<rparr>"
  have v1: "valid_datetime (utc_dt example_env)" and v2: "valid_datetime (utc_dt ?env2)"
    and ne: "utc_dt example_env \<noteq> utc_dt ?env2"
    by (simp_all add: valid_datetime_def example_dt_def example_env_def)
  have s1: "save_photo cfg example_env (init_world []) =
      (fst (save_photo cfg example_env (init_world [])),
       Inr (utcnow example_env, utcnow example_env @ ''.jpg'', photo_folder cfg @ ''/'' @ utcnow example_env @ ''.jpg''))"
    by (simp add: save_photo_def example_env_def Let_def)
  have s2: "save_photo cfg ?env2 (init_world []) =
      (fst (save_photo cfg ?env2 (init_world [])),
       Inr (utcnow ?env2, utcnow ?env2 @ ''.jpg'', photo_folder cfg @ ''/'' @ utcnow ?env2 @ ''.jpg''))"
    by (simp add: save_photo_def example_env_def Let_def)
  from distinct_instants_distinct_names [OF v1 v2 ne s1 s2] show ?thesis by simp
qed

end
