(* ===== verification/Fan.thy ===== *)
theory Fan
  imports Status
begin

text \<open>
  The fan controller of \<^verbatim>\<open>src/sensor.py\<close> (lines 149--171): \<^verbatim>\<open>start_fan\<close>,
  \<^verbatim>\<open>stop_fan\<close> and the thermostat \<^verbatim>\<open>turn_on_fan_if_hot\<close>. The thermostat reads
  the temperature itself (\<^verbatim>\<open>sense.get_temperature()\<close>); the model takes the result
  of that read as its argument, a value or the exception it raised. The one-second
  \<^verbatim>\<open>sleep\<close> of \<^verbatim>\<open>stop_fan\<close> and the \<^verbatim>\<open>print\<close>s change no modelled state.
\<close>

definition start_fan :: "world \<Rightarrow> world" where
  "start_fan w = w\<lparr>is_fan_on := True, fan_active := True, animating := True\<rparr>"

definition stop_fan :: "world \<Rightarrow> world" where
  "stop_fan w = display_success_led (w\<lparr>is_fan_on := False, fan_active := False, animating := False\<rparr>)"

text \<open>
  \<^verbatim>\<open>turn_on_fan_if_hot\<close>: start when off and strictly above the threshold, stop when on
  and strictly below it, otherwise nothing. A failing read propagates its exception
  (\<open>Some e\<close>) before any state changes.
\<close>

definition turn_on_fan_if_hot :: "config \<Rightarrow> exn + real \<Rightarrow> world \<Rightarrow> world \<times> exn option" where
  "turn_on_fan_if_hot c temp w =
     (case temp of
       Inl e \<Rightarrow> (w, Some e)
     | Inr t \<Rightarrow>
         (if is_fan_on w = False \<and> t > turn_on_fan_at_temp c then (start_fan w, None)
          else if is_fan_on w = True \<and> t < turn_on_fan_at_temp c then (stop_fan w, None)
          else (w, None)))"

declare start_fan_def [op_defs] stop_fan_def [op_defs]

lemma start_fan_frame [frame_simps]:
  "is_log_save_success (start_fan w) = is_log_save_success w"
  "is_relay2_on (start_fan w) = is_relay2_on w"
  "relay2_active (start_fan w) = relay2_active w"
  "leds (start_fan w) = leds w"
  "photos (start_fan w) = photos w"
  "s3 (start_fan w) = s3 w"
  "table (start_fan w) = table w"
  "log_txt (start_fan w) = log_txt w"
  by (simp_all add: start_fan_def)

lemma stop_fan_frame [frame_simps]:
  "is_log_save_success (stop_fan w) = is_log_save_success w"
  "is_relay2_on (stop_fan w) = is_relay2_on w"
  "relay2_active (stop_fan w) = relay2_active w"
  "photos (stop_fan w) = photos w"
  "s3 (stop_fan w) = s3 w"
  "table (stop_fan w) = table w"
  "log_txt (stop_fan w) = log_txt w"
  "length (leds (stop_fan w)) = length (leds w)"
  by (simp_all add: stop_fan_def frame_simps)

lemma start_fan_state [simp]:
  "is_fan_on (start_fan w)" "fan_active (start_fan w)" "animating (start_fan w)"
  by (simp_all add: start_fan_def)

lemma stop_fan_state [simp]:
  "\<not> is_fan_on (stop_fan w)" "\<not> fan_active (stop_fan w)" "\<not> animating (stop_fan w)"
  by (simp_all add: stop_fan_def frame_simps)

lemma wf_start_fan [intro]: "wf_world w \<Longrightarrow> wf_world (start_fan w)"
  by (simp add: wf_world_def fan_consistent_def relay_consistent_def start_fan_def)

lemma wf_stop_fan [intro]: "wf_world w \<Longrightarrow> wf_world (stop_fan w)"
proof -
  assume "wf_world w"
  then have "wf_world (w\<lparr>is_fan_on := False, fan_active := False, animating := False\<rparr>)"
    by (simp add: wf_world_def fan_consistent_def relay_consistent_def)
  then show ?thesis unfolding stop_fan_def by (rule wf_display_success_led)
qed

text \<open>The thermostat's outcome on every branch, as one case analysis shared by the properties.\<close>

lemma turn_on_fan_if_hot_cases:
  assumes "turn_on_fan_if_hot c temp w = (w', r)"
  obtains (raised) e where "temp = Inl e" "w' = w" "r = Some e"
  | (start) t where "temp = Inr t" "\<not> is_fan_on w" "turn_on_fan_at_temp c < t" "w' = start_fan w" "r = None"
  | (stop) t where "temp = Inr t" "is_fan_on w" "t < turn_on_fan_at_temp c" "w' = stop_fan w" "r = None"
  | (keep) t where "temp = Inr t" "\<not> (\<not> is_fan_on w \<and> turn_on_fan_at_temp c < t)"
      "\<not> (is_fan_on w \<and> t < turn_on_fan_at_temp c)" "w' = w" "r = None"
proof (cases temp)
  case (Inl e)
  with assms show ?thesis by (intro raised) (auto simp: turn_on_fan_if_hot_def)
next
  case (Inr t)
  consider "\<not> is_fan_on w \<and> turn_on_fan_at_temp c < t"
    | "\<not> (\<not> is_fan_on w \<and> turn_on_fan_at_temp c < t)" "is_fan_on w \<and> t < turn_on_fan_at_temp c"
    | "\<not> (\<not> is_fan_on w \<and> turn_on_fan_at_temp c < t)" "\<not> (is_fan_on w \<and> t < turn_on_fan_at_temp c)"
    by blast
  then show ?thesis
  proof cases
    case 1
    with Inr assms show ?thesis by (intro start [of t]) (simp_all add: turn_on_fan_if_hot_def)
  next
    case 2
    with Inr assms show ?thesis by (intro stop [of t]) (auto simp: turn_on_fan_if_hot_def)
  next
    case 3
    with Inr assms show ?thesis by (intro keep [of t]) (auto simp: turn_on_fan_if_hot_def)
  qed
qed

lemma turn_on_fan_if_hot_reading:
  "snd (turn_on_fan_if_hot c (Inr t) w) = None"
  by (simp add: turn_on_fan_if_hot_def)

lemma wf_turn_on_fan_if_hot [intro]:
  "turn_on_fan_if_hot c temp w = (w', r) \<Longrightarrow> wf_world w \<Longrightarrow> wf_world w'"
  by (erule turn_on_fan_if_hot_cases) auto

lemma turn_on_fan_if_hot_frame:
  assumes "turn_on_fan_if_hot c temp w = (w', r)"
  shows "is_relay2_on w' = is_relay2_on w" "relay2_active w' = relay2_active w"
    "photos w' = photos w" "s3 w' = s3 w" "table w' = table w" "log_txt w' = log_txt w"
    "is_log_save_success w' = is_log_save_success w"
  using assms by (cases rule: turn_on_fan_if_hot_cases; simp add: frame_simps)+

section \<open>Properties of the thermostat\<close>

text \<open>
  C1: the thermostat is a bang-bang controller with one threshold. From a consistent
  state and a temperature reading \<open>t\<close>, it returns normally; the fan ends up on exactly
  when it was off and \<open>t\<close> is strictly above the threshold, or it was on and \<open>t\<close> is not
  strictly below it; the relay and the animation follow the flag.
\<close>

theorem thermostat_behaviour:
  assumes "fan_consistent w" and "turn_on_fan_if_hot c (Inr t) w = (w', r)"
  shows "r = None \<and>
    is_fan_on w' = (if is_fan_on w then \<not> t < turn_on_fan_at_temp c else turn_on_fan_at_temp c < t) \<and>
    fan_consistent w'"
  using assms(2)
proof (cases rule: turn_on_fan_if_hot_cases)
  case (raised e)
  then show ?thesis by simp
next
  case (start t')
  then show ?thesis by (simp add: fan_consistent_def)
next
  case (stop t')
  then show ?thesis by (simp add: fan_consistent_def)
next
  case (keep t')
  with assms(1) show ?thesis by auto
qed

text \<open>
  The specification's scenario: with the configured threshold (97 F, about 36.1 C), the
  fan off and a reading of 36.5 C, the fan is started and its relay asserted.
\<close>

theorem thermostat_behaviour_witness:
  "is_fan_on (fst (turn_on_fan_if_hot cfg (Inr (73 / 2)) (init_world []))) \<and>
   fan_active (fst (turn_on_fan_if_hot cfg (Inr (73 / 2)) (init_world [])))"
proof -
  have c: "fan_consistent (init_world [])" by (simp add: init_world_def fan_consistent_def)
  from thermostat_behaviour [OF c prod.collapse [symmetric]]
  show ?thesis by (simp add: cfg_threshold init_world_def fan_consistent_def)
qed

end
