(* ===== verification/MainLoop.thy ===== *)
theory MainLoop
  imports Logger Fan
begin

text \<open>
  The main loop of \<^verbatim>\<open>src/sensor.py\<close> (lines 199--214): forever, log a record,
  run the thermostat, sleep \<^verbatim>\<open>log_interval\<close> seconds. A
  \<^verbatim>\<open>KeyboardInterrupt\<close> that reaches the loop clears the matrix; any other
  exception shows the red pixel; both end in \<^verbatim>\<open>sys.exit(0)\<close>.

  The loop never ends by itself, so the model runs it over a finite list of cycle
  environments, the behaviour of the outside world during the first cycles: the result
  is either the process still running after them, or the process that has exited, with
  its final state and exit code.
\<close>

datatype proc = Running world | Exited world int

text \<open>One pass of the loop body: \<^verbatim>\<open>log_sensor()\<close>, \<^verbatim>\<open>turn_on_fan_if_hot()\<close>, \<^verbatim>\<open>sleep(log_interval)\<close>.\<close>

definition cycle :: "config \<Rightarrow> cycle_env \<Rightarrow> world \<Rightarrow> world \<times> exn option" where
  "cycle c env w =
     (case log_sensor c env w of
        (w1, Some e) \<Rightarrow> (w1, Some e)
      | (w1, None) \<Rightarrow>
          (case turn_on_fan_if_hot c (temp_res env) w1 of
             (w2, Some e) \<Rightarrow> (w2, Some e)
           | (w2, None) \<Rightarrow> (w2, if sleep_interrupted env then Some KeyboardInterrupt else None)))"

text \<open>The two \<^verbatim>\<open>except\<close> clauses of \<^verbatim>\<open>main\<close>; \<^verbatim>\<open>print\<close> and the traceback are output only.\<close>

definition handle_exit :: "world \<Rightarrow> exn \<Rightarrow> world" where
  "handle_exit w e = (if e = KeyboardInterrupt then w\<lparr>leds := blank\<rparr> else display_error_led w)"

fun main_loop :: "config \<Rightarrow> cycle_env list \<Rightarrow> world \<Rightarrow> proc" where
  "main_loop c [] w = Running w"
| "main_loop c (env # envs) w =
     (case cycle c env w of
        (w', None) \<Rightarrow> main_loop c envs w'
      | (w', Some e) \<Rightarrow> Exited (handle_exit w' e) 0)"

text \<open>The process: import the module (with the log file an earlier run left), then \<^verbatim>\<open>main()\<close>.\<close>

definition main :: "config \<Rightarrow> string \<Rightarrow> cycle_env list \<Rightarrow> proc" where
  "main c old_log envs = main_loop c envs (init_world old_log)"

fun proc_world :: "proc \<Rightarrow> world" where
  "proc_world (Running w) = w"
| "proc_world (Exited w code) = w"

declare cycle_def [op_defs] handle_exit_def [op_defs]

section \<open>Facts about one cycle\<close>

lemma cycle_shape:
  assumes "cycle c env w = (w', r)"
  obtains (log_failed) e where "log_sensor c env w = (w', Some e)" "r = Some e"
  | (logged) w1 where "log_sensor c env w = (w1, None)"
      "turn_on_fan_if_hot c (temp_res env) w1 = (w', None)"
      "r = (if sleep_interrupted env then Some KeyboardInterrupt else None)"
  | (thermo_failed) w1 e where "log_sensor c env w = (w1, None)"
      "turn_on_fan_if_hot c (temp_res env) w1 = (w', Some e)" "r = Some e"
proof -
  obtain w1 r1 where ls: "log_sensor c env w = (w1, r1)" by fastforce
  obtain w2 r2 where th: "turn_on_fan_if_hot c (temp_res env) w1 = (w2, r2)" by fastforce
  show ?thesis
  proof (cases r1)
    case (Some e)
    with ls assms show ?thesis by (intro log_failed [of e]) (simp_all add: cycle_def)
  next
    case None
    show ?thesis
    proof (cases r2)
      case None
      with ls th \<open>r1 = None\<close> assms show ?thesis by (intro logged [of w1]) (simp_all add: cycle_def)
    next
      case (Some e)
      with ls th \<open>r1 = None\<close> assms show ?thesis by (intro thermo_failed [of w1 e]) (simp_all add: cycle_def)
    qed
  qed
qed

lemma wf_cycle: "cycle c env w = (w', r) \<Longrightarrow> wf_world w \<Longrightarrow> wf_world w'"
  by (erule cycle_shape) (blast dest: wf_log_sensor wf_turn_on_fan_if_hot)+

lemma cycle_log_prefix: "cycle c env w = (w', r) \<Longrightarrow> prefix (log_txt w) (log_txt w')"
  by (erule cycle_shape; metis log_sensor_log_prefix turn_on_fan_if_hot_frame(6))

lemma wf_handle_exit: "wf_world w \<Longrightarrow> wf_world (handle_exit w e)"
proof (cases "e = KeyboardInterrupt")
  case True
  assume "wf_world w"
  with True show ?thesis by (simp add: handle_exit_def wf_world_def)
next
  case False
  assume "wf_world w"
  with False show ?thesis by (simp add: handle_exit_def wf_display_error_led)
qed

lemma handle_exit_log [simp]: "log_txt (handle_exit w e) = log_txt w"
  by (simp add: handle_exit_def frame_simps)

lemma main_loop_Cons_continue:
  "cycle c env w = (w', None) \<Longrightarrow> main_loop c (env # envs) w = main_loop c envs w'"
  by simp

lemma main_loop_Cons_exit:
  "cycle c env w = (w', Some e) \<Longrightarrow> main_loop c (env # envs) w = Exited (handle_exit w' e) 0"
  by simp

lemma main_loop_log_prefix: "prefix (log_txt w) (log_txt (proc_world (main_loop c envs w)))"
proof (induction envs arbitrary: w)
  case Nil
  then show ?case by simp
next
  case (Cons env envs)
  obtain w' r where cy: "cycle c env w = (w', r)" by fastforce
  then have p: "prefix (log_txt w) (log_txt w')" by (rule cycle_log_prefix)
  show ?case
  proof (cases r)
    case None
    with cy Cons.IH [of w'] p show ?thesis by (auto intro: prefix_order.trans)
  next
    case (Some e)
    with cy p show ?thesis by simp
  qed
qed

lemma main_loop_wf: "wf_world w \<Longrightarrow> wf_world (proc_world (main_loop c envs w))"
proof (induction envs arbitrary: w)
  case Nil
  then show ?case by simp
next
  case (Cons env envs)
  obtain w' r where cy: "cycle c env w = (w', r)" by fastforce
  from cy Cons.prems have "wf_world w'" by (rule wf_cycle)
  with cy Cons.IH show ?case by (cases r) (auto intro: wf_handle_exit)
qed

text \<open>A cycle that returns normally stores a record exactly when \<^verbatim>\<open>save_photo\<close> returned.\<close>

lemma cycle_returns_table:
  assumes "cycle c env w = (w', None)"
  shows "table w' = table w @
    (if photo_saved env then [mk_item (utcnow env) (projr (sample_res env)) (utcnow env @ ''.jpg'')] else [])"
  using assms
proof (cases rule: cycle_shape)
  case (logged w1)
  then show ?thesis
    using log_sensor_returns_table [OF logged(1)] turn_on_fan_if_hot_frame(5) [OF logged(2)] by simp
qed simp_all

text \<open>The records a run stores: one per cycle whose photo was saved, in the order of the cycles.\<close>

lemma main_loop_table:
  assumes "main_loop c envs w = Running w'"
  shows "table w' = table w @
    map (\<lambda>env. mk_item (utcnow env) (projr (sample_res env)) (utcnow env @ ''.jpg'')) (filter photo_saved envs)"
  using assms
proof (induction envs arbitrary: w)
  case Nil
  then show ?case by simp
next
  case (Cons env envs)
  obtain w1 r where cy: "cycle c env w = (w1, r)" by fastforce
  with Cons.prems have r: "r = None" by (cases r) simp_all
  with cy Cons.prems have "main_loop c envs w1 = Running w'" by simp
  then have "table w' = table w1 @
      map (\<lambda>env. mk_item (utcnow env) (projr (sample_res env)) (utcnow env @ ''.jpg'')) (filter photo_saved envs)"
    by (rule Cons.IH)
  with cycle_returns_table [OF cy [unfolded r]] show ?case by simp
qed

text \<open>A read of the Item that raises, after a saved photo, ends the process.\<close>

lemma saved_photo_read_error_exits:
  assumes "photo_saved env" and "sample_res env = Inl e" and "e \<noteq> KeyboardInterrupt" and "wf_world w"
  shows "\<exists>w'. main_loop c (env # envs) w = Exited w' 0 \<and> status_pixel w' = (255, 0, 0) \<and> table w' = table w"
proof -
  obtain w1 r1 where sp: "save_photo c env w = (w1, r1)" by fastforce
  with assms(1) obtain now pf pp where r1: "r1 = Inr (now, pf, pp)" by (metis save_photo_returns prod_cases3)
  note fr = save_photo_frame [OF sp]
  from log_sensor_saved [OF sp [unfolded r1]] assms(2) have "cycle c env w = (w1, Some e)"
    by (simp add: cycle_def)
  then have "main_loop c (env # envs) w = Exited (display_error_led w1) 0"
    using assms(3) by (simp add: handle_exit_def)
  moreover have "length (leds w1) = 64" using fr assms(4) by (simp add: wf_world_def wf_matrix_def)
  ultimately show ?thesis using fr by (simp add: frame_simps)
qed

section \<open>Properties of the process\<close>

text \<open>
  C9: the log file is append-only over the whole life of the process: whatever the
  outside world does, and however the process ends, what the file held when the process
  started is a prefix of what it holds at the end.
\<close>

theorem log_file_append_only:
  "prefix old_log (log_txt (proc_world (main c old_log envs)))"
  using main_loop_log_prefix [of "init_world old_log" c envs] by (simp add: main_def init_world_def)

text \<open>
  C10: while the process runs, the number of records it has stored is the number of
  cycles in which \<^verbatim>\<open>save_photo\<close> returned (capture succeeded, upload succeeded or
  failed with a \<^verbatim>\<open>ClientError\<close>); a failed capture stores none.
\<close>

theorem records_match_saved_photos:
  assumes "main_loop c envs w = Running w'"
  shows "length (table w') = length (table w) + length (filter photo_saved envs)"
  using main_loop_table [OF assms] by simp

theorem records_match_saved_photos_witness:
  "length (table (proc_world (main_loop cfg
      [example_env, example_env\<lparr>capture_res := Some (Error ''camera'')\<rparr>, example_env\<lparr>utc_dt := example_dt\<lparr>dt_minute := 5, dt_microsecond := 0\<rparr>\<rparr>]
      (init_world [])))) = 2"
proof -
  let ?envs = "[example_env, example_env\<lparr>capture_res := Some (Error ''camera'')\<rparr>, example_env\<lparr>utc_dt := example_dt\<lparr>dt_minute := 5, dt_microsecond := 0\<rparr>\<rparr>]"
  have run: "main_loop cfg ?envs (init_world []) = Running (proc_world (main_loop cfg ?envs (init_world [])))"
    by (simp add: cycle_def log_sensor_def save_photo_def Let_def example_env_def turn_on_fan_if_hot_def cfg_threshold
                  init_world_def start_fan_def display_error_led_def display_success_led_def)
  from records_match_saved_photos [OF run] show ?thesis
    by (simp add: photo_saved_def example_env_def init_world_def)
qed

text \<open>
  C11: a failed capture only skips the cycle's record: the process goes on to the
  thermostat, the sleep and the next cycle. This holds for every exception of the
  capture, \<^verbatim>\<open>KeyboardInterrupt\<close> included: the bare \<^verbatim>\<open>except\<close> of
  \<^verbatim>\<open>log_sensor\<close> swallows a Ctrl-C pressed while a photo is being taken.
\<close>

theorem capture_failure_loop_continues:
  assumes "capture_res env = Some e" and "temp_res env = Inr t" and "\<not> sleep_interrupted env"
  shows "main_loop c (env # envs) w = main_loop c envs (fst (turn_on_fan_if_hot c (Inr t) (display_error_led w)))"
proof -
  from assms(1) have "save_photo c env w = (w, Inl e)" by (simp add: save_photo_def)
  then have ls: "log_sensor c env w = (display_error_led w, None)" by (rule log_sensor_not_saved)
  obtain w2 where th: "turn_on_fan_if_hot c (Inr t) (display_error_led w) = (w2, None)"
    using turn_on_fan_if_hot_reading [of c t "display_error_led w"] by (cases "turn_on_fan_if_hot c (Inr t) (display_error_led w)") simp
  have "cycle c env w = (fst (turn_on_fan_if_hot c (Inr t) (display_error_led w)), None)"
    using ls th assms(2,3) by (simp add: cycle_def)
  then show ?thesis by (rule main_loop_Cons_continue)
qed

theorem capture_failure_loop_continues_witness:
  "\<exists>w'. main_loop cfg [example_env\<lparr>capture_res := Some KeyboardInterrupt\<rparr>] (init_world []) = Running w'"
  using capture_failure_loop_continues [of "example_env\<lparr>capture_res := Some KeyboardInterrupt\<rparr>"
      KeyboardInterrupt "73 / 2" cfg "[]" "init_world []"]
  by (simp add: example_env_def)

text \<open>
  C12: a failing DynamoDB write ends the process: once the photo is saved and the
  sensors read, an exception of \<^verbatim>\<open>put_item\<close> reaches \<^verbatim>\<open>main\<close>, which shows the
  red pixel and exits with code 0; nothing was stored.
\<close>

theorem persistence_failure_terminates:
  assumes "photo_saved env" and "sample_res env = Inr s" and "put_res env = Some e"
    and "e \<noteq> KeyboardInterrupt" and "wf_world w"
  shows "\<exists>w'. main_loop c (env # envs) w = Exited w' 0 \<and> status_pixel w' = (255, 0, 0) \<and> table w' = table w"
proof -
  obtain w1 r1 where sp: "save_photo c env w = (w1, r1)" by fastforce
  with assms(1) obtain now pf pp where r1: "r1 = Inr (now, pf, pp)" by (metis save_photo_returns prod_cases3)
  note fr = save_photo_frame [OF sp]
  from log_sensor_saved [OF sp [unfolded r1]] assms(2,3) have "log_sensor c env w = (w1, Some e)" by simp
  then have "cycle c env w = (w1, Some e)" by (simp add: cycle_def)
  then have "main_loop c (env # envs) w = Exited (display_error_led w1) 0"
    using assms(4) by (simp add: handle_exit_def)
  moreover have "length (leds w1) = 64" using fr assms(5) by (simp add: wf_world_def wf_matrix_def)
  ultimately show ?thesis using fr by (simp add: frame_simps)
qed

theorem persistence_failure_terminates_witness:
  "\<exists>w'. main_loop cfg [example_env\<lparr>put_res := Some (ClientError ''ProvisionedThroughputExceededException'')\<rparr>]
      (init_world []) = Exited w' 0 \<and> status_pixel w' = (255, 0, 0) \<and> table w' = []"
proof -
  have t: "table (init_world []) = []" by (simp add: init_world_def)
  show ?thesis
    using persistence_failure_terminates [of "example_env\<lparr>put_res := Some (ClientError ''ProvisionedThroughputExceededException'')\<rparr>"
        example_sample "ClientError ''ProvisionedThroughputExceededException''" "init_world []" cfg "[]",
        OF _ _ _ _ wf_init_world] t
    by (simp add: example_env_def photo_saved_def)
qed

text \<open>
  C13: every way the process ends reports exit code 0: the graceful interrupt and the
  fatal error are not told apart by the exit status.
\<close>

theorem exit_code_always_zero:
  assumes "main_loop c envs w = Exited w' code"
  shows "code = 0"
  using assms
proof (induction envs arbitrary: w)
  case Nil
  then show ?case by simp
next
  case (Cons env envs)
  obtain w1 r where cy: "cycle c env w = (w1, r)" by fastforce
  with Cons show ?case by (cases r) simp_all
qed

theorem exit_code_always_zero_witness:
  "\<exists>w' code. main_loop cfg [example_env\<lparr>sleep_interrupted := True\<rparr>] (init_world []) = Exited w' code \<and> code = 0"
proof -
  have "\<exists>w' code. main_loop cfg [example_env\<lparr>sleep_interrupted := True\<rparr>] (init_world []) = Exited w' code"
    by (simp add: cycle_def log_sensor_def save_photo_def Let_def example_env_def turn_on_fan_if_hot_def)
  then obtain w' code where "main_loop cfg [example_env\<lparr>sleep_interrupted := True\<rparr>] (init_world []) = Exited w' code"
    by blast
  with exit_code_always_zero [OF this] show ?thesis by blast
qed

text \<open>
  C14: a Ctrl-C during the sleep between cycles ends the process gracefully: the matrix
  is cleared and the exit code is 0, after the cycle's record and thermostat check.
\<close>

theorem sleep_interrupt_graceful_exit:
  assumes "log_sensor c env w = (w1, None)" and "temp_res env = Inr t" and "sleep_interrupted env"
  shows "main_loop c (env # envs) w = Exited ((fst (turn_on_fan_if_hot c (Inr t) w1))\<lparr>leds := blank\<rparr>) 0"
proof -
  obtain w2 where th: "turn_on_fan_if_hot c (Inr t) w1 = (w2, None)"
    using turn_on_fan_if_hot_reading [of c t w1] by (cases "turn_on_fan_if_hot c (Inr t) w1") simp
  with assms have "cycle c env w = (w2, Some KeyboardInterrupt)" by (simp add: cycle_def)
  with th show ?thesis by (simp add: handle_exit_def)
qed

theorem sleep_interrupt_graceful_exit_witness:
  "\<exists>w'. main_loop cfg [example_env\<lparr>sleep_interrupted := True\<rparr>] (init_world []) = Exited w' 0 \<and> leds w' = blank"
proof -
  let ?env = "example_env\<lparr>sleep_interrupted := True\<rparr>"
  have "snd (log_sensor cfg ?env (init_world [])) = None"
    by (simp add: log_sensor_def save_photo_def Let_def example_env_def)
  then have ls: "log_sensor cfg ?env (init_world []) = (fst (log_sensor cfg ?env (init_world [])), None)"
    by (metis prod.collapse)
  from sleep_interrupt_graceful_exit [OF ls, of "73 / 2" "[]"] show ?thesis
    by (simp add: example_env_def)
qed


text \<open>
  C32: the specification requires the log timestamps to be non-decreasing across cycles;
  the program takes them from the wall clock. Provided the clock gives valid, strictly
  increasing instants to the cycles, the items a run stores carry as their
  \<^verbatim>\<open>'log'\<close> keys exactly the timestamps of the cycles whose photo was saved, in
  order, and these strings strictly increase.
\<close>

theorem stored_log_keys_increase:
  assumes "main c old_log envs = Running w'"
    and "list_all (\<lambda>env. valid_datetime (utc_dt env)) envs"
    and "sorted_wrt (\<lambda>e1 e2. dt_key (utc_dt e1) < dt_key (utc_dt e2)) envs"
  shows "map (\<lambda>it. map_of it ''log'') (table w') = map (\<lambda>env. Some (PyStr (utcnow env))) (filter photo_saved envs) \<and>
    sorted_wrt (<) (map utcnow (filter photo_saved envs))"
proof -
  have "table w' = map (\<lambda>env. mk_item (utcnow env) (projr (sample_res env)) (utcnow env @ ''.jpg'')) (filter photo_saved envs)"
    using main_loop_table [of c envs "init_world old_log" w'] assms(1) by (simp add: main_def init_world_def)
  moreover have "sorted_wrt (\<lambda>e1 e2. utcnow e1 < utcnow e2) envs"
    using assms(3) by (rule sorted_wrt_mono_rel [rotated])
      (use assms(2) in \<open>auto simp: list_all_iff py_str_datetime_less_iff\<close>)
  then have "sorted_wrt (<) (map utcnow (filter photo_saved envs))"
    by (simp add: sorted_wrt_map sorted_wrt_filter)
  ultimately show ?thesis by (simp add: mk_item_def comp_def)
qed

theorem stored_log_keys_increase_witness:
  "map (\<lambda>it. map_of it ''log'') (table (proc_world (main cfg [] [example_env, example_env\<lparr>utc_dt := example_dt\<lparr>dt_minute := 5\<rparr>\<rparr>])))
     = [Some (PyStr (utcnow example_env)), Some (PyStr (utcnow (example_env\<lparr>utc_dt := example_dt\<lparr>dt_minute := 5\<rparr>\<rparr>)))]"
proof -
  let ?envs = "[example_env, example_env\<lparr>utc_dt := example_dt\<lparr>dt_minute := 5\<rparr>\<rparr>]"
  have run: "main cfg [] ?envs = Running (proc_world (main cfg [] ?envs))"
    by (simp add: main_def cycle_def log_sensor_def save_photo_def Let_def example_env_def turn_on_fan_if_hot_def
                  cfg_threshold init_world_def start_fan_def display_success_led_def)
  have v: "list_all (\<lambda>env. valid_datetime (utc_dt env)) ?envs"
    by (simp add: valid_datetime_def example_env_def example_dt_def)
  have s: "sorted_wrt (\<lambda>e1 e2. dt_key (utc_dt e1) < dt_key (utc_dt e2)) ?envs"
    by (simp add: dt_key_def example_env_def example_dt_def)
  from stored_log_keys_increase [OF run v s] show ?thesis
    by (simp add: photo_saved_def example_env_def)
qed

end
