(* ===== verification/Joystick.thy ===== *)
theory Joystick
  imports Fan
begin

text \<open>
  The input dispatcher of \<^verbatim>\<open>src/sensor.py\<close> (lines 173--197): the handlers the
  program binds to \<^verbatim>\<open>sense.stick.direction_up\<close> and \<^verbatim>\<open>direction_down\<close>. Only
  a release acts: joystick up toggles the fan through \<^verbatim>\<open>start_fan\<close>/\<^verbatim>\<open>stop_fan\<close>,
  joystick down toggles the second relay and its indicator pixel (0, 2).
\<close>

definition on_joy_up :: "action \<Rightarrow> world \<Rightarrow> world" where
  "on_joy_up a w =
     (if a = ACTION_RELEASED then (if is_fan_on w = False then start_fan w else stop_fan w) else w)"

definition on_joy_down :: "action \<Rightarrow> world \<Rightarrow> world" where
  "on_joy_down a w =
     (if a = ACTION_RELEASED then
        (if is_relay2_on w = 0
         then w\<lparr>relay2_active := True, is_relay2_on := 1, leds := set_pixel 0 2 (0, 100, 255) (leds w)\<rparr>
         else w\<lparr>relay2_active := False, is_relay2_on := 0, leds := set_pixel 0 2 (0, 0, 0) (leds w)\<rparr>)
      else w)"

text \<open>A sequence of events on one button, handled one after the other.\<close>

definition joy_down_run :: "action list \<Rightarrow> world \<Rightarrow> world" where
  "joy_down_run as w = fold on_joy_down as w"

definition joy_up_run :: "action list \<Rightarrow> world \<Rightarrow> world" where
  "joy_up_run as w = fold on_joy_up as w"

declare on_joy_up_def [op_defs] on_joy_down_def [op_defs]

lemma wf_on_joy_up [intro]: "wf_world w \<Longrightarrow> wf_world (on_joy_up a w)"
  by (auto simp: on_joy_up_def)

lemma wf_on_joy_down [intro]: "wf_world w \<Longrightarrow> wf_world (on_joy_down a w)"
  by (auto simp: on_joy_down_def wf_world_def fan_consistent_def relay_consistent_def)

lemma on_joy_down_frame [frame_simps]:
  "is_log_save_success (on_joy_down a w) = is_log_save_success w"
  "is_fan_on (on_joy_down a w) = is_fan_on w"
  "fan_active (on_joy_down a w) = fan_active w"
  "animating (on_joy_down a w) = animating w"
  "photos (on_joy_down a w) = photos w"
  "s3 (on_joy_down a w) = s3 w"
  "table (on_joy_down a w) = table w"
  "log_txt (on_joy_down a w) = log_txt w"
  by (simp_all add: on_joy_down_def)

lemma on_joy_up_frame [frame_simps]:
  "is_relay2_on (on_joy_up a w) = is_relay2_on w"
  "relay2_active (on_joy_up a w) = relay2_active w"
  "photos (on_joy_up a w) = photos w"
  "s3 (on_joy_up a w) = s3 w"
  "table (on_joy_up a w) = table w"
  "log_txt (on_joy_up a w) = log_txt w"
  by (simp_all add: on_joy_up_def frame_simps)

text \<open>One press of joystick down, on a consistent relay state, flips the relay.\<close>

lemma on_joy_down_released:
  "relay_consistent w \<Longrightarrow>
   is_relay2_on (on_joy_down ACTION_RELEASED w) = 1 - is_relay2_on w \<and>
   relay_consistent (on_joy_down ACTION_RELEASED w)"
  by (auto simp: on_joy_down_def relay_consistent_def)

lemma on_joy_down_not_released:
  "a \<noteq> ACTION_RELEASED \<Longrightarrow> on_joy_down a w = w"
  by (simp add: on_joy_down_def)

lemma on_joy_up_not_released:
  "a \<noteq> ACTION_RELEASED \<Longrightarrow> on_joy_up a w = w"
  by (simp add: on_joy_up_def)

section \<open>Properties of the input dispatcher\<close>

text \<open>
  C7: the second relay toggles exactly once per release of joystick down, whatever the
  presses and holds between: after a sequence of events its flag is the parity of the
  number of releases (added to where it started), and the relay agrees with the flag.
\<close>

theorem aux_relay_toggles_per_release:
  assumes "relay_consistent w"
  shows "is_relay2_on (joy_down_run as w) = (is_relay2_on w + int (count_list as ACTION_RELEASED)) mod 2 \<and>
    relay_consistent (joy_down_run as w)"
  using assms
proof (induction as arbitrary: w)
  case Nil
  then show ?case by (auto simp: joy_down_run_def relay_consistent_def)
next
  case (Cons a as)
  show ?case
  proof (cases "a = ACTION_RELEASED")
    case True
    with on_joy_down_released [OF Cons.prems] Cons.IH [of "on_joy_down a w"] Cons.prems
    show ?thesis by (auto simp: joy_down_run_def relay_consistent_def mod_simps)
  next
    case False
    with Cons.IH [of w] Cons.prems show ?thesis
      by (simp add: joy_down_run_def on_joy_down_not_released)
  qed
qed

theorem aux_relay_toggles_per_release_witness:
  "is_relay2_on (joy_down_run [ACTION_PRESSED, ACTION_HELD, ACTION_RELEASED, ACTION_PRESSED,
      ACTION_RELEASED, ACTION_PRESSED, ACTION_RELEASED] (init_world [])) = 1"
proof -
  have "relay_consistent (init_world [])" by (simp add: init_world_def relay_consistent_def)
  from aux_relay_toggles_per_release [OF this] show ?thesis by (simp add: init_world_def)
qed

text \<open>
  C8: joystick up toggles the fan on a release and ignores presses and holds; the fan
  relay and the animation follow the flag.
\<close>

theorem joy_up_toggles_fan:
  assumes "fan_consistent w"
  shows "is_fan_on (on_joy_up a w) = (if a = ACTION_RELEASED then \<not> is_fan_on w else is_fan_on w) \<and>
    fan_consistent (on_joy_up a w)"
  using assms by (auto simp: on_joy_up_def fan_consistent_def)

theorem joy_up_toggles_fan_witness:
  "is_fan_on (on_joy_up ACTION_RELEASED (init_world [])) \<and> \<not> is_fan_on (on_joy_up ACTION_HELD (init_world []))"
proof -
  have c: "fan_consistent (init_world [])" by (simp add: init_world_def fan_consistent_def)
  from joy_up_toggles_fan [OF c, of ACTION_RELEASED] joy_up_toggles_fan [OF c, of ACTION_HELD]
  show ?thesis by (simp add: init_world_def)
qed

end
