(* ===== verification/System.thy ===== *)
theory System
  imports MainLoop Joystick
begin

text \<open>
  The whole controller as a state machine. The joystick handlers of
  \<^verbatim>\<open>src/sensor.py\<close> run on the Sense HAT's event thread, between and during the
  operations of the main loop. Here each operation is one atomic step: a
  \<^verbatim>\<open>log_sensor\<close> call that returns, a thermostat check that returns, or one joystick
  event handled. Any order of these steps is allowed, which over-approximates the order
  of the loop (log, thermostat, sleep); statement-level interleaving inside the
  handlers is the subject of theory \<open>Concurrency\<close>. Treating a fan handler as one
  step leaves out the race of C21, so nothing is claimed here about the fan cell in
  reachable states.
\<close>

datatype event = Log cycle_env | Thermo "exn + real" | JoyUp action | JoyDown action

inductive sys_step :: "config \<Rightarrow> world \<Rightarrow> event \<Rightarrow> world \<Rightarrow> bool" for c where
  log: "log_sensor c env w = (w', None) \<Longrightarrow> sys_step c w (Log env) w'"
| thermo: "turn_on_fan_if_hot c temp w = (w', None) \<Longrightarrow> sys_step c w (Thermo temp) w'"
| joy_up: "sys_step c w (JoyUp a) (on_joy_up a w)"
| joy_down: "sys_step c w (JoyDown a) (on_joy_down a w)"

inductive reach :: "config \<Rightarrow> world \<Rightarrow> bool" for c where
  start: "reach c (init_world old_log)"
| step: "reach c w \<Longrightarrow> sys_step c w ev w' \<Longrightarrow> reach c w'"

text \<open>
  The schema of a stored item: every key of the Item literal exactly once,
  \<^verbatim>\<open>date\<close> an integer and every other value a string.
\<close>

definition item_schema :: "item \<Rightarrow> bool" where
  "item_schema d \<longleftrightarrow> distinct (map fst d) \<and> set (map fst d) = set item_iter_order \<and>
     list_all (\<lambda>(k, v). (k = ''date'') = (case v of PyInt i \<Rightarrow> True | PyStr s \<Rightarrow> False)) d"

inductive_cases sys_step_LogE: "sys_step c w (Log env) w'"
inductive_cases sys_step_ThermoE: "sys_step c w (Thermo temp) w'"
inductive_cases sys_step_JoyUpE: "sys_step c w (JoyUp a) w'"
inductive_cases sys_step_JoyDownE: "sys_step c w (JoyDown a) w'"

lemmas sys_stepE = sys_step_LogE sys_step_ThermoE sys_step_JoyUpE sys_step_JoyDownE

text \<open>The main loop's returning cycles are steps of the machine.\<close>

lemma cycle_steps:
  assumes "cycle c env w = (w', None)"
  shows "\<exists>w1. sys_step c w (Log env) w1 \<and> sys_step c w1 (Thermo (temp_res env)) w'"
  using assms
proof (cases rule: cycle_shape)
  case (logged w1)
  then show ?thesis by (auto intro: sys_step.intros)
qed simp_all

lemma main_loop_reach:
  "reach c w \<Longrightarrow> main_loop c envs w = Running w' \<Longrightarrow> reach c w'"
proof (induction envs arbitrary: w)
  case Nil
  then show ?case by simp
next
  case (Cons env envs)
  obtain w1 r where cy: "cycle c env w = (w1, r)" by fastforce
  with Cons.prems(2) have r: "r = None" by (cases r) simp_all
  with cy Cons.prems(2) have run: "main_loop c envs w1 = Running w'" by simp
  from cycle_steps [OF cy [unfolded r]] Cons.prems(1) have "reach c w1"
    by (blast intro: reach.step)
  from this run show ?case by (rule Cons.IH)
qed

lemma item_schema_mk_item: "item_schema (mk_item now s pf)"
  by (simp add: item_schema_def mk_item_def item_iter_order_def insert_commute)

lemma log_sensor_table_items:
  assumes "log_sensor c env w = (w', r)" and "it \<in> set (table w')"
  shows "it \<in> set (table w) \<or> (\<exists>now s pf. it = mk_item now s pf)"
  using assms(1)
  by (cases rule: log_sensor_shape) (use assms(2) in \<open>auto simp: frame_simps dest: save_photo_frame(7)\<close>)

lemma sys_step_table_items:
  "sys_step c w ev w' \<Longrightarrow> it \<in> set (table w') \<Longrightarrow> it \<in> set (table w) \<or> (\<exists>now s pf. it = mk_item now s pf)"
  by (induction rule: sys_step.induct) (auto simp: turn_on_fan_if_hot_frame frame_simps dest: log_sensor_table_items)

section \<open>Properties of the controller\<close>

text \<open>
  C16: the fan flag changes only in a thermostat step whose reading crosses the
  threshold (above it when off, below it when on) or on a release of joystick up;
  logging and joystick down never touch it.
\<close>

theorem fan_changes_only_at_threshold_or_release:
  assumes "sys_step c w ev w'" and "is_fan_on w' \<noteq> is_fan_on w"
  shows "(\<exists>t. ev = Thermo (Inr t) \<and>
            (if is_fan_on w then t < turn_on_fan_at_temp c else turn_on_fan_at_temp c < t)) \<or>
         ev = JoyUp ACTION_RELEASED"
  using assms
proof (induction rule: sys_step.induct)
  case (log env w w')
  then show ?case by (simp add: log_sensor_frame)
next
  case (thermo temp w w')
  then show ?case by (cases rule: turn_on_fan_if_hot_cases) auto
next
  case (joy_up w a)
  then show ?case by (cases "a = ACTION_RELEASED") (simp_all add: on_joy_up_not_released)
next
  case (joy_down w a)
  then show ?case by (simp add: frame_simps)
qed

theorem fan_changes_only_at_threshold_or_release_witness:
  "is_fan_on (fst (turn_on_fan_if_hot cfg (Inr (73 / 2)) (init_world [])))"
proof -
  let ?w = "init_world []" and ?t = "73 / 2 :: real"
  have st: "sys_step cfg ?w (Thermo (Inr ?t)) (fst (turn_on_fan_if_hot cfg (Inr ?t) ?w))"
    by (rule sys_step.thermo) (simp add: turn_on_fan_if_hot_def cfg_threshold init_world_def)
  have ch: "is_fan_on (fst (turn_on_fan_if_hot cfg (Inr ?t) ?w)) \<noteq> is_fan_on ?w"
    by (simp add: turn_on_fan_if_hot_def cfg_threshold init_world_def)
  from fan_changes_only_at_threshold_or_release [OF st ch] ch show ?thesis
    by (simp add: init_world_def)
qed

text \<open>
  C17: the second relay (its flag and its output) changes only on a release of joystick
  down: the periodic cycle, the thermostat and joystick up never touch it.
\<close>

theorem aux_relay_changes_only_on_release:
  assumes "sys_step c w ev w'"
    and "is_relay2_on w' \<noteq> is_relay2_on w \<or> relay2_active w' \<noteq> relay2_active w"
  shows "ev = JoyDown ACTION_RELEASED"
  using assms
proof (induction rule: sys_step.induct)
  case (log env w w')
  then show ?case by (simp add: log_sensor_frame)
next
  case (thermo temp w w')
  then show ?case by (simp add: turn_on_fan_if_hot_frame)
next
  case (joy_up w a)
  then show ?case by (simp add: frame_simps)
next
  case (joy_down w a)
  then show ?case by (cases "a = ACTION_RELEASED") (simp_all add: on_joy_down_not_released)
qed

theorem aux_relay_changes_only_on_release_witness:
  "relay2_active (on_joy_down ACTION_RELEASED (init_world []))"
proof -
  have ch: "is_relay2_on (on_joy_down ACTION_RELEASED (init_world [])) \<noteq> is_relay2_on (init_world [])
      \<or> relay2_active (on_joy_down ACTION_RELEASED (init_world [])) \<noteq> relay2_active (init_world [])"
    by (simp add: on_joy_down_def init_world_def)
  from aux_relay_changes_only_on_release [OF sys_step.joy_down ch] show ?thesis
    by (simp add: on_joy_down_def init_world_def)
qed

text \<open>
  C18: once a record has been saved, the success flag stays set for the life of the
  process: no step clears it. \<^verbatim>\<open>display_error_led\<close> assigns
  \<^verbatim>\<open>is_log_save_success = False\<close> without \<^verbatim>\<open>global\<close>, which binds a local
  variable, so the error path never resets the module flag that
  \<^verbatim>\<open>display_success_led\<close> tests.
\<close>

theorem success_flag_never_cleared:
  assumes "sys_step c w ev w'" and "is_log_save_success w"
  shows "is_log_save_success w'"
  using assms
proof (induction rule: sys_step.induct)
  case (log env w w')
  then show ?case
    by (cases rule: log_sensor_shape) (auto simp: frame_simps dest: save_photo_frame(6))
next
  case (thermo temp w w')
  then show ?case by (simp add: turn_on_fan_if_hot_frame)
next
  case (joy_up w a)
  then show ?case by (simp add: on_joy_up_def frame_simps)
next
  case (joy_down w a)
  then show ?case by (simp add: frame_simps)
qed

theorem success_flag_never_cleared_witness:
  "is_log_save_success (fst (log_sensor cfg (example_env\<lparr>capture_res := Some (Error ''camera'')\<rparr>)
     (fst (log_sensor cfg example_env (init_world [])))))"
proof -
  let ?w1 = "fst (log_sensor cfg example_env (init_world []))"
  let ?env = "example_env\<lparr>capture_res := Some (Error ''camera'')\<rparr>"
  have s1: "is_log_save_success ?w1"
    by (simp add: log_sensor_def save_photo_def Let_def example_env_def display_success_led_def)
  have "log_sensor cfg ?env ?w1 = (display_error_led ?w1, None)"
    by (simp add: log_sensor_def save_photo_def)
  then have "sys_step cfg ?w1 (Log ?env) (fst (log_sensor cfg ?env ?w1))"
    by (intro sys_step.log) simp
  from success_flag_never_cleared [OF this s1] show ?thesis .
qed

text \<open>
  C29: in every reachable state every item stored in the DynamoDB table has the schema
  of the Item literal: the eleven keys once each, \<^verbatim>\<open>date\<close> an \<^verbatim>\<open>int\<close> and all
  other values strings. The specification asks for all numeric values as text; the
  timestamp \<^verbatim>\<open>date\<close> is stored as a number.
\<close>

theorem stored_items_follow_schema:
  assumes "reach c w"
  shows "list_all item_schema (table w)"
  using assms
proof (induction rule: reach.induct)
  case (start old_log)
  then show ?case by (simp add: init_world_def)
next
  case (step w ev w')
  then show ?case
    by (auto simp: list_all_iff item_schema_mk_item dest: sys_step_table_items)
qed

theorem stored_items_follow_schema_witness:
  "list_all item_schema (table (fst (log_sensor cfg example_env (init_world [])))) \<and>
   table (fst (log_sensor cfg example_env (init_world []))) \<noteq> []"
proof -
  have st: "sys_step cfg (init_world []) (Log example_env) (fst (log_sensor cfg example_env (init_world [])))"
    by (rule sys_step.log) (simp add: log_sensor_def save_photo_def Let_def example_env_def)
  have "reach cfg (fst (log_sensor cfg example_env (init_world [])))"
    by (rule reach.step [OF reach.start st])
  from stored_items_follow_schema [OF this] show ?thesis
    by (simp add: log_sensor_def save_photo_def Let_def example_env_def display_success_led_def)
qed

end
