(* ===== verification/Concurrency.thy ===== *)
theory Concurrency
  imports System
begin

text \<open>
  The two execution contexts of \<^verbatim>\<open>src/sensor.py\<close> that write the fan cell: the main
  thread's thermostat (\<^verbatim>\<open>turn_on_fan_if_hot\<close>, lines 164--171) and the Sense HAT
  event thread's \<^verbatim>\<open>on_joy_up\<close> (lines 174--179). Both read \<^verbatim>\<open>is_fan_on\<close>,
  decide, and then run the statements of \<^verbatim>\<open>start_fan\<close> or \<^verbatim>\<open>stop_fan\<close>
  (lines 150--162) one by one; the interpreter may switch threads between any two of
  them. Nothing in the source guards this read-modify-write.

  A thread is its list of statements still to run (empty when idle). The unguarded
  system (\<open>locked = False\<close>, the source) lets a thread start whenever it is idle;
  with \<open>locked = True\<close> it may start only when the other thread is idle too, as the
  lock the specification asks for would. Besides the fan handlers, the main thread runs
  a returning \<^verbatim>\<open>log_sensor\<close> and the event thread \<^verbatim>\<open>on_joy_down\<close>, each as one
  step when its thread is idle: neither reads or writes the fan cell, relay 2 is
  written by the event thread alone, and every LED write is a single pixel or the whole
  matrix. The thermostat decides from one read of \<^verbatim>\<open>is_fan_on\<close>, where lines
  166 and 169 read it twice; the second read only matters when the first condition is
  false, and the race below does not depend on it.
\<close>

datatype stmt = Set_is_fan_on bool | Fan_output bool | Animation bool | Sleep_1s | Show_success

definition exec_stmt :: "stmt \<Rightarrow> world \<Rightarrow> world" where
  "exec_stmt s w =
     (case s of
        Set_is_fan_on b \<Rightarrow> w\<lparr>is_fan_on := b\<rparr>
      | Fan_output b \<Rightarrow> w\<lparr>fan_active := b\<rparr>
      | Animation b \<Rightarrow> w\<lparr>animating := b\<rparr>
      | Sleep_1s \<Rightarrow> w
      | Show_success \<Rightarrow> display_success_led w)"

text \<open>The bodies of \<^verbatim>\<open>start_fan\<close> (lines 150--154) and \<^verbatim>\<open>stop_fan\<close> (lines 156--162).\<close>

definition start_fan_stmts :: "stmt list" where
  "start_fan_stmts = [Set_is_fan_on True, Fan_output True, Animation True]"

definition stop_fan_stmts :: "stmt list" where
  "stop_fan_stmts = [Set_is_fan_on False, Fan_output False, Animation False, Sleep_1s, Show_success]"

text \<open>
  What each thread decides from the flag it reads: the thermostat with reading \<open>t\<close>,
  the handler on a release.
\<close>

definition thermostat_stmts :: "config \<Rightarrow> real \<Rightarrow> world \<Rightarrow> stmt list" where
  "thermostat_stmts c t w =
     (if is_fan_on w = False \<and> t > turn_on_fan_at_temp c then start_fan_stmts
      else if is_fan_on w = True \<and> t < turn_on_fan_at_temp c then stop_fan_stmts
      else [])"

definition joy_up_stmts :: "world \<Rightarrow> stmt list" where
  "joy_up_stmts w = (if is_fan_on w = False then start_fan_stmts else stop_fan_stmts)"

record csys =
  cworld :: world
  main_pending :: "stmt list"
  stick_pending :: "stmt list"

inductive cstep :: "config \<Rightarrow> bool \<Rightarrow> csys \<Rightarrow> csys \<Rightarrow> bool" for c locked where
  main_begin: "main_pending s = [] \<Longrightarrow> (locked \<longrightarrow> stick_pending s = []) \<Longrightarrow>
     cstep c locked s (s\<lparr>main_pending := thermostat_stmts c t (cworld s)\<rparr>)"
| stick_begin: "stick_pending s = [] \<Longrightarrow> (locked \<longrightarrow> main_pending s = []) \<Longrightarrow>
     cstep c locked s (s\<lparr>stick_pending := joy_up_stmts (cworld s)\<rparr>)"
| main_exec: "main_pending s = st # sts \<Longrightarrow>
     cstep c locked s (s\<lparr>cworld := exec_stmt st (cworld s), main_pending := sts\<rparr>)"
| stick_exec: "stick_pending s = st # sts \<Longrightarrow>
     cstep c locked s (s\<lparr>cworld := exec_stmt st (cworld s), stick_pending := sts\<rparr>)"
| main_log: "main_pending s = [] \<Longrightarrow> log_sensor c env (cworld s) = (w', None) \<Longrightarrow>
     cstep c locked s (s\<lparr>cworld := w'\<rparr>)"
| stick_down: "stick_pending s = [] \<Longrightarrow> cstep c locked s (s\<lparr>cworld := on_joy_down a (cworld s)\<rparr>)"

inductive creach :: "config \<Rightarrow> bool \<Rightarrow> csys \<Rightarrow> bool" for c locked where
  start: "creach c locked \<lparr>cworld = init_world old_log, main_pending = [], stick_pending = []\<rparr>"
| step: "creach c locked s \<Longrightarrow> cstep c locked s s' \<Longrightarrow> creach c locked s'"

text \<open>An interleaving written out as the list of its steps, run when each step is enabled.\<close>

datatype sched = MainBegin real | StickBegin | MainExec | StickExec

fun csched_step :: "config \<Rightarrow> bool \<Rightarrow> sched \<Rightarrow> csys \<Rightarrow> csys option" where
  "csched_step c locked (MainBegin t) s =
     (if main_pending s = [] \<and> (locked \<longrightarrow> stick_pending s = [])
      then Some (s\<lparr>main_pending := thermostat_stmts c t (cworld s)\<rparr>) else None)"
| "csched_step c locked StickBegin s =
     (if stick_pending s = [] \<and> (locked \<longrightarrow> main_pending s = [])
      then Some (s\<lparr>stick_pending := joy_up_stmts (cworld s)\<rparr>) else None)"
| "csched_step c locked MainExec s =
     (case main_pending s of
        [] \<Rightarrow> None
      | st # sts \<Rightarrow> Some (s\<lparr>cworld := exec_stmt st (cworld s), main_pending := sts\<rparr>))"
| "csched_step c locked StickExec s =
     (case stick_pending s of
        [] \<Rightarrow> None
      | st # sts \<Rightarrow> Some (s\<lparr>cworld := exec_stmt st (cworld s), stick_pending := sts\<rparr>))"

fun run_sched :: "config \<Rightarrow> bool \<Rightarrow> sched list \<Rightarrow> csys \<Rightarrow> csys option" where
  "run_sched c locked [] s = Some s"
| "run_sched c locked (x # xs) s =
     (case csched_step c locked x s of None \<Rightarrow> None | Some s' \<Rightarrow> run_sched c locked xs s')"

section \<open>The statements implement the handlers\<close>

lemma start_fan_stmts_run: "fold exec_stmt start_fan_stmts w = start_fan w"
  by (simp add: start_fan_stmts_def exec_stmt_def start_fan_def)

lemma stop_fan_stmts_run: "fold exec_stmt stop_fan_stmts w = stop_fan w"
  by (simp add: stop_fan_stmts_def exec_stmt_def stop_fan_def)

lemma thermostat_stmts_run:
  "fold exec_stmt (thermostat_stmts c t w) w = fst (turn_on_fan_if_hot c (Inr t) w)"
  by (simp add: thermostat_stmts_def turn_on_fan_if_hot_def start_fan_stmts_run stop_fan_stmts_run)

lemma joy_up_stmts_run: "fold exec_stmt (joy_up_stmts w) w = on_joy_up ACTION_RELEASED w"
  by (simp add: joy_up_stmts_def on_joy_up_def start_fan_stmts_run stop_fan_stmts_run)

lemma csched_step_cstep: "csched_step c locked x s = Some s' \<Longrightarrow> cstep c locked s s'"
  by (cases x) (auto intro: cstep.intros split: if_splits list.splits)

lemma run_sched_creach:
  "creach c locked s \<Longrightarrow> run_sched c locked xs s = Some s' \<Longrightarrow> creach c locked s'"
proof (induction xs arbitrary: s)
  case Nil
  then show ?case by simp
next
  case (Cons x xs)
  then obtain s1 where st: "csched_step c locked x s = Some s1" and rest: "run_sched c locked xs s1 = Some s'"
    by (auto split: option.splits)
  from Cons.prems(1) csched_step_cstep [OF st] have "creach c locked s1" by (rule creach.step)
  from this rest show ?case by (rule Cons.IH)
qed

section \<open>What every step preserves\<close>

definition shared_ok :: "world \<Rightarrow> bool" where
  "shared_ok w \<longleftrightarrow> relay_consistent w \<and> wf_matrix (leds w)"

lemma shared_ok_exec_stmt: "shared_ok w \<Longrightarrow> shared_ok (exec_stmt st w)"
  by (cases st) (auto simp: shared_ok_def exec_stmt_def relay_consistent_def frame_simps)

lemma shared_ok_on_joy_down: "shared_ok w \<Longrightarrow> shared_ok (on_joy_down a w)"
  by (cases "a = ACTION_RELEASED")
     (auto simp: shared_ok_def on_joy_down_not_released dest: on_joy_down_released, auto simp: on_joy_down_def)

lemma shared_ok_log_sensor: "log_sensor c env w = (w', r) \<Longrightarrow> shared_ok w \<Longrightarrow> shared_ok w'"
  by (auto simp: shared_ok_def relay_consistent_def log_sensor_frame dest: wf_matrix_log_sensor)

lemma cstep_shared_ok: "cstep c locked s s' \<Longrightarrow> shared_ok (cworld s) \<Longrightarrow> shared_ok (cworld s')"
  by (induction rule: cstep.induct) (auto intro: shared_ok_exec_stmt shared_ok_on_joy_down shared_ok_log_sensor)

section \<open>Properties of the two threads\<close>

text \<open>
  C21: without a guard the two threads can leave the fan flag and the fan relay in
  disagreement. The schedule: the thermostat starts the fan; later it reads the fan on
  and a cold reading and begins \<^verbatim>\<open>stop_fan\<close>, which clears the flag; the user
  releases joystick up, the handler reads the cleared flag and runs all of
  \<^verbatim>\<open>start_fan\<close>; then \<^verbatim>\<open>stop_fan\<close> resumes and switches the relay and the
  animation off. Both threads are idle, the flag says on, the relay is off.
\<close>

theorem unguarded_handlers_race:
  "\<exists>s. creach c False s \<and> main_pending s = [] \<and> stick_pending s = [] \<and>
       is_fan_on (cworld s) \<and> \<not> fan_active (cworld s)"
proof -
  let ?thr = "turn_on_fan_at_temp c"
  let ?xs = "[MainBegin (?thr + 1), MainExec, MainExec, MainExec, MainBegin (?thr - 1), MainExec,
              StickBegin, StickExec, StickExec, StickExec, MainExec, MainExec, MainExec, MainExec]"
  let ?s0 = "\<lparr>cworld = init_world [], main_pending = [], stick_pending = []\<rparr>"
  have "case run_sched c False ?xs ?s0 of
          None \<Rightarrow> False
        | Some s' \<Rightarrow> main_pending s' = [] \<and> stick_pending s' = [] \<and> is_fan_on (cworld s') \<and> \<not> fan_active (cworld s')"
    by (simp add: thermostat_stmts_def joy_up_stmts_def start_fan_stmts_def stop_fan_stmts_def exec_stmt_def
                  init_world_def display_success_led_def)
  then obtain s' where run: "run_sched c False ?xs ?s0 = Some s'"
    and fin: "main_pending s' = []" "stick_pending s' = []" "is_fan_on (cworld s')" "\<not> fan_active (cworld s')"
    by (auto split: option.splits)
  from creach.start run have "creach c False s'" by (rule run_sched_creach)
  with fin show ?thesis by blast
qed

text \<open>
  C15: what the two threads do keep consistent without any guard. In every reachable
  state of the unguarded system, relay 2 agrees with its flag, which is 0 or 1, and the
  matrix holds 64 byte-valued pixels: each statement of either thread preserves this.
  The fan cell has no such invariant: C21 reaches an idle state with the flag on and the
  relay off.
\<close>

theorem unguarded_system_invariant:
  assumes "creach c False s"
  shows "relay_consistent (cworld s) \<and> wf_matrix (leds (cworld s))"
proof -
  from assms have "shared_ok (cworld s)"
  proof (induction rule: creach.induct)
    case (start old_log)
    from wf_init_world [of old_log] show ?case by (simp add: shared_ok_def wf_world_def)
  next
    case (step s s')
    then show ?case by (blast intro: cstep_shared_ok)
  qed
  then show ?thesis by (simp add: shared_ok_def)
qed

theorem unguarded_system_invariant_witness:
  "relay2_active (on_joy_down ACTION_RELEASED (init_world [])) \<and> is_relay2_on (on_joy_down ACTION_RELEASED (init_world [])) = 1"
proof -
  let ?s0 = "\<lparr>cworld = init_world [], main_pending = [], stick_pending = []\<rparr>"
  have "cstep cfg False ?s0 (?s0\<lparr>cworld := on_joy_down ACTION_RELEASED (cworld ?s0)\<rparr>)"
    by (rule cstep.stick_down) simp
  then have "creach cfg False (?s0\<lparr>cworld := on_joy_down ACTION_RELEASED (cworld ?s0)\<rparr>)"
    by (rule creach.step [OF creach.start])
  from unguarded_system_invariant [OF this] show ?thesis
    by (simp add: relay_consistent_def on_joy_down_def init_world_def)
qed

end
