(* ===== verification/Progress.thy ===== *)
theory Progress
  imports Prelude
begin

text \<open>
  The upload progress callback of \<^verbatim>\<open>src/sensor.py\<close>, class
  \<^verbatim>\<open>ProgressPercentage\<close> (lines 68--85). The constructor records the file name and
  its size as a float (\<^verbatim>\<open>os.path.getsize\<close>, which raises \<^verbatim>\<open>OSError\<close> for a
  missing file); each call adds the bytes just sent to \<^verbatim>\<open>_seen_so_far\<close> (a Python
  int) and prints the percentage \<^verbatim>\<open>_seen_so_far / _size * 100\<close>. The division is
  a float division: with \<^verbatim>\<open>_size\<close> equal to 0.0 it raises \<^verbatim>\<open>ZeroDivisionError\<close>,
  after the counter has been updated. The lock only serialises calls; the model's
  calls are already sequential. What a call prints is modelled by the percentage it
  returns.
\<close>

record progress =
  filename :: string
  size :: real
  seen_so_far :: int

definition ProgressPercentage :: "string \<Rightarrow> exn + nat \<Rightarrow> exn + progress" where
  "ProgressPercentage f getsize =
     (case getsize of
        Inl e \<Rightarrow> Inl e
      | Inr n \<Rightarrow> Inr \<lparr>filename = f, size = real n, seen_so_far = 0\<rparr>)"

definition progress_call :: "progress \<Rightarrow> int \<Rightarrow> progress \<times> (exn + real)" where
  "progress_call p bytes_amount =
     (let p' = p\<lparr>seen_so_far := seen_so_far p + bytes_amount\<rparr>
      in if size p' = 0 then (p', Inl (Error ''ZeroDivisionError''))
         else (p', Inr (real_of_int (seen_so_far p') / size p' * 100)))"

text \<open>
  The calls the transfer makes, in order, collecting the printed percentages; an
  exception ends the transfer.
\<close>

fun progress_run :: "progress \<Rightarrow> int list \<Rightarrow> progress \<times> (exn + real list)" where
  "progress_run p [] = (p, Inr [])"
| "progress_run p (b # bs) =
     (case progress_call p b of
        (p', Inl e) \<Rightarrow> (p', Inl e)
      | (p', Inr pct) \<Rightarrow>
          (case progress_run p' bs of
             (p'', Inl e) \<Rightarrow> (p'', Inl e)
           | (p'', Inr pcts) \<Rightarrow> (p'', Inr (pct # pcts))))"

section \<open>Facts about the callback\<close>

lemma progress_call_size [simp]: "size (fst (progress_call p b)) = size p"
  by (simp add: progress_call_def Let_def)

lemma progress_call_seen [simp]: "seen_so_far (fst (progress_call p b)) = seen_so_far p + b"
  by (simp add: progress_call_def Let_def)

lemma progress_call_nonzero:
  "size p \<noteq> 0 \<Longrightarrow> progress_call p b =
     (p\<lparr>seen_so_far := seen_so_far p + b\<rparr>, Inr (real_of_int (seen_so_far p + b) / size p * 100))"
  by (simp add: progress_call_def Let_def)

lemma progress_run_nonzero:
  assumes "size p \<noteq> 0"
  shows "fst (progress_run p bs) = p\<lparr>seen_so_far := seen_so_far p + sum_list bs\<rparr> \<and>
    (\<exists>pcts. snd (progress_run p bs) = Inr pcts \<and> length pcts = length bs \<and>
       (bs \<noteq> [] \<longrightarrow> last pcts = real_of_int (seen_so_far p + sum_list bs) / size p * 100))"
  using assms
proof (induction bs arbitrary: p)
  case Nil
  then show ?case by simp
next
  case (Cons b bs)
  let ?p1 = "p\<lparr>seen_so_far := seen_so_far p + b\<rparr>"
  have "size ?p1 \<noteq> 0" using Cons.prems by simp
  from Cons.IH [OF this] obtain pcts where
    st: "fst (progress_run ?p1 bs) = ?p1\<lparr>seen_so_far := seen_so_far ?p1 + sum_list bs\<rparr>" and
    out: "snd (progress_run ?p1 bs) = Inr pcts" "length pcts = length bs" and
    lst: "bs \<noteq> [] \<longrightarrow> last pcts = real_of_int (seen_so_far ?p1 + sum_list bs) / size ?p1 * 100"
    by blast
  have run: "progress_run ?p1 bs = (fst (progress_run ?p1 bs), Inr pcts)"
    using out(1) by (metis prod.collapse)
  have "pcts = [] \<longleftrightarrow> bs = []" using out(2) by auto
  then show ?case
    using Cons.prems st out(2) lst
    by (simp add: progress_call_nonzero run [simplified st] add.assoc)
qed

lemma progress_run_bounds:
  assumes "0 < size p" and "0 \<le> seen_so_far p" and "\<forall>b \<in> set bs. 0 \<le> b"
    and "real_of_int (seen_so_far p + sum_list bs) \<le> size p"
    and "snd (progress_run p bs) = Inr pcts"
  shows "\<forall>x \<in> set pcts. 0 \<le> x \<and> x \<le> 100"
  using assms
proof (induction bs arbitrary: p pcts)
  case Nil
  then show ?case by simp
next
  case (Cons b bs)
  let ?p1 = "p\<lparr>seen_so_far := seen_so_far p + b\<rparr>"
  have ne: "size p \<noteq> 0" using Cons.prems(1) by simp
  have sum_nonneg: "0 \<le> sum_list bs" using Cons.prems(3) by (simp add: sum_list_nonneg)
  obtain pcts' where run: "snd (progress_run ?p1 bs) = Inr pcts'"
    using progress_run_nonzero [of ?p1 bs] ne by auto
  with Cons.prems(5) ne have pcts: "pcts = real_of_int (seen_so_far p + b) / size p * 100 # pcts'"
    by (auto simp: progress_call_nonzero split: prod.splits sum.splits)
  have "\<forall>x \<in> set pcts'. 0 \<le> x \<and> x \<le> 100"
    using Cons.prems(1-4) run by (intro Cons.IH) (auto simp: add.assoc)
  moreover have "0 \<le> real_of_int (seen_so_far p + b) / size p * 100"
    using Cons.prems(1-3) by simp
  moreover have "real_of_int (seen_so_far p + b) \<le> real_of_int (seen_so_far p + sum_list (b # bs))"
    using sum_nonneg by simp
  then have "real_of_int (seen_so_far p + b) \<le> size p"
    using Cons.prems(4) by linarith
  then have "real_of_int (seen_so_far p + b) / size p \<le> 1"
    using Cons.prems(1) by (simp add: divide_le_eq_1)
  then have "real_of_int (seen_so_far p + b) / size p * 100 \<le> 1 * 100"
    by (rule mult_right_mono) simp
  ultimately show ?case using pcts by simp
qed

section \<open>Properties of the callback\<close>

text \<open>
  C22: for a photo of \<open>n > 0\<close> bytes sent in chunks that add up to \<open>n\<close>, the callback
  prints one percentage per chunk, its counter ends at \<open>n\<close>, and the last percentage
  printed is exactly 100.
\<close>

theorem progress_reaches_100:
  assumes "ProgressPercentage f (Inr n) = Inr p" and "0 < n" and "bs \<noteq> []" and "sum_list bs = int n"
  shows "seen_so_far (fst (progress_run p bs)) = int n \<and>
    (\<exists>pcts. snd (progress_run p bs) = Inr pcts \<and> length pcts = length bs \<and> last pcts = 100)"
proof -
  from assms(1) have p: "p = \<lparr>filename = f, size = real n, seen_so_far = 0\<rparr>"
    by (simp add: ProgressPercentage_def)
  with assms(2) have "size p \<noteq> 0" by simp
  from progress_run_nonzero [OF this, of bs] assms(2-4) p show ?thesis by auto
qed

theorem progress_reaches_100_witness:
  "seen_so_far (fst (progress_run \<lparr>filename = ''photos/a.jpg'', size = 10, seen_so_far = 0\<rparr> [4, 6])) = 10 \<and>
   snd (progress_run \<lparr>filename = ''photos/a.jpg'', size = 10, seen_so_far = 0\<rparr> [4, 6]) = Inr [40, 100]"
proof -
  have "ProgressPercentage ''photos/a.jpg'' (Inr 10) = Inr \<lparr>filename = ''photos/a.jpg'', size = 10, seen_so_far = 0\<rparr>"
    by (simp add: ProgressPercentage_def)
  from progress_reaches_100 [OF this, of "[4, 6]"] show ?thesis
    by (simp add: progress_call_def Let_def)
qed

text \<open>
  C23: as long as the chunks are non-negative and do not add up to more than the file's
  size, every percentage the callback prints lies between 0 and 100.
\<close>

theorem progress_percentages_bounded:
  assumes "ProgressPercentage f (Inr n) = Inr p" and "0 < n" and "\<forall>b \<in> set bs. 0 \<le> b"
    and "sum_list bs \<le> int n" and "snd (progress_run p bs) = Inr pcts"
  shows "\<forall>x \<in> set pcts. 0 \<le> x \<and> x \<le> 100"
proof -
  from assms(1) have p: "p = \<lparr>filename = f, size = real n, seen_so_far = 0\<rparr>"
    by (simp add: ProgressPercentage_def)
  have "real_of_int (sum_list bs) \<le> real n" using assms(4) by linarith
  with p assms(2,3,5) show ?thesis by (intro progress_run_bounds [of p bs]) simp_all
qed

theorem progress_percentages_bounded_witness:
  "snd (progress_run \<lparr>filename = ''photos/a.jpg'', size = 10, seen_so_far = 0\<rparr> [3, 4, 2]) = Inr [30, 70, 90] \<and>
   list_all (\<lambda>x. 0 \<le> x \<and> x \<le> (100::real)) [30, 70, 90]"
proof -
  have p: "ProgressPercentage ''photos/a.jpg'' (Inr 10) = Inr \<lparr>filename = ''photos/a.jpg'', size = 10, seen_so_far = 0\<rparr>"
    by (simp add: ProgressPercentage_def)
  have r: "snd (progress_run \<lparr>filename = ''photos/a.jpg'', size = 10, seen_so_far = 0\<rparr> [3, 4, 2]) = Inr [30, 70, 90]"
    by (simp add: progress_call_def Let_def)
  from progress_percentages_bounded [OF p _ _ _ r] r show ?thesis by (simp add: list_all_iff)
qed

text \<open>
  C24: for an empty photo the size is 0.0 and the first call of the callback raises
  \<^verbatim>\<open>ZeroDivisionError\<close> (after counting the bytes), which ends the transfer.
\<close>

theorem progress_empty_file_raises:
  assumes "ProgressPercentage f (Inr 0) = Inr p" and "bs \<noteq> []"
  shows "snd (progress_run p bs) = Inl (Error ''ZeroDivisionError'')"
proof -
  from assms(1) have "size p = 0" by (auto simp: ProgressPercentage_def)
  moreover obtain b bs' where "bs = b # bs'" using assms(2) by (cases bs) auto
  ultimately show ?thesis by (simp add: progress_call_def Let_def)
qed

theorem progress_empty_file_raises_witness:
  "snd (progress_run \<lparr>filename = ''photos/empty.jpg'', size = 0, seen_so_far = 0\<rparr> [0]) = Inl (Error ''ZeroDivisionError'')"
proof -
  have "ProgressPercentage ''photos/empty.jpg'' (Inr 0) = Inr \<lparr>filename = ''photos/empty.jpg'', size = 0, seen_so_far = 0\<rparr>"
    by (simp add: ProgressPercentage_def)
  from progress_empty_file_raises [OF this, of "[0]"] show ?thesis by simp
qed

end
