(* ===== verification/Thermal.thy ===== *)
theory Thermal
  imports Prelude
begin

text \<open>
  The thermal adapters of \<^verbatim>\<open>src/sensor.py\<close> (lines 56--66): \<^verbatim>\<open>get_cpu_temp\<close>
  reads the first line printed by \<^verbatim>\<open>vcgencmd measure_temp\<close> (of the form
  \<^verbatim>\<open>temp=48.3'C\<close> and a newline), removes \<^verbatim>\<open>temp=\<close> and \<^verbatim>\<open>'C\n\<close>, and
  converts the rest with \<^verbatim>\<open>float\<close>; \<^verbatim>\<open>get_gpu_temp\<close> converts the first line of
  \<^verbatim>\<open>/sys/class/thermal/thermal_zone0/temp\<close> (millidegrees) and divides it by 1000.
  The line read by \<^verbatim>\<open>os.popen(...).readline()\<close> is the input of each definition.

  \<^verbatim>\<open>float(s)\<close> is Python 2.7's conversion of a byte string: surrounding white space
  (space, tab, newline, vertical tab, form feed, carriage return) is ignored; then an
  optional sign and either \<^verbatim>\<open>inf\<close>, \<^verbatim>\<open>infinity\<close> or \<^verbatim>\<open>nan\<close> in any case, or
  a decimal literal: digits with an optional point (at least one digit before or after
  it) and an optional exponent \<^verbatim>\<open>e\<close>/\<^verbatim>\<open>E\<close>, sign, digits. The whole string must
  be consumed, otherwise \<^verbatim>\<open>ValueError\<close> is raised. A finite result is the exact
  decimal value as a real: the rounding to the nearest double (and the overflow of huge
  exponents to infinity) is not modelled, as everywhere in the development temperatures
  are reals.
\<close>

datatype pyfloat = Fin real | PosInf | NegInf | NaN

definition py_isspace :: "char \<Rightarrow> bool" where
  "py_isspace c \<longleftrightarrow> c = CHR '' '' \<or> c = CHR 0x09 \<or> c = CHR 0x0A \<or> c = CHR 0x0B \<or> c = CHR 0x0C \<or> c = CHR 0x0D"

definition py_strip :: "string \<Rightarrow> string" where
  "py_strip s = rev (dropWhile py_isspace (rev (dropWhile py_isspace s)))"

text \<open>ASCII lower case, as the comparison with \<^verbatim>\<open>inf\<close> and \<^verbatim>\<open>nan\<close> uses.\<close>

definition lower_char :: "char \<Rightarrow> char" where
  "lower_char c = (if (65::nat) \<le> of_char c \<and> of_char c \<le> (90::nat) then char_of (of_char c + (32::nat)) else c)"

text \<open>An optional sign: whether it is a minus, and the rest.\<close>

definition parse_sign :: "string \<Rightarrow> bool \<times> string" where
  "parse_sign s = (case s of
      c # r \<Rightarrow> if c = CHR ''-'' then (True, r) else if c = CHR ''+'' then (False, r) else (False, s)
    | [] \<Rightarrow> (False, []))"

text \<open>
  The digits of a mantissa: the value of all its digits, the number of digits after the
  point, and what follows; \<open>None\<close> when there is no digit at all.
\<close>

definition parse_mantissa :: "string \<Rightarrow> (nat \<times> nat \<times> string) option" where
  "parse_mantissa s =
     (let ip = takeWhile is_digit s; r1 = dropWhile is_digit s in
      case r1 of
        c # r' \<Rightarrow>
          if c = CHR ''.'' then
            (let fp = takeWhile is_digit r'; r2 = dropWhile is_digit r' in
             if ip = [] \<and> fp = [] then None else Some (digits_val (ip @ fp), length fp, r2))
          else if ip = [] then None else Some (digits_val ip, 0, r1)
      | [] \<Rightarrow> if ip = [] then None else Some (digits_val ip, 0, []))"

text \<open>The exponent part, which must end the string (empty means exponent 0).\<close>

definition parse_exponent :: "string \<Rightarrow> int option" where
  "parse_exponent s =
     (case s of
        [] \<Rightarrow> Some 0
      | c # r \<Rightarrow>
          if c = CHR ''e'' \<or> c = CHR ''E'' then
            (case parse_sign r of
               (neg, ds) \<Rightarrow>
                 if ds \<noteq> [] \<and> list_all is_digit ds
                 then Some (if neg then - int (digits_val ds) else int (digits_val ds)) else None)
          else None)"

definition parse_decimal :: "string \<Rightarrow> real option" where
  "parse_decimal s =
     (case parse_mantissa s of
        None \<Rightarrow> None
      | Some (m, k, r) \<Rightarrow>
          (case parse_exponent r of
             None \<Rightarrow> None
           | Some e \<Rightarrow> Some (real m * 10 powi (e - int k))))"

definition py_float :: "string \<Rightarrow> exn + pyfloat" where
  "py_float s =
     (case parse_sign (py_strip s) of
        (neg, r) \<Rightarrow>
          (let l = map lower_char r in
           if l = ''inf'' \<or> l = ''infinity'' then Inr (if neg then NegInf else PosInf)
           else if l = ''nan'' then Inr NaN
           else case parse_decimal r of
                  Some x \<Rightarrow> Inr (Fin (if neg then - x else x))
                | None \<Rightarrow> Inl (Error ''ValueError'')))"

text \<open>Division of a Python float by a positive constant.\<close>

definition pyfloat_div :: "pyfloat \<Rightarrow> real \<Rightarrow> pyfloat" where
  "pyfloat_div x d = (case x of Fin r \<Rightarrow> Fin (r / d) | _ \<Rightarrow> x)"

definition get_cpu_temp :: "string \<Rightarrow> exn + pyfloat" where
  "get_cpu_temp res = py_float (py_replace (py_replace res ''temp='' []) [CHR 0x27, CHR ''C'', CHR 0x0A] [])"

definition get_gpu_temp :: "string \<Rightarrow> exn + pyfloat" where
  "get_gpu_temp res = (case py_float res of Inl e \<Rightarrow> Inl e | Inr t \<Rightarrow> Inr (pyfloat_div t 1000))"


section \<open>Facts about the parser\<close>

lemma digit_not_space: "is_digit c \<Longrightarrow> \<not> py_isspace c"
  by (auto simp: is_digit_def py_isspace_def)

lemma digit_lower: "is_digit c \<Longrightarrow> lower_char c = c"
  by (simp add: is_digit_def lower_char_def)

lemma takeWhile_digits:
  "list_all is_digit ds \<Longrightarrow> (r = [] \<or> \<not> is_digit (hd r)) \<Longrightarrow> takeWhile is_digit (ds @ r) = ds"
  by (cases r) (auto simp: takeWhile_append2 list_all_iff)

lemma dropWhile_digits:
  "list_all is_digit ds \<Longrightarrow> (r = [] \<or> \<not> is_digit (hd r)) \<Longrightarrow> dropWhile is_digit (ds @ r) = r"
  by (cases r) (auto simp: dropWhile_append2 list_all_iff)

lemma takeWhile_all_digits: "list_all is_digit ds \<Longrightarrow> takeWhile is_digit ds = ds"
  by (simp add: list_all_iff)

lemma dropWhile_all_digits: "list_all is_digit ds \<Longrightarrow> dropWhile is_digit ds = []"
  by (simp add: list_all_iff)

lemma point_not_digit [simp]: "\<not> is_digit CHR ''.''" "\<not> is_digit CHR 0x27"
  by (simp_all add: is_digit_def)

lemma parse_decimal_digits:
  assumes "list_all is_digit ds" and "ds \<noteq> []"
  shows "parse_decimal ds = Some (real (digits_val ds))"
  using assms by (simp add: parse_decimal_def parse_mantissa_def parse_exponent_def
      takeWhile_all_digits dropWhile_all_digits)

lemma parse_decimal_point:
  assumes "list_all is_digit ip" and "list_all is_digit fp" and "ip \<noteq> []"
  shows "parse_decimal (ip @ CHR ''.'' # fp) = Some (real (digits_val (ip @ fp)) / 10 ^ length fp)"
proof -
  have "takeWhile is_digit (ip @ CHR ''.'' # fp) = ip" "dropWhile is_digit (ip @ CHR ''.'' # fp) = CHR ''.'' # fp"
    using assms(1) by (simp_all add: takeWhile_digits dropWhile_digits)
  then show ?thesis using assms(2,3)
    by (simp add: takeWhile_all_digits dropWhile_all_digits parse_decimal_def parse_mantissa_def parse_exponent_def power_int_minus divide_inverse)
qed

lemma py_strip_trailing:
  assumes "s \<noteq> []" and "\<not> py_isspace (hd s)" and "\<not> py_isspace (last s)" and "list_all py_isspace post"
  shows "py_strip (s @ post) = s"
proof -
  obtain s' a where s: "s = s' @ [a]" using assms(1) by (cases s rule: rev_cases) auto
  have "dropWhile py_isspace (s @ post) = s @ post" using assms(1,2) by (cases s) simp_all
  moreover have "dropWhile py_isspace (rev post @ rev s) = rev s"
    using s assms(3,4) by (subst dropWhile_append2) (auto simp: list_all_iff)
  ultimately show ?thesis by (simp add: py_strip_def)
qed

lemma last_py_digits: "is_digit (last (py_digits n))"
  using py_digits_is_digit [of n] by (simp add: list_all_iff)

lemma hd_py_digits: "is_digit (hd (py_digits n))"
  using py_digits_is_digit [of n] by (simp add: list_all_iff)

lemma digit_not_special:
  assumes "r \<noteq> []" and "is_digit (hd r)"
  shows "map lower_char r \<noteq> ''inf'' \<and> map lower_char r \<noteq> ''infinity'' \<and> map lower_char r \<noteq> ''nan''"
proof -
  have "hd (map lower_char r) = hd r" using assms by (simp add: hd_map digit_lower)
  moreover have "\<not> is_digit CHR ''i''" "\<not> is_digit CHR ''n''" by (simp_all add: is_digit_def)
  ultimately show ?thesis using assms(2) by auto
qed

lemma not_sign_digit: "is_digit c \<Longrightarrow> c \<noteq> CHR ''-'' \<and> c \<noteq> CHR ''+''"
  by (auto simp: is_digit_def)

lemma py_float_unsigned:
  assumes "py_strip s = r" and "r \<noteq> []" and "is_digit (hd r)"
  shows "py_float s = (case parse_decimal r of Some x \<Rightarrow> Inr (Fin x) | None \<Rightarrow> Inl (Error ''ValueError''))"
proof -
  have "parse_sign r = (False, r)" using assms(2,3) not_sign_digit by (cases r) (auto simp: parse_sign_def)
  with assms digit_not_special [OF assms(2,3)] show ?thesis
    by (simp add: py_float_def Let_def split: option.splits)
qed

lemma py_float_negative:
  assumes "py_strip s = CHR ''-'' # r" and "r \<noteq> []" and "is_digit (hd r)"
  shows "py_float s = (case parse_decimal r of Some x \<Rightarrow> Inr (Fin (- x)) | None \<Rightarrow> Inl (Error ''ValueError''))"
  using assms digit_not_special [OF assms(2,3)]
  by (simp add: py_float_def parse_sign_def Let_def split: option.splits)

lemma py_float_py_str_int:
  assumes "list_all py_isspace post"
  shows "py_float (py_str_int i @ post) = Inr (Fin (of_int i))"
proof (cases "i < 0")
  case True
  have "\<not> py_isspace CHR ''-''" by (simp add: py_isspace_def)
  with assms True have "py_strip (py_str_int i @ post) = CHR ''-'' # py_digits (nat (- i))"
    using py_strip_trailing [of "CHR ''-'' # py_digits (nat (- i))" post] last_py_digits digit_not_space
    by (simp add: py_str_int_def)
  with True show ?thesis
    by (simp add: py_float_negative hd_py_digits parse_decimal_digits py_digits_is_digit)
next
  case False
  with assms have "py_strip (py_str_int i @ post) = py_digits (nat i)"
    using py_strip_trailing [of "py_digits (nat i)" post] last_py_digits hd_py_digits digit_not_space
    by (simp add: py_str_int_def)
  with False show ?thesis
    by (simp add: py_float_unsigned hd_py_digits parse_decimal_digits py_digits_is_digit)
qed

lemma temp_prefix_removed:
  assumes "CHR ''t'' \<notin> set x"
  shows "py_replace (''temp='' @ x) ''temp='' [] = x"
  using py_replace_prefix [of "''temp=''" x "[]"] py_replace_skip [of "''temp=''" x "[]" "[]"] assms
  by simp

lemma digit_not_t: "is_digit c \<Longrightarrow> c \<noteq> CHR ''t'' \<and> c \<noteq> CHR 0x27"
  by (auto simp: is_digit_def)

lemma cpu_line_stripped:
  assumes "list_all is_digit fp" and "CHR ''t'' \<notin> set rest"
  shows "py_replace (py_replace (''temp='' @ py_digits n @ CHR ''.'' # fp @ rest) ''temp='' []) [CHR 0x27, CHR ''C'', CHR 0x0A] []
    = py_digits n @ CHR ''.'' # fp @ py_replace rest [CHR 0x27, CHR ''C'', CHR 0x0A] []"
proof -
  have ds: "list_all is_digit (py_digits n)" by (rule py_digits_is_digit)
  then have "CHR ''t'' \<notin> set (py_digits n @ CHR ''.'' # fp @ rest)" "CHR 0x27 \<notin> set (py_digits n @ CHR ''.'' # fp)"
    using assms digit_not_t by (fastforce simp: list_all_iff)+
  then show ?thesis
    using temp_prefix_removed py_replace_skip [of "[CHR 0x27, CHR ''C'', CHR 0x0A]" "py_digits n @ CHR ''.'' # fp" rest "[]"]
    by simp
qed

lemma py_replace_no_newline: "py_replace [CHR 0x27, CHR ''C''] [CHR 0x27, CHR ''C'', CHR 0x0A] [] = [CHR 0x27, CHR ''C'']"
  by (simp add: py_replace.simps [of "CHR 0x27 # _"] py_replace.simps [of "CHR ''C'' # _"])

lemma parse_decimal_trailing_garbage:
  assumes "list_all is_digit ip" and "list_all is_digit fp" and "c \<noteq> CHR ''e''" and "c \<noteq> CHR ''E''"
    and "\<not> is_digit c"
  shows "parse_decimal (ip @ CHR ''.'' # fp @ c # r) = None"
proof -
  have "takeWhile is_digit (ip @ CHR ''.'' # fp @ c # r) = ip" "dropWhile is_digit (ip @ CHR ''.'' # fp @ c # r) = CHR ''.'' # fp @ c # r"
    using assms(1) by (simp_all add: takeWhile_digits dropWhile_digits)
  moreover have "takeWhile is_digit (fp @ c # r) = fp" "dropWhile is_digit (fp @ c # r) = c # r"
    using assms(2,5) by (simp_all add: takeWhile_digits dropWhile_digits)
  ultimately show ?thesis using assms(3,4)
    by (simp add: parse_decimal_def parse_mantissa_def parse_exponent_def split: option.splits)
qed

lemma py_digits_48: "py_digits 48 = ''48''"
  by (simp add: py_digits_more py_digits_one char_of_def bit_0)

lemma gpu_line_value:
  "get_gpu_temp (py_str_int i @ [CHR 0x0A]) = Inr (Fin (of_int i / 1000))"
proof -
  have "list_all py_isspace [CHR 0x0A]" by (simp add: py_isspace_def)
  then show ?thesis by (simp add: get_gpu_temp_def py_float_py_str_int pyfloat_div_def)
qed

lemma cpu_line_value:
  assumes "list_all is_digit fp"
  shows "get_cpu_temp (''temp='' @ py_digits n @ CHR ''.'' # fp @ [CHR 0x27, CHR ''C'', CHR 0x0A])
    = Inr (Fin (real n + real (digits_val fp) / 10 ^ length fp))"
proof -
  have "CHR ''t'' \<notin> set [CHR 0x27, CHR ''C'', CHR 0x0A]" by simp
  from cpu_line_stripped [OF assms this] have
    "get_cpu_temp (''temp='' @ py_digits n @ CHR ''.'' # fp @ [CHR 0x27, CHR ''C'', CHR 0x0A])
       = py_float (py_digits n @ CHR ''.'' # fp)"
    using py_replace_prefix [of "[CHR 0x27, CHR ''C'', CHR 0x0A]" "[]" "[]"] by (simp add: get_cpu_temp_def)
  moreover have "py_strip (py_digits n @ CHR ''.'' # fp) = py_digits n @ CHR ''.'' # fp"
    using py_strip_trailing [of "py_digits n @ CHR ''.'' # fp" "[]"] assms hd_py_digits digit_not_space
    by (cases fp rule: rev_cases) (auto simp: list_all_iff py_isspace_def)
  moreover have "real (digits_val (py_digits n @ fp)) / 10 ^ length fp = real n + real (digits_val fp) / 10 ^ length fp"
    by (simp add: digits_val_append add_divide_distrib)
  ultimately show ?thesis using assms
    by (simp add: py_float_unsigned hd_py_digits parse_decimal_point py_digits_is_digit)
qed

lemma thermal_empty_output: "get_cpu_temp [] = Inl (Error ''ValueError'') \<and> get_gpu_temp [] = Inl (Error ''ValueError'')"
proof -
  have "py_float [] = Inl (Error ''ValueError'')"
    by (simp add: py_float_def py_strip_def parse_sign_def parse_decimal_def parse_mantissa_def)
  then show ?thesis by (simp add: get_cpu_temp_def get_gpu_temp_def py_replace.simps [of "[]"])
qed

section \<open>Properties of the thermal adapters\<close>

text \<open>
  C26: \<^verbatim>\<open>get_gpu_temp\<close> reads the millidegree count the kernel prints (an integer
  and a newline) as that number divided by 1000: \<^verbatim>\<open>float\<close> reads back exactly what
  \<^verbatim>\<open>str\<close> of an integer prints, trailing newline included.
\<close>

theorem gpu_temp_reads_millidegrees:
  "get_gpu_temp (py_str_int i @ [CHR 0x0A]) = Inr (Fin (of_int i / 1000))"
  by (rule gpu_line_value)

text \<open>
  C27: for a line of \<^verbatim>\<open>vcgencmd measure_temp\<close> of the form
  \<^verbatim>\<open>temp=<digits>.<digits>'C\<close> and a newline, \<^verbatim>\<open>get_cpu_temp\<close> strips the prefix
  and the unit and returns the decimal number between them.
\<close>

theorem cpu_temp_reads_vcgencmd:
  assumes "list_all is_digit fp"
  shows "get_cpu_temp (''temp='' @ py_digits n @ CHR ''.'' # fp @ [CHR 0x27, CHR ''C'', CHR 0x0A])
    = Inr (Fin (real n + real (digits_val fp) / 10 ^ length fp))"
  using assms by (rule cpu_line_value)

theorem cpu_temp_reads_vcgencmd_witness:
  "get_cpu_temp (''temp=48.3'' @ [CHR 0x27, CHR ''C'', CHR 0x0A]) = Inr (Fin (483 / 10))"
proof -
  have "list_all is_digit ''3''" by (simp add: is_digit_def)
  from cpu_temp_reads_vcgencmd [OF this, of 48] show ?thesis
    by (simp add: py_digits_48 digits_val_def)
qed

text \<open>
  C28: the thermal adapters raise \<^verbatim>\<open>ValueError\<close> when the command prints nothing
  (the tool is missing, so \<^verbatim>\<open>readline\<close> returns the empty string), and
  \<^verbatim>\<open>get_cpu_temp\<close> raises it as well for a last line without its newline: the
  \<^verbatim>\<open>replace\<close> of \<^verbatim>\<open>'C\n\<close> then finds nothing and \<^verbatim>\<open>float\<close> sees the unit.
  The reads of the Item are outside the \<^verbatim>\<open>try\<close> of \<^verbatim>\<open>log_sensor\<close>, so such
  an error ends the process (see C34).
\<close>

theorem cpu_temp_unterminated_line_raises:
  assumes "list_all is_digit fp"
  shows "get_cpu_temp (''temp='' @ py_digits n @ CHR ''.'' # fp @ [CHR 0x27, CHR ''C'']) = Inl (Error ''ValueError'') \<and>
    get_cpu_temp [] = Inl (Error ''ValueError'') \<and> get_gpu_temp [] = Inl (Error ''ValueError'')"
proof -
  let ?d = "py_digits n @ CHR ''.'' # fp @ [CHR 0x27, CHR ''C'']"
  have "CHR ''t'' \<notin> set [CHR 0x27, CHR ''C'']" by simp
  from cpu_line_stripped [OF assms this] have
    "get_cpu_temp (''temp='' @ py_digits n @ CHR ''.'' # fp @ [CHR 0x27, CHR ''C'']) = py_float ?d"
    by (simp add: get_cpu_temp_def py_replace_no_newline)
  moreover have "py_strip ?d = ?d"
    using py_strip_trailing [of ?d "[]"] hd_py_digits digit_not_space by (simp add: py_isspace_def)
  moreover have "\<not> is_digit CHR 0x27" by simp
  then have "parse_decimal ?d = None"
    using parse_decimal_trailing_garbage [of "py_digits n" fp "CHR 0x27" "[CHR ''C'']"] assms py_digits_is_digit
    by simp
  ultimately have "get_cpu_temp (''temp='' @ py_digits n @ CHR ''.'' # fp @ [CHR 0x27, CHR ''C'']) = Inl (Error ''ValueError'')"
    using py_float_unsigned [of ?d ?d] hd_py_digits by simp
  with thermal_empty_output show ?thesis by simp
qed

theorem cpu_temp_unterminated_line_raises_witness:
  "get_cpu_temp (''temp=48.3'' @ [CHR 0x27, CHR ''C'']) = Inl (Error ''ValueError'')"
proof -
  have "list_all is_digit ''3''" by (simp add: is_digit_def)
  from cpu_temp_unterminated_line_raises [OF this, of 48] show ?thesis
    by (simp add: py_digits_48)
qed

end
