(* ===== verification/Sampler.thy ===== *)
theory Sampler
  imports Logger Thermal
begin

text \<open>
  The reads that build the Item of \<^verbatim>\<open>log_sensor\<close> (lines 123--135 of
  \<^verbatim>\<open>src/sensor.py\<close>), in the order Python 2.7 evaluates the values of a dictionary
  display: the epoch seconds, the four Sense HAT readings, \<^verbatim>\<open>get_cpu_temp()\<close>,
  \<^verbatim>\<open>get_gpu_temp()\<close> and the two remaining Sense HAT temperatures. The first read
  that raises ends the evaluation with its exception. A Sense HAT read is the driver's
  outcome (its \<^verbatim>\<open>str()\<close> already applied); the two thermal reads are the lines
  \<^verbatim>\<open>readline()\<close> returned, parsed by \<open>get_cpu_temp\<close> and \<open>get_gpu_temp\<close>. The
  conversion \<^verbatim>\<open>str\<close> of a Python float is the runtime's, so it is a parameter
  \<open>str_float\<close> of the model: what is proved holds for every such conversion.
\<close>

record sensor_reads =
  time_now :: int
  humidity_res :: "exn + string"
  pressure_res :: "exn + string"
  compass_res :: "exn + string"
  temperature_res :: "exn + string"
  cpu_line :: string
  gpu_line :: string
  temp_humidity_res :: "exn + string"
  temp_pressure_res :: "exn + string"

text \<open>Sequencing of reads that may raise.\<close>

definition then_read :: "exn + 'a \<Rightarrow> ('a \<Rightarrow> exn + 'b) \<Rightarrow> exn + 'b" where
  "then_read r f = (case r of Inl e \<Rightarrow> Inl e | Inr x \<Rightarrow> f x)"

definition read_sample :: "(pyfloat \<Rightarrow> string) \<Rightarrow> sensor_reads \<Rightarrow> exn + sample" where
  "read_sample str_float r =
     then_read (humidity_res r) (\<lambda>h.
     then_read (pressure_res r) (\<lambda>p.
     then_read (compass_res r) (\<lambda>cp.
     then_read (temperature_res r) (\<lambda>t.
     then_read (get_cpu_temp (cpu_line r)) (\<lambda>ct.
     then_read (get_gpu_temp (gpu_line r)) (\<lambda>gt.
     then_read (temp_humidity_res r) (\<lambda>th.
     then_read (temp_pressure_res r) (\<lambda>tp.
       Inr \<lparr>date = time_now r, humidity = h, pressure = p, compass = cp, temperature = t,
            cpu_temp = str_float ct, gpu_temp = str_float gt,
            temperature_from_humidity = th, temperature_from_pressure = tp\<rparr>))))))))"

section \<open>Facts about the reads\<close>

lemma then_read_simps [simp]:
  "then_read (Inl e) f = Inl e" "then_read (Inr x) f = f x"
  by (simp_all add: then_read_def)

lemma read_sample_cpu_error:
  assumes "humidity_res r = Inr h" and "pressure_res r = Inr p" and "compass_res r = Inr cp"
    and "temperature_res r = Inr t" and "get_cpu_temp (cpu_line r) = Inl e"
  shows "read_sample sf r = Inl e"
  using assms by (simp add: read_sample_def)


section \<open>Properties of the reads\<close>

text \<open>
  C33: when the Sense HAT reads succeed and the two thermal lines have the shape the tools
  print, the Item's readings are the HAT strings and \<^verbatim>\<open>str\<close> of the two parsed
  temperatures: the decimal number of \<^verbatim>\<open>temp=<d>.<d>'C\<close> and the millidegrees
  divided by 1000, whatever \<^verbatim>\<open>str\<close> of a float prints.
\<close>

theorem read_sample_parses_thermal_lines:
  assumes "humidity_res r = Inr h" and "pressure_res r = Inr p" and "compass_res r = Inr cp"
    and "temperature_res r = Inr t" and "temp_humidity_res r = Inr th" and "temp_pressure_res r = Inr tp"
    and "cpu_line r = ''temp='' @ py_digits n @ CHR ''.'' # fp @ [CHR 0x27, CHR ''C'', CHR 0x0A]"
    and "list_all is_digit fp" and "gpu_line r = py_str_int i @ [CHR 0x0A]"
  shows "read_sample sf r = Inr \<lparr>date = time_now r, humidity = h, pressure = p, compass = cp, temperature = t,
      cpu_temp = sf (Fin (real n + real (digits_val fp) / 10 ^ length fp)),
      gpu_temp = sf (Fin (of_int i / 1000)), temperature_from_humidity = th, temperature_from_pressure = tp\<rparr>"
  using assms cpu_line_value [OF assms(8), of n] gpu_line_value [of i] by (simp add: read_sample_def)

theorem read_sample_parses_thermal_lines_witness:
  "read_sample (\<lambda>x. case x of Fin v \<Rightarrow> (if v = 483 / 10 then ''48.3'' else ''47.8'') | _ \<Rightarrow> ''nan'')
     \<lparr>time_now = 1588327200, humidity_res = Inr ''40.1'', pressure_res = Inr ''1013.2'', compass_res = Inr ''90.0'',
      temperature_res = Inr ''30.5'', cpu_line = ''temp=48.3'' @ [CHR 0x27, CHR ''C'', CHR 0x0A],
      gpu_line = ''47800'' @ [CHR 0x0A], temp_humidity_res = Inr ''30.1'', temp_pressure_res = Inr ''29.9''\<rparr>
   = Inr \<lparr>date = 1588327200, humidity = ''40.1'', pressure = ''1013.2'', compass = ''90.0'', temperature = ''30.5'',
      cpu_temp = ''48.3'', gpu_temp = ''47.8'', temperature_from_humidity = ''30.1'', temperature_from_pressure = ''29.9''\<rparr>"
proof -
  let ?sf = "\<lambda>x. case x of Fin v \<Rightarrow> (if v = 483 / 10 then ''48.3'' else ''47.8'') | _ \<Rightarrow> ''nan''"
  let ?r = "\<lparr>time_now = 1588327200, humidity_res = Inr ''40.1'', pressure_res = Inr ''1013.2'', compass_res = Inr ''90.0'',
      temperature_res = Inr ''30.5'', cpu_line = ''temp=48.3'' @ [CHR 0x27, CHR ''C'', CHR 0x0A],
      gpu_line = ''47800'' @ [CHR 0x0A], temp_humidity_res = Inr ''30.1'', temp_pressure_res = Inr ''29.9''\<rparr>"
  have g: "''47800'' = py_str_int 47800"
    by (simp add: py_str_int_def py_digits_one py_digits_more char_of_def bit_0)
  have "read_sample ?sf ?r = Inr \<lparr>date = time_now ?r, humidity = ''40.1'', pressure = ''1013.2'', compass = ''90.0'',
      temperature = ''30.5'', cpu_temp = ?sf (Fin (real 48 + real (digits_val ''3'') / 10 ^ length ''3'')),
      gpu_temp = ?sf (Fin (of_int 47800 / 1000)), temperature_from_humidity = ''30.1'',
      temperature_from_pressure = ''29.9''\<rparr>"
    by (rule read_sample_parses_thermal_lines [where n = 48 and fp = "''3''" and i = 47800])
       (simp_all add: py_digits_48 g is_digit_def)
  then show ?thesis by (simp add: digits_val_def)
qed

end
