(* ===== verification/Spec2Isabelle.thy ===== *)
theory Spec2Isabelle
  imports System Concurrency Progress Sampler
begin

text \<open>
  \<^bold>\<open>A verification model of the greenhouse controller \<^verbatim>\<open>src/sensor.py\<close>.\<close>

  \<^bold>\<open>The program.\<close> One Python 2 module drives a Raspberry Pi greenhouse. Its main
  loop (\<^verbatim>\<open>main\<close>, lines 199--214) repeats forever: \<^verbatim>\<open>log_sensor\<close> takes a
  photo and uploads it to S3 (\<^verbatim>\<open>save_photo\<close>), reads the Sense HAT, stores one item
  in the DynamoDB table and appends one line to \<^verbatim>\<open>./log.txt\<close>; then
  \<^verbatim>\<open>turn_on_fan_if_hot\<close> switches the fan relay with a single threshold; then the loop
  sleeps. On the Sense HAT's event thread, joystick up toggles the fan
  (\<^verbatim>\<open>on_joy_up\<close>) and joystick down toggles a second relay (\<^verbatim>\<open>on_joy_down\<close>).
  Both contexts write the same module globals (\<^verbatim>\<open>is_fan_on\<close>,
  \<^verbatim>\<open>is_relay2_on\<close>, \<^verbatim>\<open>is_log_save_success\<close>) and the same LED matrix, whose
  pixel (0, 0) is the status light (\<^verbatim>\<open>display_error_led\<close>,
  \<^verbatim>\<open>display_success_led\<close>) and pixel (0, 2) the relay-2 light.

  \<^bold>\<open>The theories.\<close>
  \<^item> \<open>Prelude\<close>: the exceptions (\<open>exn\<close>: \<^verbatim>\<open>ClientError\<close>,
    \<^verbatim>\<open>KeyboardInterrupt\<close>, other \<^verbatim>\<open>Exception\<close>s) and the Python 2 string
    operations the program relies on: \<^verbatim>\<open>str.replace\<close> (\<open>py_replace\<close>),
    \<^verbatim>\<open>join\<close>, \<^verbatim>\<open>split\<close>, \<^verbatim>\<open>repr\<close> of strings and
    \<^verbatim>\<open>str\<close> of integers, with the facts that \<^verbatim>\<open>split\<close> undoes
    \<^verbatim>\<open>join\<close> when no piece holds the separator.
  \<^item> \<open>Devices\<close>: the LED matrix as a list of 64 RGB triples (\<open>set_pixel\<close>,
    \<open>blank\<close> for \<^verbatim>\<open>clear\<close>), the colours and \<^verbatim>\<open>success_pix\<close> of lines 27--41,
    the joystick actions, and \<^verbatim>\<open>temp_utils\<close> (modelled from the specification).
  \<^item> \<open>State\<close>: the configuration (lines 19--26, 52) and the process state \<open>world\<close>:
    the three globals, the two relay outputs, the fan animation, the matrix, and the
    external stores (photos on disk, S3 objects, DynamoDB items, the log file), with
    its start state \<open>init_world\<close> and the invariant \<open>wf_world\<close>.
  \<^item> \<open>Status\<close>, \<open>Fan\<close>, \<open>Joystick\<close>, \<open>Logger\<close>: one definition per function
    of the source, each taking and returning the state. A call to an outside service
    (camera, S3, sensors, DynamoDB, file write, temperature read, sleep) is not modelled
    inside; its outcome, a value or the exception it raises, is read from a record
    \<open>cycle_env\<close>, one per loop iteration. An exception propagates as the
    \<open>Some e\<close> / \<open>Inl e\<close> part of a result together with the state reached so far,
    and every \<^verbatim>\<open>try\<close>/\<^verbatim>\<open>except\<close> of the source is a case split on it.
  \<^item> \<open>MainLoop\<close>: one iteration (\<open>cycle\<close>), the \<^verbatim>\<open>except\<close> clauses
    (\<open>handle_exit\<close>), and the loop \<open>main_loop\<close> over a finite list of cycle
    environments. The source loop never ends by itself; the list is the outside world's
    behaviour during the first cycles, so a run either still runs (\<open>Running\<close>) or has
    exited (\<open>Exited w code\<close>). No fuel is needed: the recursion is on the list.
  \<^item> \<open>System\<close>: the controller as a labelled step relation \<open>sys_step\<close> whose steps
    are a returning \<open>log_sensor\<close>, a returning thermostat check, or one joystick event,
    in any order, and its reachable states \<open>reach\<close>. Each handler is one atomic step
    here, so \<open>reach\<close> leaves out the statement-level race of the fan cell; what is
    proved over it concerns fields that race cannot change (the relay, the flag of the
    last save, the stored items), or single steps.
  \<^item> \<open>Concurrency\<close>: the fan cell shared by the main thread's thermostat and the
    event thread's \<^verbatim>\<open>on_joy_up\<close>, statement by statement (\<open>exec_stmt\<close> over
    the bodies of \<^verbatim>\<open>start_fan\<close> and \<^verbatim>\<open>stop_fan\<close>), unguarded as in the source,
    together with the main thread's \<^verbatim>\<open>log_sensor\<close> and the event thread's
    \<^verbatim>\<open>on_joy_down\<close> as single steps; interleavings are written as schedules
    (\<open>run_sched\<close>). A \<open>locked\<close> variant describes the lock the specification asks
    for; no theorem relies on it.
  \<^item> \<open>Progress\<close>: the upload callback \<^verbatim>\<open>ProgressPercentage\<close>, its counter and
    the percentage each call prints, and a transfer as a sequence of calls
    (\<open>progress_run\<close>).
  \<^item> \<open>Sampler\<close>: the reads that build the Item (lines 123--135) in Python's
    evaluation order (\<open>read_sample\<close>): the Sense HAT readings as driver outcomes and
    the two thermal lines parsed by \<open>Thermal\<close>; \<^verbatim>\<open>str\<close> of a float is a parameter.
    The cycle environment's \<open>sample_res\<close> is related to it by hypothesis where a
    theorem spans both.
  \<^item> \<open>Clock\<close>: the cycle's timestamp \<^verbatim>\<open>str(datetime.datetime.utcnow())\<close>
    (line 97) as \<open>py_str_datetime\<close> of a \<open>datetime\<close> record: zero-padded fields
    and a \<^verbatim>\<open>.ffffff\<close> suffix only for non-zero microseconds. The instant itself
    is the field \<open>utc_dt\<close> of the cycle environment; \<open>utcnow\<close> abbreviates its
    printed form.
  \<^item> \<open>Thermal\<close>: the thermal adapters \<^verbatim>\<open>get_cpu_temp\<close> and
    \<^verbatim>\<open>get_gpu_temp\<close> (lines 57--66) from the line \<^verbatim>\<open>readline()\<close> returns:
    the \<^verbatim>\<open>replace\<close> calls and Python 2.7's \<^verbatim>\<open>float()\<close> (\<open>py_float\<close>:
    white space, sign, \<^verbatim>\<open>inf\<close>/\<^verbatim>\<open>nan\<close>, decimal literal with exponent,
    \<^verbatim>\<open>ValueError\<close> otherwise), with finite values as exact reals.
  \<^item> this theory: properties that span the status light, the fan and the logger.

  \<^bold>\<open>What is proved.\<close> The thermostat's behaviour on every branch (C1); the failure
  policy of the pipeline: a failed capture stores nothing and the loop goes on (C2, C11),
  an upload \<^verbatim>\<open>ClientError\<close> still stores the record with the local file name (C3),
  any other upload failure loses the record (C4), a DynamoDB failure ends the process
  (C12); a successful cycle stores exactly one record and one log line (C5), and a log
  line never holds a newline, quote or brace (C6); relay 2 toggles once per release
  (C7), joystick up toggles the fan (C8); the log file is append-only over the process
  (C9); the number of records equals the number of cycles whose photo was saved (C10);
  every exit has code 0 (C13); a Ctrl-C in the sleep exits gracefully (C14); even with
  the threads interleaved statement by statement, relay 2 agrees with its flag and the
  matrix stays well-formed in every reachable state (C15); the fan changes only at a threshold
  crossing or a user release (C16), relay 2 only on a joystick-down release (C17); and
  three defects: the success flag is never cleared (C18), the red error pixel is
  repainted green by the next fan stop (C19), a successful save erases the relay-2
  light (C20). For the two threads: the unguarded handlers race and can leave the fan
  flag on with the relay off (C21), so the fan cell has no invariant in the program. For
  the progress callback: a
  complete transfer ends at exactly 100 percent (C22), every percentage lies in
  [0, 100] (C23), and an empty photo makes the first call raise (C24). Finally the log
  line can be read back (C25): for a record whose string values are printable and hold
  no quote, backslash, comma or brace, splitting the line at \<^verbatim>\<open>, \<close> and each piece at
  \<^verbatim>\<open>: \<close> (\<open>parse_log_line\<close>, a reader written for the model, not code
  of the repository) gives back every key with the text of its value. The thermal
  adapters read the sysfs millidegree line as the integer divided by 1000 (C26) and a
  \<^verbatim>\<open>vcgencmd\<close> line as its decimal number (C27); empty output, or a
  \<^verbatim>\<open>vcgencmd\<close> line without its newline, raises \<^verbatim>\<open>ValueError\<close> (C28).
  Every item stored in any reachable state has the schema of the Item literal, with
  \<^verbatim>\<open>date\<close> a number, not text as the specification says (C29). Timestamps
  compare as strings exactly as their instants compare in time (C30), distinct instants
  give distinct photo names and keys (C31), and with a clock that moves forward the
  \<^verbatim>\<open>'log'\<close> keys a run stores strictly increase (C32). The Item's readings are
  the parsed thermal lines (C33), and a Raspberry Pi without \<^verbatim>\<open>vcgencmd\<close> stops the
  controller at its first saved photo, since the Item is built outside the
  \<^verbatim>\<open>try\<close> (C34).

  \<^bold>\<open>Modelling choices.\<close> Temperatures are reals (the program compares floats read
  from the sensor; no arithmetic is done on them). Sensor readings enter the record as
  the strings \<^verbatim>\<open>str()\<close> makes of them. \<^verbatim>\<open>str(Item)\<close> iterates the dictionary
  in CPython 2.7's hash order, fixed for these keys (\<open>item_iter_order\<close>). Sleeps
  change no state; only the loop's sleep may be interrupted.

  \<^bold>\<open>Not modelled (yet).\<close> The \<^verbatim>\<open>str()\<close> of the thermal readings in the
  Item (the record's strings come from the cycle environment), the rounding of
  \<^verbatim>\<open>float\<close> to doubles, the \<^verbatim>\<open>KeyError\<close> \<^verbatim>\<open>e.response['Error']['Code']\<close>
  could raise in the \<^verbatim>\<open>ClientError\<close> branch of \<^verbatim>\<open>save_photo\<close>, an interrupt in
  the sleeps of \<^verbatim>\<open>log_sensor\<close> and \<^verbatim>\<open>stop_fan\<close>, failures of the start-up code
  (lines 43--53, which would exit with a non-zero status), the text written to stdout, the contents of \<^verbatim>\<open>fan_animation\<close> (a flag here), and interleavings
  inside \<^verbatim>\<open>log_sensor\<close> (whose pixel writes can race with \<^verbatim>\<open>on_joy_down\<close>).
  The plan for the next sittings: the pixel race of \<^verbatim>\<open>log_sensor\<close> and
  \<^verbatim>\<open>on_joy_down\<close>, and \<^verbatim>\<open>str()\<close> of the float readings in the Item.
\<close>

section \<open>Properties across components\<close>

text \<open>
  C19: the red error pixel does not last until the next successful save. Once any record
  has been saved, a cycle whose capture fails shows the red pixel at (0, 0), but the next
  time the fan is switched off (by the thermostat or by joystick up) \<^verbatim>\<open>stop_fan\<close>
  calls \<^verbatim>\<open>display_success_led\<close>, which still sees the stale success flag and paints
  the same pixel green.
\<close>

theorem error_pixel_overwritten_by_fan_stop:
  assumes "is_log_save_success w" and "length (leds w) = 64" and "capture_res env = Some e"
  shows "status_pixel (fst (log_sensor c env w)) = (255, 0, 0) \<and>
    status_pixel (stop_fan (fst (log_sensor c env w))) = (0, 240, 0)"
proof -
  from assms(3) have "save_photo c env w = (w, Inl e)" by (simp add: save_photo_def)
  then have ls: "log_sensor c env w = (display_error_led w, None)" by (rule log_sensor_not_saved)
  have "length (leds (display_error_led w)) = 64" using assms(2) by (simp add: frame_simps)
  with ls assms(1,2) show ?thesis
    by (simp add: stop_fan_def status_pixel_success frame_simps)
qed

theorem error_pixel_overwritten_by_fan_stop_witness:
  "status_pixel (stop_fan (fst (log_sensor cfg (example_env\<lparr>capture_res := Some (Error ''camera'')\<rparr>)
      (fst (log_sensor cfg example_env (init_world [])))))) = (0, 240, 0)"
proof -
  let ?w1 = "fst (log_sensor cfg example_env (init_world []))"
  have s1: "is_log_save_success ?w1" and l1: "length (leds ?w1) = 64"
    by (simp_all add: log_sensor_def save_photo_def Let_def example_env_def display_success_led_def set_pixel_def)
  from error_pixel_overwritten_by_fan_stop [OF s1 l1, of "example_env\<lparr>capture_res := Some (Error ''camera'')\<rparr>"]
  show ?thesis by simp
qed

text \<open>
  C20: a successful save wipes the relay-2 indicator. \<^verbatim>\<open>on_joy_down\<close> draws the
  blue pixel (0, 2) when it switches relay 2 on, but \<^verbatim>\<open>log_sensor\<close> then shows the
  smiley and calls \<^verbatim>\<open>sense.clear()\<close>, so after the next successful cycle the pixel is
  black while the relay is still on.
\<close>

theorem relay_indicator_cleared_by_save:
  assumes "relay2_active w" and "capture_res env = None" and "upload_res env = None"
    and "sample_res env = Inr s" and "put_res env = None" and "write_res env = None"
    and "log_sensor c env w = (w', r)"
  shows "relay2_active w' \<and> pixel_at (leds w') 0 2 = O_pix"
proof -
  let ?w1 = "w\<lparr>photos := photos w @ [photo_folder c @ ''/'' @ utcnow env @ ''.jpg''],
              s3 := s3 w @ [(s3_bucket c, utcnow env @ ''.jpg'')]\<rparr>"
  have "save_photo c env w = (?w1, Inr (utcnow env, utcnow env @ ''.jpg'', photo_folder c @ ''/'' @ utcnow env @ ''.jpg''))"
    using assms(2,3) by (simp add: save_photo_def Let_def)
  from log_sensor_saved [OF this] assms(1,4-7) show ?thesis
    by (auto simp: frame_simps)
qed

theorem relay_indicator_cleared_by_save_witness:
  "relay2_active (fst (log_sensor cfg example_env (on_joy_down ACTION_RELEASED (init_world [])))) \<and>
   pixel_at (leds (fst (log_sensor cfg example_env (on_joy_down ACTION_RELEASED (init_world []))))) 0 2 = O_pix"
proof -
  have "relay2_active (on_joy_down ACTION_RELEASED (init_world []))"
    by (simp add: on_joy_down_def init_world_def)
  from relay_indicator_cleared_by_save [OF this, of example_env example_sample cfg, OF _ _ _ _ _ prod.collapse [symmetric]]
  show ?thesis by (simp add: example_env_def)
qed


text \<open>
  C34: a controller without \<^verbatim>\<open>vcgencmd\<close> stops at its first saved photo. The tool
  prints nothing, \<^verbatim>\<open>get_cpu_temp\<close> raises \<^verbatim>\<open>ValueError\<close> while the Item is
  built, outside the \<^verbatim>\<open>try\<close> of \<^verbatim>\<open>log_sensor\<close>; \<^verbatim>\<open>main\<close> shows the red
  pixel and exits with code 0, and the photo already uploaded has no record.
\<close>

theorem missing_vcgencmd_stops_controller:
  assumes "photo_saved env" and "sample_res env = read_sample sf r" and "cpu_line r = []"
    and "humidity_res r = Inr h" and "pressure_res r = Inr p" and "compass_res r = Inr cp"
    and "temperature_res r = Inr t" and "wf_world w"
  shows "\<exists>w'. main_loop c (env # envs) w = Exited w' 0 \<and> status_pixel w' = (255, 0, 0) \<and> table w' = table w"
proof -
  have "sample_res env = Inl (Error ''ValueError'')"
    using assms(2-7) thermal_empty_output by (simp add: read_sample_cpu_error)
  from saved_photo_read_error_exits [OF assms(1) this _ assms(8)] show ?thesis by simp
qed

theorem missing_vcgencmd_stops_controller_witness:
  "\<exists>w'. main_loop cfg [example_env\<lparr>sample_res := Inl (Error ''ValueError'')\<rparr>] (init_world []) = Exited w' 0 \<and>
     status_pixel w' = (255, 0, 0) \<and> table w' = []"
proof -
  let ?r = "\<lparr>time_now = 1588327200, humidity_res = Inr ''40.1'', pressure_res = Inr ''1013.2'', compass_res = Inr ''90.0'',
      temperature_res = Inr ''30.5'', cpu_line = [], gpu_line = ''47800'', temp_humidity_res = Inr ''30.1'',
      temp_pressure_res = Inr ''29.9''\<rparr>"
  let ?env = "example_env\<lparr>sample_res := Inl (Error ''ValueError'')\<rparr>"
  have s: "sample_res ?env = read_sample (\<lambda>x. ''0.0'') ?r"
    using thermal_empty_output by (simp add: read_sample_def)
  have p: "photo_saved ?env" by (simp add: photo_saved_def example_env_def)
  have t0: "table (init_world []) = []" by (simp add: init_world_def)
  from missing_vcgencmd_stops_controller [OF p s _ _ _ _ _ wf_init_world [of "[]"],
      of "''40.1''" "''1013.2''" "''90.0''" "''30.5''" cfg "[]"] t0
  show ?thesis by simp
qed

end
